theory Spec2Isabelle
  imports Main "HOL-Library.Word" "HOL-Library.Sublist" "HOL-Library.AList"
begin

section \<open>Strings and formatting\<close>

text \<open>
  Go strings are byte sequences and \<open>len\<close> counts bytes; \<open>string\<close> (a list of 8-bit
  characters) is the same thing. The helpers below are the library calls the
  program uses: \<open>strings.Split\<close> and \<open>strings.ReplaceAll\<close> with one-byte arguments,
  \<open>strings.HasPrefix\<close>, \<open>strings.TrimSpace\<close> on ASCII text, and the \<open>%d\<close>, \<open>%x\<close>,
  \<open>%02x\<close> verbs of \<open>fmt.Sprintf\<close>.
\<close>

fun Split :: "char \<Rightarrow> string \<Rightarrow> string list" where
  "Split c [] = [[]]"
| "Split c (x # xs) =
     (if x = c then [] # Split c xs
      else (case Split c xs of [] \<Rightarrow> [[x]] | p # ps \<Rightarrow> (x # p) # ps))"

definition ReplaceAll :: "char \<Rightarrow> char \<Rightarrow> string \<Rightarrow> string" where
  "ReplaceAll old new s = map (\<lambda>c. if c = old then new else c) s"

definition HasPrefix :: "string \<Rightarrow> string \<Rightarrow> bool" where
  "HasPrefix s p = (take (length p) s = p)"

definition digit :: "nat \<Rightarrow> char" where
  "digit n = ''0123456789abcdef'' ! (n mod 16)"

function showNat :: "nat \<Rightarrow> string" where
  "showNat n = (if n < 10 then [digit n] else showNat (n div 10) @ [digit (n mod 10)])"
  by pat_completeness auto
termination
  by (relation "measure id") auto

definition showInt :: "int \<Rightarrow> string" where
  "showInt i = (if i < 0 then CHR ''-'' # showNat (nat (- i)) else showNat (nat i))"

definition hex2 :: "8 word \<Rightarrow> string" where
  "hex2 b = [digit (unat b div 16), digit (unat b mod 16)]"

section \<open>Configuration model (config.go)\<close>

record VolumeMount =
  Source :: string
  Target :: string
  ReadOnly :: bool
  Automount :: "bool option"
  MountOptions :: string

text \<open>The errors the program returns, one constructor for each \<open>fmt.Errorf\<close> site
  (with the values it formats) and for each kind of library failure.\<close>

datatype error =
    InvalidVolumeSpec string
  | UnknownVolumeFlag string
  | YamlError
  | ReadComposeFailed
  | MkdirFailed "string list"
  | ReadFailed "string list"
  | ParseFailed "string list"
  | WriteFailed "string list"
  | NoAvailableSubnets
  | SaveNetworkMetadataFailed error
  | SSHPortInUse int
  | NoAvailablePorts int int
  | NoSSHPortAllocated
  | CreateInstanceDiskFailed
  | ResizeInstanceDiskFailed
  | ParseComposeFailed error
  | VMNotFound string
  | StopVMFailed
  | DeleteLinkFailed string
  | InvalidMountPath string string
  | BindMountMissing string
  | ResolveBindMountFailed error
  | VolumeNotDefined string
  | VolumeNotFound string
  | CreateVolumeDiskFailed
  | NbdConnectFailed
  | MkfsFailed
  | FormatVolumeFailed error
  | EnsureVolumeFailed error
  | VolumeDiskPathFailed error

text \<open>The loop over \<open>parts[2:]\<close> of \<open>parseShortForm\<close>: \<open>ro\<close> sets the flag, anything
  else returns the error at once.\<close>

fun parseFlags :: "string list \<Rightarrow> bool \<Rightarrow> error + bool" where
  "parseFlags [] ro = Inr ro"
| "parseFlags (flag # flags) ro =
     (if flag = ''ro'' then parseFlags flags True else Inl (UnknownVolumeFlag flag))"

definition parseShortForm :: "string \<Rightarrow> error + VolumeMount" where
  "parseShortForm spec =
     (case Split CHR '':'' spec of
        source # target # flags \<Rightarrow>
          (case parseFlags flags False of
             Inl e \<Rightarrow> Inl e
           | Inr ro \<Rightarrow> Inr \<lparr>Source = source, Target = target, ReadOnly = ro,
                           Automount = None, MountOptions = []\<rparr>)
      | _ \<Rightarrow> Inl (InvalidVolumeSpec spec))"

text \<open>A node that the YAML decoder hands to \<open>UnmarshalYAML\<close>: a scalar, which decodes
  into the string of its text (short form), a mapping that decodes into the struct
  (long form), or a node that is neither (a sequence, or a mapping with a value of
  the wrong type).\<close>

datatype yaml_volume = ShortForm string | LongForm VolumeMount | Undecodable

fun UnmarshalYAML :: "yaml_volume \<Rightarrow> error + VolumeMount" where
  "UnmarshalYAML (ShortForm s) = parseShortForm s"
| "UnmarshalYAML (LongForm v) = Inr v"
| "UnmarshalYAML Undecodable = Inl YamlError"

section \<open>Interface names (network.go)\<close>

text \<open>\<open>md5.Sum\<close> is the Go standard library's; it is a parameter here, giving byte
  \<open>i\<close> (for \<open>i < 16\<close>) of the digest of a string. \<open>getProjectName()\<close>, the base name
  of the working directory, is the parameter \<open>projectName\<close>.\<close>

type_synonym md5sum = "string \<Rightarrow> nat \<Rightarrow> 8 word"

definition hexDigest :: "(nat \<Rightarrow> 8 word) \<Rightarrow> string" where
  "hexDigest h = concat (map (\<lambda>i. hex2 (h i)) [0..<16])"

definition vmIdentifier :: "string \<Rightarrow> string \<Rightarrow> nat \<Rightarrow> string" where
  "vmIdentifier projectName vmName networkIndex =
     projectName @ ''-'' @ vmName @ ''-'' @ showNat networkIndex"

definition getBridgeName :: "string \<Rightarrow> string \<Rightarrow> string" where
  "getBridgeName projectName networkName =
     (let sanitizedProject = ReplaceAll CHR '' '' CHR ''-'' projectName;
          sanitizedNetwork = ReplaceAll CHR '' '' CHR ''-'' networkName;
          bridgeName = ''qc-'' @ sanitizedProject @ ''-'' @ sanitizedNetwork
      in if length bridgeName > 15 then take 15 bridgeName else bridgeName)"

definition getTAPName :: "md5sum \<Rightarrow> string \<Rightarrow> string \<Rightarrow> nat \<Rightarrow> string" where
  "getTAPName md5 projectName vmName networkIndex =
     (let hash = take 4 (hexDigest (md5 (vmIdentifier projectName vmName networkIndex)));
          sanitizedVM = ReplaceAll CHR '' '' CHR ''-'' vmName;
          sanitizedVM' = (if length sanitizedVM > 6 then take 6 sanitizedVM else sanitizedVM)
      in ''tap-'' @ hash @ ''-'' @ sanitizedVM')"


section \<open>The workspace\<close>

text \<open>
  All mutable state of a project is in the directory \<open>.qemu-compose\<close> of the working
  directory. A path is the list of its components below the working directory, and
  the file system is an association list from paths to nodes, read with \<open>map_of\<close>.
  A JSON file holds the value its loader decodes; a file holding anything else makes
  the loader fail to parse. These operations fail for structural reasons only (a
  component that is a file, a target that is a directory, a missing parent): full
  disks and permissions are not modelled, and \<open>os.Getwd\<close> always succeeds.
  The records of the metadata files carry their JSON keys as field names.
\<close>

type_synonym path = "string list"

record NetworkMetadata =
  subnet :: string
  driver :: string
  dnsmasq_unit :: string
  dnsmasq_active :: bool

record VolumeMetadata =
  vol_name :: string
  vol_size :: string
  disk_path :: string
  created :: string

record DiskMetadata =
  disk_size :: string

record PortMetadata =
  ssh :: int

text \<open>A QCOW2 image is known by its backing file, if any, and by the virtual size
  it was last given, if any; a text file by its text.\<close>

datatype content =
    NetworksJSON "(string \<times> NetworkMetadata) list"
  | VolumesJSON "(string \<times> VolumeMetadata) list"
  | DiskJSON DiskMetadata
  | PortsJSON PortMetadata
  | Qcow2 "string option" "string option"
  | TextFile string
  | Other

datatype node = Dir | File content

record world =
  fs :: "(path \<times> node) list"
  links :: "string list"
  stdout :: "string list"
  cmds :: "string list list"

definition Stat :: "world \<Rightarrow> path \<Rightarrow> node option" where
  "Stat w p = (if p = [] then Some Dir else map_of (fs w) p)"

text \<open>\<open>os.MkdirAll\<close>: walk the components, creating each missing directory; a
  component that exists as a file is an error.\<close>

fun mkdirs :: "(path \<times> node) list \<Rightarrow> path \<Rightarrow> string list \<Rightarrow> error + (path \<times> node) list" where
  "mkdirs f pre [] = Inr f"
| "mkdirs f pre (c # cs) =
     (case map_of f (pre @ [c]) of
        None \<Rightarrow> mkdirs ((pre @ [c], Dir) # f) (pre @ [c]) cs
      | Some Dir \<Rightarrow> mkdirs f (pre @ [c]) cs
      | Some (File x) \<Rightarrow> Inl (MkdirFailed (pre @ [c])))"

definition MkdirAll :: "world \<Rightarrow> path \<Rightarrow> error option \<times> world" where
  "MkdirAll w p =
     (case mkdirs (fs w) [] p of
        Inl e \<Rightarrow> (Some e, w)
      | Inr f \<Rightarrow> (None, w\<lparr>fs := f\<rparr>))"

datatype read_result = NotExist | ReadError | Data content

definition ReadFile :: "world \<Rightarrow> path \<Rightarrow> read_result" where
  "ReadFile w p =
     (case Stat w p of
        None \<Rightarrow> NotExist
      | Some Dir \<Rightarrow> ReadError
      | Some (File c) \<Rightarrow> Data c)"

definition WriteFile :: "world \<Rightarrow> path \<Rightarrow> content \<Rightarrow> error option \<times> world" where
  "WriteFile w p c =
     (if p = [] \<or> Stat w p = Some Dir \<or> Stat w (butlast p) \<noteq> Some Dir
      then (Some (WriteFailed p), w)
      else (None, w\<lparr>fs := AList.update p (File c) (fs w)\<rparr>))"

definition RemoveAll :: "world \<Rightarrow> path \<Rightarrow> world" where
  "RemoveAll w p = w\<lparr>fs := filter (\<lambda>(q, n). \<not> prefix p q) (fs w)\<rparr>"

definition workspace :: string where
  "workspace = ''.qemu-compose''"

section \<open>Subnet allocation (network.go)\<close>

record Network =
  Driver :: string
  Subnet :: string

definition getNetworkMetadataPath :: "world \<Rightarrow> (error + path) \<times> world" where
  "getNetworkMetadataPath w =
     (case MkdirAll w [workspace] of
        (Some e, w1) \<Rightarrow> (Inl e, w1)
      | (None, w1) \<Rightarrow> (Inr [workspace, ''networks.json''], w1))"

definition loadNetworkMetadata :: "world \<Rightarrow> (error + (string \<times> NetworkMetadata) list) \<times> world" where
  "loadNetworkMetadata w =
     (case getNetworkMetadataPath w of
        (Inl e, w1) \<Rightarrow> (Inl e, w1)
      | (Inr metadataPath, w1) \<Rightarrow>
          (case ReadFile w1 metadataPath of
             NotExist \<Rightarrow> (Inr [], w1)
           | ReadError \<Rightarrow> (Inl (ReadFailed metadataPath), w1)
           | Data (NetworksJSON metadata) \<Rightarrow> (Inr metadata, w1)
           | Data _ \<Rightarrow> (Inl (ParseFailed metadataPath), w1)))"

definition saveNetworkMetadata :: "world \<Rightarrow> (string \<times> NetworkMetadata) list \<Rightarrow> error option \<times> world" where
  "saveNetworkMetadata w metadata =
     (case getNetworkMetadataPath w of
        (Inl e, w1) \<Rightarrow> (Some e, w1)
      | (Inr metadataPath, w1) \<Rightarrow> WriteFile w1 metadataPath (NetworksJSON metadata))"

definition subnetCIDR :: "nat \<Rightarrow> string" where
  "subnetCIDR i = ''172.'' @ showNat (16 + i div 256) @ ''.'' @ showNat (i mod 256) @ ''.0/24''"

text \<open>The loop \<open>for i := 0; i < 4096; i++\<close> of \<open>allocateSubnet\<close>, from index \<open>i\<close> on.\<close>

function scanSubnets :: "string list \<Rightarrow> nat \<Rightarrow> string option" where
  "scanSubnets allocatedSubnets i =
     (if i < 4096
      then (if subnetCIDR i \<notin> set allocatedSubnets then Some (subnetCIDR i)
            else scanSubnets allocatedSubnets (i + 1))
      else None)"
  by pat_completeness auto
termination
  by (relation "measure (\<lambda>(a, i). 4096 - i)") auto

definition allocateSubnet :: "world \<Rightarrow> (error + string) \<times> world" where
  "allocateSubnet w =
     (case loadNetworkMetadata w of
        (Inl e, w1) \<Rightarrow> (Inl e, w1)
      | (Inr metadata, w1) \<Rightarrow>
          (case scanSubnets (map (\<lambda>(name, net). subnet net) metadata) 0 of
             Some s \<Rightarrow> (Inr s, w1)
           | None \<Rightarrow> (Inl NoAvailableSubnets, w1)))"

definition resolveNetworkSubnet :: "world \<Rightarrow> string \<Rightarrow> Network \<Rightarrow> (error + string) \<times> world" where
  "resolveNetworkSubnet w networkName network =
     (if Subnet network \<noteq> ''auto'' \<and> Subnet network \<noteq> [] then (Inr (Subnet network), w)
      else
        (case loadNetworkMetadata w of
           (Inl e, w1) \<Rightarrow> (Inl e, w1)
         | (Inr metadata, w1) \<Rightarrow>
             (case map_of metadata networkName of
                Some existing \<Rightarrow> (Inr (subnet existing), w1)
              | None \<Rightarrow>
                  (case allocateSubnet w1 of
                     (Inl e, w2) \<Rightarrow> (Inl e, w2)
                   | (Inr s, w2) \<Rightarrow>
                       (case saveNetworkMetadata w2
                               (AList.update networkName
                                  \<lparr>subnet = s, driver = Driver network,
                                   dnsmasq_unit = [], dnsmasq_active = False\<rparr> metadata) of
                          (Some e, w3) \<Rightarrow> (Inl (SaveNetworkMetadataFailed e), w3)
                        | (None, w3) \<Rightarrow> (Inr s, w3))))))"

section \<open>The environment\<close>

text \<open>
  What the program asks of the host and cannot be computed from the workspace is a
  parameter: the project name (\<open>getProjectName()\<close>, the base name of the working
  directory), the working directory itself, \<open>md5.Sum\<close>, whether a TCP port can be
  bound on \<open>127.0.0.1\<close> (\<open>isPortAvailable\<close>), and the outcome of running an external
  command: \<open>None\<close> when it cannot be run or exits non-zero, its output otherwise.
  Every command run is appended to \<open>cmds\<close>. The others are whether \<open>netlink.LinkDel\<close>
  succeeds on an interface, whether a path of the host outside the workspace exists
  (\<open>os.Stat\<close> in \<open>resolveBindMountPath\<close>), the path
  \<open>filepath.Join(filepath.Dir(composeFilePath), hostPath)\<close>, and \<open>os.Getpid()\<close>.
\<close>

record env =
  getProjectName :: string
  getwd :: string
  md5Sum :: md5sum
  isPortAvailable :: "int \<Rightarrow> bool"
  exec :: "string list \<Rightarrow> string option"
  linkDel :: "string \<Rightarrow> bool"
  hostPathExists :: "string \<Rightarrow> bool"
  resolveRelative :: "string \<Rightarrow> string \<Rightarrow> string"
  getpid :: int

definition run :: "env \<Rightarrow> world \<Rightarrow> string list \<Rightarrow> string option \<times> world" where
  "run E w args = (exec E args, w\<lparr>cmds := cmds w @ [args]\<rparr>)"

definition Printf :: "world \<Rightarrow> string \<Rightarrow> world" where
  "Printf w line = w\<lparr>stdout := stdout w @ [line]\<rparr>"

text \<open>\<open>filepath.Join\<close> of the working directory and plain components.\<close>

definition pathStr :: "env \<Rightarrow> path \<Rightarrow> string" where
  "pathStr E p = getwd E @ concat (map (\<lambda>c. ''/'' @ c) p)"

section \<open>Virtual machines (config.go, image.go, vm.go)\<close>

record SSH =
  Port :: int

record Disk =
  Size :: string

text \<open>The fields of a VM that the program reads; \<open>ports\<close>, \<open>depends_on\<close>,
  \<open>environment\<close>, \<open>provision\<close> and \<open>healthcheck\<close> are decoded and never used.\<close>

record VM =
  Image :: string
  CPU :: int
  Memory :: int
  Networks :: "string list"
  Volumes :: "VolumeMount list"
  Disk :: "Disk option"
  SSH :: "SSH option"

text \<open>\<open>getInstanceDir\<close> creates the directory \<open>.qemu-compose/<vmName>\<close>. A VM name
  is taken to be one component of a path, as the compose file specification asks
  (alphanumerics and dashes).\<close>

definition getInstanceDir :: "world \<Rightarrow> string \<Rightarrow> (error + path) \<times> world" where
  "getInstanceDir w vmName =
     (case MkdirAll w [workspace, vmName] of
        (Some e, w1) \<Rightarrow> (Inl e, w1)
      | (None, w1) \<Rightarrow> (Inr [workspace, vmName], w1))"

definition getPortMetadataPath :: "world \<Rightarrow> string \<Rightarrow> (error + path) \<times> world" where
  "getPortMetadataPath w vmName =
     (case getInstanceDir w vmName of
        (Inl e, w1) \<Rightarrow> (Inl e, w1)
      | (Inr instanceDir, w1) \<Rightarrow> (Inr (instanceDir @ [''ports.json'']), w1))"

definition loadPortMetadata :: "world \<Rightarrow> string \<Rightarrow> (error + PortMetadata option) \<times> world" where
  "loadPortMetadata w vmName =
     (case getPortMetadataPath w vmName of
        (Inl e, w1) \<Rightarrow> (Inl e, w1)
      | (Inr metadataPath, w1) \<Rightarrow>
          (case ReadFile w1 metadataPath of
             NotExist \<Rightarrow> (Inr None, w1)
           | ReadError \<Rightarrow> (Inl (ReadFailed metadataPath), w1)
           | Data (PortsJSON metadata) \<Rightarrow> (Inr (Some metadata), w1)
           | Data _ \<Rightarrow> (Inl (ParseFailed metadataPath), w1)))"

definition savePortMetadata :: "world \<Rightarrow> string \<Rightarrow> PortMetadata \<Rightarrow> error option \<times> world" where
  "savePortMetadata w vmName metadata =
     (case getPortMetadataPath w vmName of
        (Inl e, w1) \<Rightarrow> (Some e, w1)
      | (Inr metadataPath, w1) \<Rightarrow> WriteFile w1 metadataPath (PortsJSON metadata))"

text \<open>\<open>os.ReadDir\<close>: the entries of a directory, each with its node. The program
  uses the order of the entries only to choose the VM name shown in a log line.\<close>

definition ReadDir :: "world \<Rightarrow> path \<Rightarrow> (string \<times> node) list option" where
  "ReadDir w d =
     (if Stat w d = Some Dir
      then Some (List.map_filter (\<lambda>name. map_option (Pair name) (Stat w (d @ [name])))
                  (remdups (map (last \<circ> fst) (filter (\<lambda>(q, n). q \<noteq> [] \<and> butlast q = d) (fs w)))))
      else None)"

text \<open>The loop of \<open>getAllocatedPorts\<close> over the entries of the workspace.\<close>

fun scanEntries :: "world \<Rightarrow> (string \<times> node) list \<Rightarrow> (int \<times> string) list
    \<Rightarrow> (int \<times> string) list \<times> world" where
  "scanEntries w [] allocatedPorts = (allocatedPorts, w)"
| "scanEntries w ((vmName, n) # entries) allocatedPorts =
     (if n \<noteq> Dir then scanEntries w entries allocatedPorts
      else if vmName = ''ssh'' then scanEntries w entries allocatedPorts
      else
        (case loadPortMetadata w vmName of
           (Inr (Some portMetadata), w1) \<Rightarrow>
             (if ssh portMetadata > 0
              then scanEntries w1 entries (AList.update (ssh portMetadata) vmName allocatedPorts)
              else scanEntries w1 entries allocatedPorts)
         | (_, w1) \<Rightarrow> scanEntries w1 entries allocatedPorts))"

definition getAllocatedPorts :: "world \<Rightarrow> (int \<times> string) list \<times> world" where
  "getAllocatedPorts w =
     (case Stat w [workspace] of
        None \<Rightarrow> ([], w)
      | Some _ \<Rightarrow>
          (case ReadDir w [workspace] of
             None \<Rightarrow> ([], w)
           | Some entries \<Rightarrow> scanEntries w entries []))"

text \<open>The loop \<open>for port := startPort; port <= maxPort; port++\<close> of
  \<open>allocateSSHPort\<close>, from \<open>port\<close> on; a failure to save the choice is only logged.\<close>

function portLoop :: "env \<Rightarrow> world \<Rightarrow> string \<Rightarrow> (int \<times> string) list \<Rightarrow> int
    \<Rightarrow> (error + int) \<times> world" where
  "portLoop E w vmName allocatedPorts port =
     (if port \<le> 2322
      then (if map_of allocatedPorts port \<noteq> None
            then portLoop E w vmName allocatedPorts (port + 1)
            else if isPortAvailable E port
            then (Inr port, snd (savePortMetadata w vmName \<lparr>ssh = port\<rparr>))
            else portLoop E w vmName allocatedPorts (port + 1))
      else (Inl (NoAvailablePorts 2222 2322), w))"
  by pat_completeness auto
termination
  by (relation "measure (\<lambda>(E, w, vmName, a, port). nat (2323 - port))") auto

text \<open>\<open>vm.SSH != nil && vm.SSH.Port > 0\<close>: the port the configuration pins, if any.\<close>

definition manualPort :: "VM \<Rightarrow> int option" where
  "manualPort vm = (case SSH vm of Some s \<Rightarrow> (if Port s > 0 then Some (Port s) else None) | None \<Rightarrow> None)"

definition allocateSSHPort :: "env \<Rightarrow> world \<Rightarrow> string \<Rightarrow> VM \<Rightarrow> (error + int) \<times> world" where
  "allocateSSHPort E w vmName vm =
     (case manualPort vm of
        Some port \<Rightarrow>
          (if \<not> isPortAvailable E port then (Inl (SSHPortInUse port), w) else (Inr port, w))
      | None \<Rightarrow>
          (case loadPortMetadata w vmName of
             (r, w1) \<Rightarrow>
               (case (case r of
                        Inr (Some portMetadata) \<Rightarrow>
                          (if ssh portMetadata > 0 \<and> isPortAvailable E (ssh portMetadata)
                           then Some (ssh portMetadata) else None)
                      | _ \<Rightarrow> None) of
                  Some port \<Rightarrow> (Inr port, w1)
                | None \<Rightarrow>
                    (case getAllocatedPorts w1 of
                       (allocatedPorts, w2) \<Rightarrow> portLoop E w2 vmName allocatedPorts 2222))))"

definition getSSHPort :: "world \<Rightarrow> string \<Rightarrow> (error + int) \<times> world" where
  "getSSHPort w vmName =
     (case loadPortMetadata w vmName of
        (Inl e, w1) \<Rightarrow> (Inl e, w1)
      | (Inr None, w1) \<Rightarrow> (Inl NoSSHPortAllocated, w1)
      | (Inr (Some portMetadata), w1) \<Rightarrow>
          (if ssh portMetadata = 0 then (Inl NoSSHPortAllocated, w1)
           else (Inr (ssh portMetadata), w1)))"

definition getVMUnitName :: "string \<Rightarrow> string \<Rightarrow> string" where
  "getVMUnitName projectName vmName =
     ''qemu-compose-'' @ ReplaceAll CHR '' '' CHR ''-'' projectName @ ''-''
        @ ReplaceAll CHR '' '' CHR ''-'' vmName"

definition getConsoleSocketPath :: "env \<Rightarrow> world \<Rightarrow> string \<Rightarrow> string \<times> world" where
  "getConsoleSocketPath E w vmName =
     (case getInstanceDir w vmName of
        (Inl e, w1) \<Rightarrow> (''/tmp/qemu-compose-'' @ vmName @ ''-console.sock'', w1)
      | (Inr instanceDir, w1) \<Rightarrow> (pathStr E (instanceDir @ [''console.sock'']), w1))"

definition generateMACAddress :: "md5sum \<Rightarrow> string \<Rightarrow> string \<Rightarrow> nat \<Rightarrow> string" where
  "generateMACAddress md5 projectName vmName networkIndex =
     (let hash = md5 (vmIdentifier projectName vmName networkIndex)
      in ''52:54:00:'' @ hex2 (hash 0) @ '':'' @ hex2 (hash 1) @ '':'' @ hex2 (hash 2))"

text \<open>A mount as \<open>parseVMVolumes\<close> resolves it (the struct \<open>VMVolumeMount\<close>; its
  fields \<open>ReadOnly\<close>, \<open>Automount\<close> and \<open>MountOptions\<close> are prefixed here, the names
  being taken by \<open>VolumeMount\<close>).\<close>

record VMVolumeMount =
  VolumeName :: string
  MountPath :: string
  MountReadOnly :: bool
  MountAutomount :: bool
  MountMountOptions :: string
  IsBindMount :: bool
  HostPath :: string
  DiskPath :: string

text \<open>The loop of \<open>buildQEMUCommand\<close> over the mounts, with its counter
  \<open>virtfsIndex\<close>.\<close>

fun volumeArgs :: "VMVolumeMount list \<Rightarrow> nat \<Rightarrow> string list" where
  "volumeArgs [] virtfsIndex = []"
| "volumeArgs (mount # mounts) virtfsIndex =
     (if IsBindMount mount
      then [''-virtfs'',
            ''local,path='' @ HostPath mount @ '',mount_tag=mount'' @ showNat virtfsIndex
              @ '',security_model=passthrough,id=mount'' @ showNat virtfsIndex]
           @ volumeArgs mounts (virtfsIndex + 1)
      else [''-drive'', ''file='' @ DiskPath mount @ '',format=qcow2,if=virtio'']
           @ volumeArgs mounts virtfsIndex)"

definition tapArgs :: "env \<Rightarrow> string \<Rightarrow> nat \<Rightarrow> string list" where
  "tapArgs E vmName i =
     (let tapName = getTAPName (md5Sum E) (getProjectName E) vmName i;
          macAddr = generateMACAddress (md5Sum E) (getProjectName E) vmName i
      in [''-netdev'', ''tap,id=net'' @ showNat i @ '',ifname='' @ tapName @ '',script=no,downscript=no'',
          ''-device'', ''virtio-net-pci,netdev=net'' @ showNat i @ '',mac='' @ macAddr])"

definition userArgs :: "env \<Rightarrow> string \<Rightarrow> nat \<Rightarrow> int \<Rightarrow> string list" where
  "userArgs E vmName netIndex sshPort =
     (let macAddr = generateMACAddress (md5Sum E) (getProjectName E) vmName netIndex
      in [''-netdev'', ''user,id=net'' @ showNat netIndex @ '',hostfwd=tcp:127.0.0.1:''
                        @ showInt sshPort @ ''-:22'',
          ''-device'', ''virtio-net-pci,netdev=net'' @ showNat netIndex @ '',mac='' @ macAddr])"

definition buildQEMUCommand :: "env \<Rightarrow> world \<Rightarrow> string \<Rightarrow> VM \<Rightarrow> string \<Rightarrow> string \<Rightarrow> int
    \<Rightarrow> VMVolumeMount list \<Rightarrow> string list \<times> world" where
  "buildQEMUCommand E w vmName vm instanceDiskPath cloudInitISOPath sshPort volumeMounts =
     (case getConsoleSocketPath E w vmName of
        (socketPath, w1) \<Rightarrow>
          ([''qemu-system-x86_64'',
            ''-name'', vmName,
            ''-m'', showInt (Memory vm),
            ''-smp'', showInt (CPU vm),
            ''-drive'', ''file='' @ instanceDiskPath @ '',format=qcow2,if=virtio'',
            ''-nographic'',
            ''-serial'', ''unix:'' @ socketPath @ '',server,nowait'']
           @ volumeArgs volumeMounts 0
           @ (if length (Networks vm) > 0
              then concat (map (tapArgs E vmName) [0..<length (Networks vm)])
                   @ (if sshPort > 0 then userArgs E vmName (length (Networks vm)) sshPort else [])
              else (if sshPort > 0 then userArgs E vmName 0 sshPort else []))
           @ (if cloudInitISOPath \<noteq> [] then
                [''-drive'', ''file='' @ cloudInitISOPath @ '',format=raw,if=virtio,media=cdrom'']
              else []),
           w1))"

text \<open>The part of \<open>startVM\<close> that computes \<open>macAddresses\<close>, the list it hands to
  the cloud-init seed generator, from the port \<open>allocateSSHPort\<close> returned.\<close>

definition macAddresses :: "env \<Rightarrow> string \<Rightarrow> VM \<Rightarrow> int \<Rightarrow> string list" where
  "macAddresses E vmName vm sshPort =
     map (generateMACAddress (md5Sum E) (getProjectName E) vmName) [0..<length (Networks vm)]
     @ (if sshPort > 0
        then [generateMACAddress (md5Sum E) (getProjectName E) vmName (length (Networks vm))]
        else [])"

text \<open>Reading a QEMU command line back: after the program name come options, each
  with one argument except \<open>-nographic\<close>; \<open>deviceArgs\<close> collects the arguments of
  \<open>-device\<close>, and \<open>deviceMAC\<close> reads the \<open>mac=\<close> property of a
  \<open>virtio-net-pci,netdev=...,mac=...\<close> device.\<close>

fun deviceArgs :: "string list \<Rightarrow> string list" where
  "deviceArgs [] = []"
| "deviceArgs [opt] = []"
| "deviceArgs (opt # arg # rest) =
     (if opt = ''-nographic'' then deviceArgs (arg # rest)
      else if opt = ''-device'' then arg # deviceArgs rest
      else deviceArgs rest)"

definition deviceMAC :: "string \<Rightarrow> string option" where
  "deviceMAC arg =
     (case Split CHR '','' arg of
        [model, netdev, mac] \<Rightarrow>
          (if model = ''virtio-net-pci'' \<and> HasPrefix mac ''mac='' then Some (drop 4 mac) else None)
      | _ \<Rightarrow> None)"

section \<open>The network configuration of the cloud-init seed (cloudinit.go)\<close>

text \<open>\<open>generateCloudInitISOWithVolumes\<close> uses its argument \<open>macAddresses\<close>, the list
  \<open>startVM\<close> computes, in two places: the \<open>network:\<close> block of the template
  \<open>cloudInitTemplate\<close>, rendered into \<open>user-data\<close>, and the file \<open>network-config\<close>,
  written when the list is not empty. Both are modelled, as the text produced; the
  rest of the generator (the user, the key, the mounts, the ISO command) is not.\<close>

definition newline :: char where
  "newline = CHR 0x0A"

definition dquote :: char where
  "dquote = CHR 0x22"

text \<open>The argument \<open>macAddresses\<close> is called \<open>addresses\<close> below. One turn of the loop over
  it: the string
  \<open>fmt.Sprintf("    %s:\n      match:\n        macaddress: \"%s\"\n      dhcp4: true\n      set-name: %s\n",
  ifName, macAddr, ifName)\<close> with \<open>ifName = fmt.Sprintf("net%d", i)\<close>.\<close>

definition ethernetEntry :: "nat \<Rightarrow> string \<Rightarrow> string" where
  "ethernetEntry i macAddr =
     (let ifName = ''net'' @ showNat i
      in ''    '' @ ifName @ '':'' @ [newline]
         @ ''      match:'' @ [newline]
         @ ''        macaddress: '' @ [dquote] @ macAddr @ [dquote] @ [newline]
         @ ''      dhcp4: true'' @ [newline]
         @ ''      set-name: '' @ ifName @ [newline])"

definition networkConfigContent :: "string list \<Rightarrow> string" where
  "networkConfigContent addresses =
     ''network:'' @ [newline] @ ''  version: 2'' @ [newline] @ ''  ethernets:'' @ [newline]
     @ concat (map (\<lambda>(i, macAddr). ethernetEntry i macAddr) (enumerate 0 addresses))"

text \<open>The block \<open>if len(macAddresses) > 0 { ... }\<close> that writes \<open>network-config\<close> into
  the directory \<open>cloud-init\<close> of the instance.\<close>

definition writeNetworkConfig :: "world \<Rightarrow> path \<Rightarrow> string list \<Rightarrow> error option \<times> world" where
  "writeNetworkConfig w cloudInitDir addresses =
     (if length addresses > 0
      then WriteFile w (cloudInitDir @ [''network-config''])
             (TextFile (networkConfigContent addresses))
      else (None, w))"

text \<open>What the template renders between \<open>ssh_pwauth: true\<close> and the volume section:
  nothing for an empty list; otherwise the three header lines and, for each
  address, the five lines of the \<open>range\<close> body, each line after a newline (the
  actions \<open>{{- ...}}\<close> trim the white space before them).\<close>

definition userDataNetwork :: "string list \<Rightarrow> string" where
  "userDataNetwork addresses =
     (if addresses = [] then []
      else
        [newline] @ ''network:'' @ [newline] @ ''  version: 2'' @ [newline] @ ''  ethernets:''
        @ concat (map (\<lambda>(i, mac).
                    [newline] @ ''    net'' @ showNat i @ '':''
                    @ [newline] @ ''      match:''
                    @ [newline] @ ''        macaddress: '' @ [dquote] @ mac @ [dquote]
                    @ [newline] @ ''      dhcp4: true''
                    @ [newline] @ ''      set-name: net'' @ showNat i)
                  (enumerate 0 addresses)))"

section \<open>Instance disks (image.go)\<close>

definition getDiskMetadataPath :: "world \<Rightarrow> string \<Rightarrow> (error + path) \<times> world" where
  "getDiskMetadataPath w vmName =
     (case getInstanceDir w vmName of
        (Inl e, w1) \<Rightarrow> (Inl e, w1)
      | (Inr instanceDir, w1) \<Rightarrow> (Inr (instanceDir @ [''disk.metadata.json'']), w1))"

definition loadDiskMetadata :: "world \<Rightarrow> string \<Rightarrow> (error + DiskMetadata option) \<times> world" where
  "loadDiskMetadata w vmName =
     (case getDiskMetadataPath w vmName of
        (Inl e, w1) \<Rightarrow> (Inl e, w1)
      | (Inr metadataPath, w1) \<Rightarrow>
          (case ReadFile w1 metadataPath of
             NotExist \<Rightarrow> (Inr None, w1)
           | ReadError \<Rightarrow> (Inl (ReadFailed metadataPath), w1)
           | Data (DiskJSON metadata) \<Rightarrow> (Inr (Some metadata), w1)
           | Data _ \<Rightarrow> (Inl (ParseFailed metadataPath), w1)))"

definition saveDiskMetadata :: "world \<Rightarrow> string \<Rightarrow> DiskMetadata \<Rightarrow> error option \<times> world" where
  "saveDiskMetadata w vmName metadata =
     (case getDiskMetadataPath w vmName of
        (Inl e, w1) \<Rightarrow> (Some e, w1)
      | (Inr metadataPath, w1) \<Rightarrow> WriteFile w1 metadataPath (DiskJSON metadata))"

text \<open>\<open>qemu-img resize\<close>: when the command succeeds, the image at the path has the
  new virtual size.\<close>

definition resizeInstanceDisk :: "env \<Rightarrow> world \<Rightarrow> path \<Rightarrow> string \<Rightarrow> error option \<times> world" where
  "resizeInstanceDisk E w instanceDisk diskSize =
     (case run E w [''qemu-img'', ''resize'', pathStr E instanceDisk, diskSize] of
        (None, w1) \<Rightarrow> (Some ResizeInstanceDiskFailed, w1)
      | (Some output, w1) \<Rightarrow>
          (case Stat w1 instanceDisk of
             Some (File (Qcow2 backing old)) \<Rightarrow>
               (None, w1\<lparr>fs := AList.update instanceDisk (File (Qcow2 backing (Some diskSize))) (fs w1)\<rparr>)
           | _ \<Rightarrow> (None, w1)))"

text \<open>The warning sign and the check mark of the printed lines, in UTF-8.\<close>

definition warnSign :: string where
  "warnSign = [CHR 0xE2, CHR 0x9A, CHR 0xA0]"

definition checkMark :: string where
  "checkMark = [CHR 0xE2, CHR 0x9C, CHR 0x93]"

text \<open>\<open>qemu-img create -b\<close>: when the command succeeds, the overlay exists, backed
  by the base image, with no size of its own yet.\<close>

definition createInstanceDisk :: "env \<Rightarrow> world \<Rightarrow> string \<Rightarrow> string \<Rightarrow> Disk option
    \<Rightarrow> (error + string) \<times> world" where
  "createInstanceDisk E w vmName baseImagePath diskConfig =
     (case getInstanceDir w vmName of
        (Inl e, w1) \<Rightarrow> (Inl e, w1)
      | (Inr instanceDir, w1) \<Rightarrow>
          (let instanceDisk = instanceDir @ [''disk.qcow2''];
               instanceDiskPath = pathStr E instanceDisk;
               diskSize = (case diskConfig of
                         None \<Rightarrow> ''10G''
                       | Some d \<Rightarrow> (if Size d = [] then ''10G'' else Size d))
           in if Stat w1 instanceDisk \<noteq> None
              then
                (if diskSize \<noteq> []
                 then
                   (case loadDiskMetadata w1 vmName of
                      (Inl e, w2) \<Rightarrow>
                        (Inr instanceDiskPath,
                         Printf w2 (''  '' @ warnSign
                            @ '' Warning: could not verify disk size (metadata error)'' @ [CHR 0x0A]))
                    | (Inr None, w2) \<Rightarrow>
                        (Inr instanceDiskPath,
                         snd (saveDiskMetadata w2 vmName \<lparr>disk_size = diskSize\<rparr>))
                    | (Inr (Some metadata), w2) \<Rightarrow>
                        (if disk_size metadata \<noteq> diskSize
                         then
                           (Inr instanceDiskPath,
                            Printf (Printf (Printf w2
                              (''  '' @ warnSign @ '' Warning: disk.size is set to '' @ diskSize
                                 @ '' but instance disk was created with size '' @ disk_size metadata
                                 @ [CHR 0x0A]))
                              (''  '' @ warnSign
                                 @ '' Disk size changes after first creation are not applied automatically''
                                 @ [CHR 0x0A]))
                              (''  '' @ warnSign @ '' To resize, stop the VM, delete .qemu-compose/''
                                 @ vmName @ ''/, and run '' @ [CHR 0x27] @ ''up'' @ [CHR 0x27]
                                 @ '' again'' @ [CHR 0x0A]))
                         else (Inr instanceDiskPath, w2)))
                 else (Inr instanceDiskPath, w1))
              else
                (case run E w1 [''qemu-img'', ''create'', ''-f'', ''qcow2'', ''-F'', ''qcow2'',
                                ''-b'', baseImagePath, instanceDiskPath] of
                   (None, w2) \<Rightarrow> (Inl CreateInstanceDiskFailed, w2)
                 | (Some output, w2) \<Rightarrow>
                     (let w3 = w2\<lparr>fs := AList.update instanceDisk
                                          (File (Qcow2 (Some baseImagePath) None)) (fs w2)\<rparr>
                      in if diskSize \<noteq> []
                         then
                           (case resizeInstanceDisk E w3 instanceDisk diskSize of
                              (Some e, w4) \<Rightarrow> (Inl e, w4)
                            | (None, w4) \<Rightarrow>
                                (Inr instanceDiskPath,
                                 snd (saveDiskMetadata
                                        (Printf w4 (''  '' @ checkMark @ '' Disk resized to '' @ diskSize
                                                      @ [CHR 0x0A]))
                                        vmName \<lparr>disk_size = diskSize\<rparr>)))
                         else (Inr instanceDiskPath, w3)))))"

section \<open>Status (cloudinit.go, vm.go)\<close>

text \<open>\<open>strings.ToLower\<close>, \<open>strings.Contains\<close> and \<open>strings.TrimSpace\<close> on ASCII text
  (image URLs and the output of \<open>systemctl\<close>).\<close>

definition ToLower :: "string \<Rightarrow> string" where
  "ToLower s =
     map (\<lambda>c. if 65 \<le> (of_char c :: nat) \<and> (of_char c :: nat) \<le> 90
              then char_of ((of_char c :: nat) + 32) else c) s"

fun Contains :: "string \<Rightarrow> string \<Rightarrow> bool" where
  "Contains [] substr = (substr = [])"
| "Contains (c # s) substr = (HasPrefix (c # s) substr \<or> Contains s substr)"

definition isSpace :: "char \<Rightarrow> bool" where
  "isSpace c = (c \<in> set [CHR 0x09, CHR 0x0A, CHR 0x0B, CHR 0x0C, CHR 0x0D, CHR 0x20])"

definition TrimSpace :: "string \<Rightarrow> string" where
  "TrimSpace s = rev (dropWhile isSpace (rev (dropWhile isSpace s)))"

definition detectOSFromImage :: "string \<Rightarrow> string" where
  "detectOSFromImage imageURL =
     (let lowerURL = ToLower imageURL
      in if Contains lowerURL ''fedora'' then ''fedora''
         else if Contains lowerURL ''ubuntu'' then ''ubuntu''
         else if Contains lowerURL ''debian'' then ''debian''
         else if Contains lowerURL ''centos'' then ''centos''
         else if Contains lowerURL ''rhel'' then ''rhel''
         else ''ubuntu'')"

definition getDefaultUserForOS :: "string \<Rightarrow> string" where
  "getDefaultUserForOS osType =
     (if osType = ''fedora'' then ''fedora''
      else if osType = ''ubuntu'' then ''ubuntu''
      else if osType = ''debian'' then ''debian''
      else if osType = ''centos'' then ''centos''
      else if osType = ''rhel'' then ''cloud-user''
      else ''ubuntu'')"

definition vmInstanceExists :: "world \<Rightarrow> string \<Rightarrow> bool \<times> world" where
  "vmInstanceExists w vmName =
     (case getInstanceDir w vmName of
        (Inl e, w1) \<Rightarrow> (False, w1)
      | (Inr instanceDir, w1) \<Rightarrow> (Stat w1 (instanceDir @ [''disk.qcow2'']) \<noteq> None, w1))"

definition isVMRunning :: "env \<Rightarrow> world \<Rightarrow> string \<Rightarrow> bool \<times> world" where
  "isVMRunning E w vmName =
     (case run E w [''systemctl'', ''--user'', ''is-active'', getVMUnitName (getProjectName E) vmName] of
        (None, w1) \<Rightarrow> (False, w1)
      | (Some output, w1) \<Rightarrow> (TrimSpace output = ''active'', w1))"

definition sshProbeCommand :: "env \<Rightarrow> int \<Rightarrow> string \<Rightarrow> string list" where
  "sshProbeCommand E sshPort imageURL =
     [''ssh'',
      ''-i'', pathStr E [workspace, ''ssh'', ''id_ed25519''],
      ''-p'', showInt sshPort,
      ''-o'', ''ConnectTimeout=2'',
      ''-o'', ''BatchMode=yes'',
      ''-o'', ''StrictHostKeyChecking=no'',
      ''-o'', ''UserKnownHostsFile=/dev/null'',
      getDefaultUserForOS (detectOSFromImage imageURL) @ ''@localhost'',
      ''exit'']"

definition isVMReady :: "env \<Rightarrow> world \<Rightarrow> string \<Rightarrow> string \<Rightarrow> bool \<times> world" where
  "isVMReady E w vmName imageURL =
     (case getSSHPort w vmName of
        (Inl e, w1) \<Rightarrow> (False, w1)
      | (Inr sshPort, w1) \<Rightarrow>
          (if Stat w1 [workspace, ''ssh'', ''id_ed25519''] = None then (False, w1)
           else
             (case run E w1 (sshProbeCommand E sshPort imageURL) of
                (None, w2) \<Rightarrow> (False, w2)
              | (Some output, w2) \<Rightarrow> (True, w2))))"

definition getVMStatus :: "env \<Rightarrow> world \<Rightarrow> string \<Rightarrow> string \<Rightarrow> string \<times> world" where
  "getVMStatus E w vmName imageURL =
     (case vmInstanceExists w vmName of
        (False, w1) \<Rightarrow> (''not-created'', w1)
      | (True, w1) \<Rightarrow>
          (case run E w1 [''systemctl'', ''--user'', ''show'',
                          getVMUnitName (getProjectName E) vmName,
                          ''--property=ActiveState'', ''--value''] of
             (None, w2) \<Rightarrow> (''unknown'', w2)
           | (Some output, w2) \<Rightarrow>
               (let status = TrimSpace output
                in if status = ''inactive'' then (''stopped'', w2)
                   else if status = ''active''
                   then (case isVMReady E w2 vmName imageURL of
                           (True, w3) \<Rightarrow> (''ready'', w3)
                         | (False, w3) \<Rightarrow> (''starting'', w3))
                   else (status, w2))))"

section \<open>The compose file (config.go, main)\<close>

text \<open>The struct \<open>Volume\<close> has the one field \<open>Size\<close>, called \<open>VolumeSize\<close> here; the
  fields \<open>Networks\<close> and \<open>Volumes\<close> of \<open>ComposeConfig\<close> are called \<open>ProjectNetworks\<close>
  and \<open>ProjectVolumes\<close>, the names being those of the fields of \<open>VM\<close>. A Go map is an
  association list with one entry for each key; the order in which the program
  ranges over a map is not specified, and the list order stands for it.\<close>

record Volume =
  VolumeSize :: string

record ComposeConfig =
  Version :: string
  ProjectNetworks :: "(string \<times> Network) list"
  ProjectVolumes :: "(string \<times> Volume) list"
  VMs :: "(string \<times> VM) list"

text \<open>What \<open>os.ReadFile\<close> and \<open>yaml.Unmarshal\<close> (a library, \<open>gopkg.in/yaml.v3\<close>) make of
  the compose file, as far as \<open>loadComposeFile\<close> depends on it:
  \<^item> \<open>Unreadable\<close>: \<open>os.ReadFile\<close> fails;
  \<^item> \<open>Malformed\<close>: the text is not a YAML document (or has a duplicate key);
  \<^item> \<open>Mistyped\<close>: the text is YAML, and a node other than an entry of \<open>volumes\<close> does not
    fit the Go type of its field: \<open>cpu: two\<close>, \<open>memory: 2G\<close>, an integer beyond the range
    of \<open>int\<close>, a mapping where a string is expected;
  \<^item> \<open>Document\<close>: every such node fits. The document holds the version, the networks,
    the volumes and, for each VM, the keys that were written: a key left out (or
    null) is \<open>None\<close> and decodes to the zero value of its field; \<open>raw_image\<close> is the key
    \<open>image\<close>, and so on. An integer is a Go \<open>int\<close>, of 64 bits, read as signed;
    \<open>raw_ssh\<close> is the port of the mapping \<open>ssh\<close>, 0 when the mapping has none.

  An entry of the sequence \<open>volumes\<close> is a null node or another node. The decoder
  does not hand a null entry to \<open>UnmarshalYAML\<close>: it leaves the entry out of the slice
  or keeps a value for it (the zero \<open>VolumeMount\<close>), and \<open>Null\<close> carries this outcome of
  the library. Every other node is handed to \<open>UnmarshalYAML\<close>.\<close>

datatype yaml_entry = Null "VolumeMount option" | Node yaml_volume

record RawVM =
  raw_image :: "string option"
  raw_cpu :: "64 word option"
  raw_memory :: "64 word option"
  raw_networks :: "string list"
  raw_volumes :: "yaml_entry list"
  raw_disk :: "Disk option"
  raw_ssh :: "64 word option"

datatype compose_file =
    Unreadable
  | Malformed
  | Mistyped
  | Document string "(string \<times> Network) list" "(string \<times> Volume) list" "(string \<times> RawVM) list"

fun decodeVolumes :: "yaml_entry list \<Rightarrow> error + VolumeMount list" where
  "decodeVolumes [] = Inr []"
| "decodeVolumes (Null kept # vs) =
     (case decodeVolumes vs of
        Inl e \<Rightarrow> Inl e
      | Inr mounts \<Rightarrow> Inr ((case kept of None \<Rightarrow> [] | Some mount \<Rightarrow> [mount]) @ mounts))"
| "decodeVolumes (Node v # vs) =
     (case UnmarshalYAML v of
        Inl e \<Rightarrow> Inl e
      | Inr mount \<Rightarrow> (case decodeVolumes vs of Inl e \<Rightarrow> Inl e | Inr mounts \<Rightarrow> Inr (mount # mounts)))"

definition decodeVM :: "RawVM \<Rightarrow> error + VM" where
  "decodeVM raw =
     (case decodeVolumes (raw_volumes raw) of
        Inl e \<Rightarrow> Inl e
      | Inr mounts \<Rightarrow>
          Inr \<lparr>Image = (case raw_image raw of None \<Rightarrow> [] | Some s \<Rightarrow> s),
               CPU = (case raw_cpu raw of None \<Rightarrow> 0 | Some n \<Rightarrow> sint n),
               Memory = (case raw_memory raw of None \<Rightarrow> 0 | Some n \<Rightarrow> sint n),
               Networks = raw_networks raw,
               Volumes = mounts,
               Disk = raw_disk raw,
               SSH = (case raw_ssh raw of None \<Rightarrow> None | Some port \<Rightarrow> Some \<lparr>Port = sint port\<rparr>)\<rparr>)"

fun decodeVMs :: "(string \<times> RawVM) list \<Rightarrow> error + (string \<times> VM) list" where
  "decodeVMs [] = Inr []"
| "decodeVMs ((name, raw) # rest) =
     (case decodeVM raw of
        Inl e \<Rightarrow> Inl e
      | Inr vm \<Rightarrow> (case decodeVMs rest of Inl e \<Rightarrow> Inl e | Inr vms \<Rightarrow> Inr ((name, vm) # vms)))"

definition loadComposeFile :: "compose_file \<Rightarrow> error + ComposeConfig" where
  "loadComposeFile composeFile =
     (case composeFile of
        Unreadable \<Rightarrow> Inl ReadComposeFailed
      | Malformed \<Rightarrow> Inl (ParseComposeFailed YamlError)
      | Mistyped \<Rightarrow> Inl (ParseComposeFailed YamlError)
      | Document version nets vols vms \<Rightarrow>
          (case decodeVMs vms of
             Inl e \<Rightarrow> Inl (ParseComposeFailed e)
           | Inr decoded \<Rightarrow>
               Inr \<lparr>Version = version, ProjectNetworks = nets, ProjectVolumes = vols,
                    VMs = decoded\<rparr>))"

fun filterLoop :: "(string \<times> VM) list \<Rightarrow> string list \<Rightarrow> (string \<times> VM) list
    \<Rightarrow> error + (string \<times> VM) list" where
  "filterLoop vms [] filtered = Inr filtered"
| "filterLoop vms (vmName # vmNames) filtered =
     (case map_of vms vmName of
        None \<Rightarrow> Inl (VMNotFound vmName)
      | Some vm \<Rightarrow> filterLoop vms vmNames (AList.update vmName vm filtered))"

definition filterVMs :: "ComposeConfig \<Rightarrow> string list \<Rightarrow> error + (string \<times> VM) list" where
  "filterVMs config vmNames =
     (if vmNames = [] then Inr (VMs config) else filterLoop (VMs config) vmNames [])"

section \<open>Named volumes and bind mounts (volume.go, vm.go)\<close>

definition getVolumesDir :: "world \<Rightarrow> (error + path) \<times> world" where
  "getVolumesDir w =
     (case MkdirAll w [workspace, ''volumes''] of
        (Some e, w1) \<Rightarrow> (Inl e, w1)
      | (None, w1) \<Rightarrow> (Inr [workspace, ''volumes''], w1))"

definition getVolumeMetadataPath :: "world \<Rightarrow> (error + path) \<times> world" where
  "getVolumeMetadataPath w =
     (case MkdirAll w [workspace] of
        (Some e, w1) \<Rightarrow> (Inl e, w1)
      | (None, w1) \<Rightarrow> (Inr [workspace, ''volumes.json''], w1))"

definition loadVolumeMetadata :: "world \<Rightarrow> (error + (string \<times> VolumeMetadata) list) \<times> world" where
  "loadVolumeMetadata w =
     (case getVolumeMetadataPath w of
        (Inl e, w1) \<Rightarrow> (Inl e, w1)
      | (Inr metadataPath, w1) \<Rightarrow>
          (case ReadFile w1 metadataPath of
             NotExist \<Rightarrow> (Inr [], w1)
           | ReadError \<Rightarrow> (Inl (ReadFailed metadataPath), w1)
           | Data (VolumesJSON metadata) \<Rightarrow> (Inr metadata, w1)
           | Data _ \<Rightarrow> (Inl (ParseFailed metadataPath), w1)))"

definition saveVolumeMetadata :: "world \<Rightarrow> (string \<times> VolumeMetadata) list \<Rightarrow> error option \<times> world" where
  "saveVolumeMetadata w metadata =
     (case getVolumeMetadataPath w of
        (Inl e, w1) \<Rightarrow> (Some e, w1)
      | (Inr metadataPath, w1) \<Rightarrow> WriteFile w1 metadataPath (VolumesJSON metadata))"

definition isBindMount :: "string \<Rightarrow> bool" where
  "isBindMount source =
     (Contains source ''/'' \<or> Contains source [CHR 0x5C] \<or> HasPrefix source ''.'')"

text \<open>\<open>filepath.IsAbs\<close> on Linux is a leading slash.\<close>

definition resolveBindMountPath :: "env \<Rightarrow> string \<Rightarrow> string \<Rightarrow> error + string" where
  "resolveBindMountPath E hostPath composeFilePath =
     (if HasPrefix hostPath ''/''
      then (if \<not> hostPathExists E hostPath then Inl (BindMountMissing hostPath) else Inr hostPath)
      else
        (let absPath = resolveRelative E composeFilePath hostPath
         in if \<not> hostPathExists E absPath then Inl (BindMountMissing hostPath) else Inr absPath))"

text \<open>\<open>formatVolumeDisk\<close>: a failing \<open>modprobe\<close> is only logged; the deferred
  disconnect runs once the image is connected, whatever \<open>mkfs.ext4\<close> returns.\<close>

definition formatVolumeDisk :: "env \<Rightarrow> world \<Rightarrow> string \<Rightarrow> error option \<times> world" where
  "formatVolumeDisk E w diskPath =
     (case run E w [''sudo'', ''modprobe'', ''nbd'', ''max_part=8''] of
        (r0, w1) \<Rightarrow>
          (case run E w1 [''sudo'', ''qemu-nbd'', ''--connect'', ''/dev/nbd0'', diskPath] of
             (None, w2) \<Rightarrow> (Some NbdConnectFailed, w2)
           | (Some out2, w2) \<Rightarrow>
               (case run E w2 [''sudo'', ''mkfs.ext4'', ''-F'', ''/dev/nbd0''] of
                  (r3, w3) \<Rightarrow>
                    (case run E w3 [''sudo'', ''qemu-nbd'', ''--disconnect'', ''/dev/nbd0''] of
                       (r4, w4) \<Rightarrow> ((if r3 = None then Some MkfsFailed else None), w4)))))"

text \<open>\<open>qemu-img create\<close> without a backing file: when the command succeeds the
  image exists with the given size.\<close>

definition createNamedVolume :: "env \<Rightarrow> world \<Rightarrow> string \<Rightarrow> string \<Rightarrow> error option \<times> world" where
  "createNamedVolume E w volumeName volSize =
     (case loadVolumeMetadata w of
        (Inl e, w1) \<Rightarrow> (Some e, w1)
      | (Inr metadata, w1) \<Rightarrow>
          (if map_of metadata volumeName \<noteq> None then (None, w1)
           else
             (case getVolumesDir w1 of
                (Inl e, w2) \<Rightarrow> (Some e, w2)
              | (Inr volumesDir, w2) \<Rightarrow>
                  (case MkdirAll w2 (volumesDir @ [volumeName]) of
                     (Some e, w3) \<Rightarrow> (Some e, w3)
                   | (None, w3) \<Rightarrow>
                       (let volumeDisk = volumesDir @ [volumeName, ''volume.qcow2''];
                            diskPath = pathStr E volumeDisk
                        in case run E w3 [''qemu-img'', ''create'', ''-f'', ''qcow2'', diskPath, volSize] of
                             (None, w4) \<Rightarrow> (Some CreateVolumeDiskFailed, w4)
                           | (Some out4, w4) \<Rightarrow>
                               (case formatVolumeDisk E
                                       (w4\<lparr>fs := AList.update volumeDisk
                                                     (File (Qcow2 None (Some volSize))) (fs w4)\<rparr>)
                                       diskPath of
                                  (Some e, w6) \<Rightarrow> (Some (FormatVolumeFailed e), w6)
                                | (None, w6) \<Rightarrow>
                                    saveVolumeMetadata w6
                                      (AList.update volumeName
                                         \<lparr>vol_name = volumeName, vol_size = volSize,
                                          disk_path = diskPath, created = showInt (getpid E)\<rparr>
                                         metadata)))))))"

definition ensureVolumeExists :: "env \<Rightarrow> world \<Rightarrow> string \<Rightarrow> ComposeConfig \<Rightarrow> error option \<times> world" where
  "ensureVolumeExists E w volumeName config =
     (case loadVolumeMetadata w of
        (Inl e, w1) \<Rightarrow> (Some e, w1)
      | (Inr metadata, w1) \<Rightarrow>
          (if map_of metadata volumeName \<noteq> None then (None, w1)
           else
             (case map_of (ProjectVolumes config) volumeName of
                None \<Rightarrow> (Some (VolumeNotDefined volumeName), w1)
              | Some volumeConfig \<Rightarrow>
                  createNamedVolume E w1 volumeName
                    (if VolumeSize volumeConfig \<noteq> [] then VolumeSize volumeConfig else ''10G''))))"

definition getVolumeDiskPath :: "world \<Rightarrow> string \<Rightarrow> (error + string) \<times> world" where
  "getVolumeDiskPath w volumeName =
     (case loadVolumeMetadata w of
        (Inl e, w1) \<Rightarrow> (Inl e, w1)
      | (Inr metadata, w1) \<Rightarrow>
          (case map_of metadata volumeName of
             None \<Rightarrow> (Inl (VolumeNotFound volumeName), w1)
           | Some volumeMeta \<Rightarrow> (Inr (disk_path volumeMeta), w1)))"

text \<open>The loop of \<open>parseVMVolumes\<close> over \<open>vm.Volumes\<close>, with the mounts gathered so
  far.\<close>

fun parseMounts :: "env \<Rightarrow> world \<Rightarrow> string \<Rightarrow> ComposeConfig \<Rightarrow> string \<Rightarrow> VolumeMount list
    \<Rightarrow> VMVolumeMount list \<Rightarrow> (error + VMVolumeMount list) \<times> world" where
  "parseMounts E w vmName config composeFilePath [] mounts = (Inr mounts, w)"
| "parseMounts E w vmName config composeFilePath (volumeMount # rest) mounts =
     (if \<not> HasPrefix (Target volumeMount) ''/''
      then (Inl (InvalidMountPath vmName (Target volumeMount)), w)
      else
        (let automount = (case Automount volumeMount of None \<Rightarrow> True | Some b \<Rightarrow> b)
         in if isBindMount (Source volumeMount)
            then
              (case resolveBindMountPath E (Source volumeMount) composeFilePath of
                 Inl e \<Rightarrow> (Inl (ResolveBindMountFailed e), w)
               | Inr hostPath \<Rightarrow>
                   parseMounts E w vmName config composeFilePath rest
                     (mounts @ [\<lparr>VolumeName = Source volumeMount, MountPath = Target volumeMount,
                                 MountReadOnly = ReadOnly volumeMount, MountAutomount = automount,
                                 MountMountOptions = MountOptions volumeMount,
                                 IsBindMount = True, HostPath = hostPath, DiskPath = []\<rparr>]))
            else
              (case ensureVolumeExists E w (Source volumeMount) config of
                 (Some e, w1) \<Rightarrow> (Inl (EnsureVolumeFailed e), w1)
               | (None, w1) \<Rightarrow>
                   (case getVolumeDiskPath w1 (Source volumeMount) of
                      (Inl e, w2) \<Rightarrow> (Inl (VolumeDiskPathFailed e), w2)
                    | (Inr diskPath, w2) \<Rightarrow>
                        parseMounts E w2 vmName config composeFilePath rest
                          (mounts @ [\<lparr>VolumeName = Source volumeMount,
                                      MountPath = Target volumeMount,
                                      MountReadOnly = ReadOnly volumeMount, MountAutomount = True,
                                      MountMountOptions = [],
                                      IsBindMount = False, HostPath = [], DiskPath = diskPath\<rparr>])))))"

definition parseVMVolumes :: "env \<Rightarrow> world \<Rightarrow> string \<Rightarrow> VM \<Rightarrow> ComposeConfig \<Rightarrow> string
    \<Rightarrow> (error + VMVolumeMount list) \<times> world" where
  "parseVMVolumes E w vmName vm config composeFilePath =
     parseMounts E w vmName config composeFilePath (Volumes vm) []"

section \<open>Stop and destroy (vm.go, network.go, image.go, main)\<close>

text \<open>The kernel's interfaces are the list \<open>links\<close>: \<open>netlink.LinkByName\<close> finds a name
  that is in it, \<open>LinkSetDown\<close> changes nothing that is modelled, and \<open>LinkDel\<close>
  removes the name when the host lets it. The lines the commands print are left out
  of \<open>stopVM\<close> and \<open>destroyCmd\<close>.\<close>

definition getDnsmasqUnitName :: "string \<Rightarrow> string \<Rightarrow> string" where
  "getDnsmasqUnitName projectName networkName =
     ''qemu-compose-dnsmasq-'' @ ReplaceAll CHR '' '' CHR ''-'' projectName @ ''-''
        @ ReplaceAll CHR '' '' CHR ''-'' networkName"

definition deleteTAPDevice :: "env \<Rightarrow> world \<Rightarrow> string \<Rightarrow> error option \<times> world" where
  "deleteTAPDevice E w tapName =
     (if tapName \<notin> set (links w) then (None, w)
      else if \<not> linkDel E tapName then (Some (DeleteLinkFailed tapName), w)
      else (None, w\<lparr>links := removeAll tapName (links w)\<rparr>))"

definition cleanupVMNetworks :: "env \<Rightarrow> world \<Rightarrow> string \<Rightarrow> VM \<Rightarrow> error option \<times> world" where
  "cleanupVMNetworks E w vmName vm =
     (if length (Networks vm) = 0 then (None, w)
      else (None,
            foldl (\<lambda>w' i. snd (deleteTAPDevice E w'
                                   (getTAPName (md5Sum E) (getProjectName E) vmName i)))
                  w [0..<length (Networks vm)]))"

definition stopVM :: "env \<Rightarrow> world \<Rightarrow> string \<Rightarrow> VM \<Rightarrow> error option \<times> world" where
  "stopVM E w vmName vm =
     (case run E w [''systemctl'', ''--user'', ''stop'', getVMUnitName (getProjectName E) vmName] of
        (None, w1) \<Rightarrow> (Some StopVMFailed, w1)
      | (Some out1, w1) \<Rightarrow>
          (if length (Networks vm) > 0 then (None, snd (cleanupVMNetworks E w1 vmName vm))
           else (None, w1)))"

text \<open>\<open>removeInstanceDisk\<close> removes \<open>filepath.Join(cwd, ".qemu-compose", vmName)\<close> and
  everything below it.\<close>

definition removeInstanceDisk :: "world \<Rightarrow> string \<Rightarrow> error option \<times> world" where
  "removeInstanceDisk w vmName =
     (if Stat w [workspace, vmName] = None then (None, w)
      else (None, RemoveAll w [workspace, vmName]))"

definition stopDnsmasq :: "env \<Rightarrow> world \<Rightarrow> string \<Rightarrow> error option \<times> world" where
  "stopDnsmasq E w networkName =
     (case run E w [''sudo'', ''systemctl'', ''stop'',
                    getDnsmasqUnitName (getProjectName E) networkName] of
        (r0, w1) \<Rightarrow>
          (case loadNetworkMetadata w1 of
             (Inl e, w2) \<Rightarrow> (Some e, w2)
           | (Inr metadata, w2) \<Rightarrow>
               (case map_of metadata networkName of
                  None \<Rightarrow> (None, w2)
                | Some netMeta \<Rightarrow>
                    (None, snd (saveNetworkMetadata w2
                                  (AList.update networkName (netMeta\<lparr>dnsmasq_active := False\<rparr>)
                                     metadata))))))"

definition cleanupNAT :: "env \<Rightarrow> world \<Rightarrow> string \<Rightarrow> string \<Rightarrow> world" where
  "cleanupNAT E w networkName netSubnet =
     (let bridgeName = getBridgeName (getProjectName E) networkName;
          w1 = snd (run E w [''sudo'', ''iptables'', ''-t'', ''nat'', ''-D'', ''POSTROUTING'',
                             ''-s'', netSubnet, ''-j'', ''MASQUERADE'']);
          w2 = snd (run E w1 [''sudo'', ''iptables'', ''-D'', ''FORWARD'', ''-i'', bridgeName,
                              ''-j'', ''ACCEPT''])
      in snd (run E w2 [''sudo'', ''iptables'', ''-D'', ''FORWARD'', ''-o'', bridgeName,
                        ''-j'', ''ACCEPT'']))"

definition deleteBridge :: "env \<Rightarrow> world \<Rightarrow> string \<Rightarrow> error option \<times> world" where
  "deleteBridge E w networkName =
     (let bridgeName = getBridgeName (getProjectName E) networkName;
          w1 = snd (stopDnsmasq E w networkName);
          w3 = (case loadNetworkMetadata w1 of
                  (Inl e, w2) \<Rightarrow> w2
                | (Inr metadata, w2) \<Rightarrow>
                    (case map_of metadata networkName of
                       None \<Rightarrow> w2
                     | Some netMeta \<Rightarrow> cleanupNAT E w2 networkName (subnet netMeta)))
      in if bridgeName \<notin> set (links w3) then (None, w3)
         else if \<not> linkDel E bridgeName then (Some (DeleteLinkFailed bridgeName), w3)
         else (None, w3\<lparr>links := removeAll bridgeName (links w3)\<rparr>))"

text \<open>The body of the loop of \<open>destroyCmd\<close> over the selected VMs, on the flag
  \<open>hasError\<close> and the world.\<close>

definition destroyVM :: "env \<Rightarrow> bool \<times> world \<Rightarrow> string \<times> VM \<Rightarrow> bool \<times> world" where
  "destroyVM E st entry =
     (case st of (hasError, w) \<Rightarrow>
      (case entry of (vmName, vm) \<Rightarrow>
        (case isVMRunning E w vmName of
           (running, w1) \<Rightarrow>
             (case (if running then stopVM E w1 vmName vm else (None, w1)) of
                (Some e, w2) \<Rightarrow> (True, w2)
              | (None, w2) \<Rightarrow>
                  (case (if length (Networks vm) > 0 then cleanupVMNetworks E w2 vmName vm
                         else (None, w2)) of
                     (cleanupErr, w3) \<Rightarrow>
                       (case removeInstanceDisk w3 vmName of
                          (Some e, w4) \<Rightarrow> (True, w4)
                        | (None, w4) \<Rightarrow> (hasError \<or> cleanupErr \<noteq> None, w4)))))))"

text \<open>The part of \<open>destroyCmd\<close> that runs when no VM is named.\<close>

definition destroyNetworks :: "env \<Rightarrow> bool \<times> world \<Rightarrow> ComposeConfig \<Rightarrow> bool \<times> world" where
  "destroyNetworks E st config =
     (let networksToCleanup = map fst (ProjectNetworks config);
          st1 = foldl (\<lambda>(hasError, w) networkName.
                         (case deleteBridge E w networkName of
                            (Some e, w1) \<Rightarrow> (True, w1)
                          | (None, w1) \<Rightarrow> (hasError, w1)))
                      st networksToCleanup
      in (case st1 of (hasError, w1) \<Rightarrow>
           (case loadNetworkMetadata w1 of
              (Inl e, w2) \<Rightarrow> (hasError, w2)
            | (Inr metadata, w2) \<Rightarrow>
                (case saveNetworkMetadata w2
                        (foldl (\<lambda>md networkName. AList.delete networkName md)
                               metadata networksToCleanup) of
                   (Some e, w3) \<Rightarrow> (True, w3)
                 | (None, w3) \<Rightarrow> (hasError, w3)))))"

text \<open>\<open>destroy [VM...]\<close>, returning the exit status of the process.\<close>

definition destroyCmd :: "env \<Rightarrow> world \<Rightarrow> compose_file \<Rightarrow> string list \<Rightarrow> int \<times> world" where
  "destroyCmd E w composeFile args =
     (case loadComposeFile composeFile of
        Inl e \<Rightarrow> (1, w)
      | Inr config \<Rightarrow>
          (case filterVMs config args of
             Inl e \<Rightarrow> (1, w)
           | Inr vms \<Rightarrow>
               (let st1 = foldl (destroyVM E) (False, w) vms;
                    st2 = (if length args = 0 then destroyNetworks E st1 config else st1)
                in (if fst st2 then 1 else 0, snd st2))))"

section \<open>Notions used to state the properties\<close>

text \<open>A file system is well formed when every entry lies in a directory that is
  itself an entry (or is the working directory), as on any real file system.\<close>

definition wellFormed :: "world \<Rightarrow> bool" where
  "wellFormed w = (\<forall>(p, n) \<in> set (fs w). p \<noteq> [] \<and> Stat w (butlast p) = Some Dir)"



text \<open>The disk size a VM declares, \<open>10G\<close> when it declares none; the three lines
  \<open>createInstanceDisk\<close> prints when the declared size is not the stored one; and the
  commands \<open>qemu-img create\<close> and \<open>qemu-img resize\<close> for the overlay of a VM.\<close>

definition declaredSize :: "Disk option \<Rightarrow> string" where
  "declaredSize diskConfig =
     (case diskConfig of None \<Rightarrow> ''10G'' | Some d \<Rightarrow> (if Size d = [] then ''10G'' else Size d))"

definition driftWarning :: "string \<Rightarrow> string \<Rightarrow> string \<Rightarrow> string list" where
  "driftWarning vmName declared stored =
     [''  '' @ warnSign @ '' Warning: disk.size is set to '' @ declared
        @ '' but instance disk was created with size '' @ stored @ [CHR 0x0A],
      ''  '' @ warnSign @ '' Disk size changes after first creation are not applied automatically''
        @ [CHR 0x0A],
      ''  '' @ warnSign @ '' To resize, stop the VM, delete .qemu-compose/'' @ vmName
        @ ''/, and run '' @ [CHR 0x27] @ ''up'' @ [CHR 0x27] @ '' again'' @ [CHR 0x0A]]"

definition createCommand :: "env \<Rightarrow> string \<Rightarrow> string \<Rightarrow> string list" where
  "createCommand E vmName baseImagePath =
     [''qemu-img'', ''create'', ''-f'', ''qcow2'', ''-F'', ''qcow2'', ''-b'', baseImagePath,
      pathStr E [workspace, vmName, ''disk.qcow2'']]"

definition resizeCommand :: "env \<Rightarrow> string \<Rightarrow> string \<Rightarrow> string list" where
  "resizeCommand E vmName declared =
     [''qemu-img'', ''resize'', pathStr E [workspace, vmName, ''disk.qcow2''], declared]"

text \<open>The instance directory of a VM can be made (or exists) when neither the
  workspace nor the directory is a file.\<close>

definition instanceDirUsable :: "world \<Rightarrow> string \<Rightarrow> bool" where
  "instanceDirUsable w vmName =
     (Stat w [workspace] \<in> {None, Some Dir} \<and> Stat w [workspace, vmName] \<in> {None, Some Dir})"

text \<open>The SSH probe of \<open>isVMReady\<close> succeeds when the VM's \<open>ports.json\<close> records a
  port other than 0, the project's private key exists and the \<open>ssh\<close> command exits
  with status 0.\<close>

definition sshProbe :: "env \<Rightarrow> world \<Rightarrow> string \<Rightarrow> string \<Rightarrow> bool" where
  "sshProbe E w vmName imageURL =
     (case Stat w [workspace, vmName, ''ports.json''] of
        Some (File (PortsJSON portMetadata)) \<Rightarrow>
          ssh portMetadata \<noteq> 0
          \<and> Stat w [workspace, ''ssh'', ''id_ed25519''] \<noteq> None
          \<and> exec E (sshProbeCommand E (ssh portMetadata) imageURL) \<noteq> None
      | _ \<Rightarrow> False)"


text \<open>Reading back what has been written. \<open>hexByte\<close> is the byte that two lower-case
  hexadecimal digits denote, and \<open>decimalValue\<close> the number that a string of decimal
  digits denotes. \<open>seedMACs\<close> reads the addresses off a network configuration: the
  lines \<open>macaddress: "..."\<close> at the depth of a \<open>match\<close> entry, in order.\<close>

definition hexDigitValue :: "char \<Rightarrow> nat option" where
  "hexDigitValue c =
     (let n = (of_char c :: nat)
      in if 48 \<le> n \<and> n \<le> 57 then Some (n - 48)
         else if 97 \<le> n \<and> n \<le> 102 then Some (n - 87)
         else None)"

definition hexByte :: "string \<Rightarrow> 8 word option" where
  "hexByte s =
     (case s of
        [hi, lo] \<Rightarrow>
          (case (hexDigitValue hi, hexDigitValue lo) of
             (Some h, Some l) \<Rightarrow> Some (of_nat (16 * h + l))
           | _ \<Rightarrow> None)
      | _ \<Rightarrow> None)"

definition decimalValue :: "string \<Rightarrow> nat option" where
  "decimalValue s =
     (if s \<noteq> [] \<and> list_all (\<lambda>c. 48 \<le> (of_char c :: nat) \<and> (of_char c :: nat) \<le> 57) s
      then Some (foldl (\<lambda>acc c. 10 * acc + ((of_char c :: nat) - 48)) 0 s)
      else None)"

definition macOfLine :: "string \<Rightarrow> string option" where
  "macOfLine line =
     (let key = ''        macaddress: '' @ [dquote]
      in if HasPrefix line key \<and> length key < length line \<and> last line = dquote
         then Some (butlast (drop (length key) line))
         else None)"

definition seedMACs :: "string \<Rightarrow> string list" where
  "seedMACs text = List.map_filter macOfLine (Split newline text)"

text \<open>Two concrete workspaces: an empty one, and one whose \<open>networks.json\<close> records
  two networks.\<close>

definition world0 :: world where
  "world0 = \<lparr>fs = [], links = [], stdout = [], cmds = []\<rparr>"

definition metadataA :: "(string \<times> NetworkMetadata) list" where
  "metadataA =
     [(''frontend'', \<lparr>subnet = ''172.16.0.0/24'', driver = ''bridge'', dnsmasq_unit = [],
                      dnsmasq_active = False\<rparr>),
      (''db'', \<lparr>subnet = ''172.16.2.0/24'', driver = ''bridge'', dnsmasq_unit = [],
                dnsmasq_active = False\<rparr>)]"

definition worldA :: world where
  "worldA = \<lparr>fs = [([''.qemu-compose''], Dir),
                   ([''.qemu-compose'', ''networks.json''], File (NetworksJSON metadataA))],
             links = [], stdout = [], cmds = []\<rparr>"

text \<open>A host on which every port but 2222 can be bound and no external command
  succeeds; a VM without an \<open>ssh\<close> section, one that pins port 2200 and one that pins
  the busy port 2222; and a workspace in which the VM \<open>db\<close> has recorded port 2223.\<close>

definition envA :: env where
  "envA = \<lparr>getProjectName = ''demo'', getwd = ''/home/user/demo'',
            md5Sum = (\<lambda>s i. 0), isPortAvailable = (\<lambda>port. port \<noteq> 2222),
            exec = (\<lambda>args. None), linkDel = (\<lambda>name. True),
            hostPathExists = (\<lambda>p. False),
            resolveRelative = (\<lambda>composeFilePath hostPath. ''/home/user/demo/'' @ hostPath),
            getpid = 4242\<rparr>"

definition vmPlain :: VM where
  "vmPlain = \<lparr>Image = ''https://example/cloud.img'', CPU = 2, Memory = 2048, Networks = [],
               Volumes = [], Disk = None, SSH = None\<rparr>"

definition vmPinned :: VM where
  "vmPinned = vmPlain\<lparr>SSH := Some \<lparr>Port = 2200\<rparr>\<rparr>"

definition vmPinnedBusy :: VM where
  "vmPinnedBusy = vmPlain\<lparr>SSH := Some \<lparr>Port = 2222\<rparr>\<rparr>"

definition worldP :: world where
  "worldP = \<lparr>fs = [([''.qemu-compose''], Dir),
                   ([''.qemu-compose'', ''db''], Dir),
                   ([''.qemu-compose'', ''db'', ''ports.json''], File (PortsJSON \<lparr>ssh = 2223\<rparr>))],
             links = [], stdout = [], cmds = []\<rparr>"

text \<open>A workspace holding the overlay, the recorded port and the project key of the
  VM \<open>web\<close>; a host on which every command prints \<open>deactivating\<close>, and one on which
  every command prints \<open>active\<close>.\<close>

definition worldD :: world where
  "worldD = \<lparr>fs = [([''.qemu-compose''], Dir),
                   ([''.qemu-compose'', ''web''], Dir),
                   ([''.qemu-compose'', ''web'', ''disk.qcow2''],
                      File (Qcow2 (Some ''/cache/cloud.img'') (Some ''5G''))),
                   ([''.qemu-compose'', ''web'', ''disk.metadata.json''],
                      File (DiskJSON \<lparr>disk_size = ''5G''\<rparr>)),
                   ([''.qemu-compose'', ''web'', ''ports.json''], File (PortsJSON \<lparr>ssh = 2222\<rparr>)),
                   ([''.qemu-compose'', ''ssh''], Dir),
                   ([''.qemu-compose'', ''ssh'', ''id_ed25519''], File Other)],
             links = [], stdout = [], cmds = []\<rparr>"

definition envDeactivating :: env where
  "envDeactivating = envA\<lparr>exec := (\<lambda>args. Some (''deactivating'' @ [CHR 0x0A]))\<rparr>"

definition envActive :: env where
  "envActive = envA\<lparr>exec := (\<lambda>args. Some (''active'' @ [CHR 0x0A]))\<rparr>"

text \<open>A host on which every command succeeds, printing nothing.\<close>

definition envOK :: env where
  "envOK = envA\<lparr>exec := (\<lambda>args. Some [])\<rparr>"

text \<open>The workspace of \<open>web\<close> without its \<open>disk.metadata.json\<close>.\<close>

definition worldNoMeta :: world where
  "worldNoMeta = \<lparr>fs = [([''.qemu-compose''], Dir),
                        ([''.qemu-compose'', ''web''], Dir),
                        ([''.qemu-compose'', ''web'', ''disk.qcow2''],
                           File (Qcow2 (Some ''/cache/cloud.img'') (Some ''5G'')))],
                  links = [], stdout = [], cmds = []\<rparr>"

text \<open>A project whose only VM is called \<open>volumes\<close> and mounts the named volume
  \<open>data\<close>, and its workspace once the VM has been started: the instance directory
  of the VM is the directory the named volumes are kept in.\<close>

definition composeV :: compose_file where
  "composeV =
     Document ''1.0'' [] [(''data'', \<lparr>VolumeSize = ''5G''\<rparr>)]
       [(''volumes'',
         \<lparr>raw_image = Some ''fedora-cloud.qcow2'', raw_cpu = Some 2, raw_memory = Some 2048,
          raw_networks = [], raw_volumes = [Node (ShortForm ''data:/mnt/data'')],
          raw_disk = None, raw_ssh = None\<rparr>)]"

definition worldV :: world where
  "worldV =
     \<lparr>fs = [([workspace], Dir),
            ([workspace, ''volumes.json''],
             File (VolumesJSON
                     [(''data'',
                       \<lparr>vol_name = ''data'', vol_size = ''5G'',
                        disk_path = ''/home/user/demo/.qemu-compose/volumes/data/volume.qcow2'',
                        created = ''4242''\<rparr>)])),
            ([workspace, ''volumes''], Dir),
            ([workspace, ''volumes'', ''data''], Dir),
            ([workspace, ''volumes'', ''data'', ''volume.qcow2''],
             File (Qcow2 None (Some ''5G''))),
            ([workspace, ''volumes'', ''disk.qcow2''],
             File (Qcow2 (Some ''fedora-cloud.qcow2'') (Some ''10G''))),
            ([workspace, ''volumes'', ''disk.metadata.json''],
             File (DiskJSON \<lparr>disk_size = ''10G''\<rparr>)),
            ([workspace, ''volumes'', ''ports.json''], File (PortsJSON \<lparr>ssh = 2223\<rparr>))],
      links = [], stdout = [], cmds = []\<rparr>"


text \<open>An entry of \<open>volumes\<close> that does not decode: a short form with fewer than two
  parts between colons or with a flag other than \<open>ro\<close>, or a node that is neither a
  scalar nor a mapping of the struct. A named volume is recorded when
  \<open>volumes.json\<close> has an entry for it.\<close>

definition rejectedEntry :: "yaml_entry \<Rightarrow> bool" where
  "rejectedEntry entry =
     (case entry of
        Null kept \<Rightarrow> False
      | Node (ShortForm s) \<Rightarrow>
          length (Split CHR '':'' s) < 2
          \<or> (\<exists>flag \<in> set (drop 2 (Split CHR '':'' s)). flag \<noteq> ''ro'')
      | Node (LongForm m) \<Rightarrow> False
      | Node Undecodable \<Rightarrow> True)"

definition recordedVolume :: "world \<Rightarrow> string \<Rightarrow> bool" where
  "recordedVolume w volumeName =
     (case Stat w [workspace, ''volumes.json''] of
        Some (File (VolumesJSON metadata)) \<Rightarrow> map_of metadata volumeName \<noteq> None
      | _ \<Rightarrow> False)"

text \<open>A document whose VM \<open>db\<close> has no \<open>image\<close>, \<open>cpu\<close> or \<open>memory\<close> and mounts the
  volume \<open>cache\<close>, which is declared nowhere, at the relative path \<open>mnt/cache\<close>; a
  document with the flag \<open>rw\<close>; a configuration that declares the volume \<open>data\<close> and one
  that declares nothing; and three VMs, mounting \<open>data\<close> on an absolute and on a
  relative target, and mounting the undeclared volume \<open>cache\<close>.\<close>

definition composeBad :: compose_file where
  "composeBad =
     Document ''1.0'' [] []
       [(''db'',
         \<lparr>raw_image = None, raw_cpu = None, raw_memory = None, raw_networks = [],
          raw_volumes = [Node (ShortForm ''cache:mnt/cache'')], raw_disk = None, raw_ssh = None\<rparr>)]"

definition composeRW :: compose_file where
  "composeRW =
     Document ''1.0'' [] [(''data'', \<lparr>VolumeSize = ''5G''\<rparr>)]
       [(''db'',
         \<lparr>raw_image = Some ''fedora-cloud.qcow2'', raw_cpu = Some 2, raw_memory = Some 2048,
          raw_networks = [], raw_volumes = [Node (ShortForm ''data:/mnt/data:rw'')],
          raw_disk = None, raw_ssh = None\<rparr>)]"

definition configData :: ComposeConfig where
  "configData =
     \<lparr>Version = ''1.0'', ProjectNetworks = [],
      ProjectVolumes = [(''data'', \<lparr>VolumeSize = ''5G''\<rparr>)], VMs = []\<rparr>"

definition configEmpty :: ComposeConfig where
  "configEmpty = \<lparr>Version = ''1.0'', ProjectNetworks = [], ProjectVolumes = [], VMs = []\<rparr>"

definition vmData :: VM where
  "vmData =
     \<lparr>Image = ''fedora-cloud.qcow2'', CPU = 2, Memory = 2048, Networks = [],
      Volumes = [\<lparr>Source = ''data'', Target = ''/mnt/data'', ReadOnly = False,
                  Automount = None, MountOptions = []\<rparr>],
      Disk = None, SSH = None\<rparr>"

definition vmRelative :: VM where
  "vmRelative =
     \<lparr>Image = ''fedora-cloud.qcow2'', CPU = 2, Memory = 2048, Networks = [],
      Volumes = [\<lparr>Source = ''data'', Target = ''mnt/data'', ReadOnly = False,
                  Automount = None, MountOptions = []\<rparr>],
      Disk = None, SSH = None\<rparr>"

definition vmUndeclared :: VM where
  "vmUndeclared =
     \<lparr>Image = ''fedora-cloud.qcow2'', CPU = 2, Memory = 2048, Networks = [],
      Volumes = [\<lparr>Source = ''cache'', Target = ''/mnt/cache'', ReadOnly = False,
                  Automount = None, MountOptions = []\<rparr>],
      Disk = None, SSH = None\<rparr>"



text \<open>The MD5 digests of \<open>demo-web-0\<close> and \<open>demo-web-1\<close>, a host that computes them, and a
  VM on one bridge network.\<close>

definition md5Demo :: md5sum where
  "md5Demo s i =
     (if s = ''demo-web-0''
      then [0xf8, 0x55, 0x93, 0x6a, 0xa3, 0xe7, 0xe5, 0x9f,
            0xeb, 0x9d, 0x31, 0x5e, 0x0d, 0x18, 0x19, 0x3d] ! i
      else if s = ''demo-web-1''
      then [0x84, 0x07, 0xd7, 0x2f, 0x58, 0x85, 0xfa, 0x86,
            0x8a, 0x1e, 0x89, 0x2f, 0x60, 0x9b, 0xdf, 0x8d] ! i
      else 0)"

definition envM :: env where
  "envM = envA\<lparr>md5Sum := md5Demo\<rparr>"

definition vmNet :: VM where
  "vmNet = vmPlain\<lparr>Networks := [''frontend'']\<rparr>"

text \<open>A workspace in which the directory \<open>cloud-init\<close> of the instance \<open>web\<close> exists.\<close>

definition worldC :: world where
  "worldC = \<lparr>fs = [([''.qemu-compose''], Dir),
                   ([''.qemu-compose'', ''web''], Dir),
                   ([''.qemu-compose'', ''web'', ''cloud-init''], Dir)],
             links = [], stdout = [], cmds = []\<rparr>"
section \<open>Short-form volume parsing\<close>

declare showNat.simps [simp del]

lemma Split_not_Nil: "Split c s \<noteq> []"
  by (induction s) (auto split: list.splits)

lemma Split_no_sep: "c \<notin> set s \<Longrightarrow> Split c s = [s]"
  by (induction s) auto

lemma Split_append: "c \<notin> set a \<Longrightarrow> Split c (a @ c # b) = a # Split c b"
  by (induction a) auto

lemma Split_flags:
  "\<forall>f \<in> set flags. c \<notin> set f \<Longrightarrow> c \<notin> set a \<Longrightarrow>
   Split c (a @ concat (map (\<lambda>f. c # f) flags)) = a # flags"
proof (induction flags arbitrary: a)
  case Nil
  then show ?case by (simp add: Split_no_sep)
next
  case (Cons f flags)
  then show ?case by (simp add: Split_append)
qed

lemma parseFlags_unknown:
  "\<exists>f \<in> set flags. f \<noteq> ''ro'' \<Longrightarrow> \<exists>f. f \<noteq> ''ro'' \<and> parseFlags flags ro = Inl (UnknownVolumeFlag f)"
  by (induction flags arbitrary: ro) auto

text \<open>
  Claim C8. A short-form volume string \<open>source:target\<close> (neither part holding a
  colon) parses to that source and target, not read-only, automount left at its
  default (\<open>nil\<close>, read as true) and no mount options; with \<open>:ro\<close> appended the
  mount is read-only; any flag other than \<open>ro\<close>, alone or among several, makes
  parsing fail with the unknown-flag error; a string without a colon has a single
  part and is rejected as an invalid spec.
\<close>

theorem parseShortForm_forms:
  "CHR '':'' \<notin> set source \<Longrightarrow> CHR '':'' \<notin> set target \<Longrightarrow>
     parseShortForm (source @ '':'' @ target) =
       Inr \<lparr>Source = source, Target = target, ReadOnly = False,
            Automount = None, MountOptions = []\<rparr>
   \<and> parseShortForm (source @ '':'' @ target @ '':ro'') =
       Inr \<lparr>Source = source, Target = target, ReadOnly = True,
            Automount = None, MountOptions = []\<rparr>
   \<and> (\<forall>flags. (\<forall>f \<in> set flags. CHR '':'' \<notin> set f) \<and> (\<exists>f \<in> set flags. f \<noteq> ''ro'') \<longrightarrow>
         (\<exists>f. f \<noteq> ''ro'' \<and>
            parseShortForm (source @ '':'' @ target @ concat (map (\<lambda>f. CHR '':'' # f) flags)) =
              Inl (UnknownVolumeFlag f)))
   \<and> (\<forall>flag. CHR '':'' \<notin> set flag \<and> flag \<noteq> ''ro'' \<longrightarrow>
         parseShortForm (source @ '':'' @ target @ '':'' @ flag) = Inl (UnknownVolumeFlag flag))
   \<and> (\<forall>spec. CHR '':'' \<notin> set spec \<longrightarrow> parseShortForm spec = Inl (InvalidVolumeSpec spec))"
proof (intro conjI allI impI)
  assume s: "CHR '':'' \<notin> set source" and t: "CHR '':'' \<notin> set target"
  have two: "Split CHR '':'' (source @ '':'' @ target) = [source, target]"
    using s t by (simp add: Split_append Split_no_sep)
  show "parseShortForm (source @ '':'' @ target) =
       Inr \<lparr>Source = source, Target = target, ReadOnly = False,
            Automount = None, MountOptions = []\<rparr>"
    by (simp only: parseShortForm_def two) simp
  have three: "Split CHR '':'' (source @ '':'' @ target @ '':ro'') = [source, target, ''ro'']"
    using s t by (simp add: Split_append Split_no_sep)
  show "parseShortForm (source @ '':'' @ target @ '':ro'') =
       Inr \<lparr>Source = source, Target = target, ReadOnly = True,
            Automount = None, MountOptions = []\<rparr>"
    by (simp only: parseShortForm_def three) simp
  {
    fix flags :: "string list"
    assume fl: "(\<forall>f \<in> set flags. CHR '':'' \<notin> set f) \<and> (\<exists>f \<in> set flags. f \<noteq> ''ro'')"
    have "Split CHR '':'' (source @ CHR '':'' # (target @ concat (map (\<lambda>f. CHR '':'' # f) flags)))
            = source # Split CHR '':'' (target @ concat (map (\<lambda>f. CHR '':'' # f) flags))"
      using s by (rule Split_append)
    also have "\<dots> = source # target # flags"
      using fl t by (simp add: Split_flags)
    finally have sp: "Split CHR '':'' (source @ '':'' @ target @ concat (map (\<lambda>f. CHR '':'' # f) flags))
                  = source # target # flags" by simp
    from fl obtain f where "f \<noteq> ''ro''" "parseFlags flags False = Inl (UnknownVolumeFlag f)"
      using parseFlags_unknown by blast
    then show "\<exists>f. f \<noteq> ''ro'' \<and>
            parseShortForm (source @ '':'' @ target @ concat (map (\<lambda>f. CHR '':'' # f) flags)) =
              Inl (UnknownVolumeFlag f)"
      by (auto simp only: parseShortForm_def sp list.case sum.case)
  }
  {
    fix flag :: string
    assume fl: "CHR '':'' \<notin> set flag \<and> flag \<noteq> ''ro''"
    have sp: "Split CHR '':'' (source @ '':'' @ target @ '':'' @ flag) = [source, target, flag]"
      using s t fl by (simp add: Split_append Split_no_sep)
    show "parseShortForm (source @ '':'' @ target @ '':'' @ flag) = Inl (UnknownVolumeFlag flag)"
      using fl by (simp only: parseShortForm_def sp) simp
  }
  {
    fix spec :: string
    assume "CHR '':'' \<notin> set spec"
    then show "parseShortForm spec = Inl (InvalidVolumeSpec spec)"
      by (simp add: parseShortForm_def Split_no_sep)
  }
qed

text \<open>The theorem at \<open>data:/mnt/data\<close>, the flag \<open>rw\<close> and the one-part string \<open>data\<close>.\<close>

theorem parseShortForm_forms_witness:
  "CHR '':'' \<notin> set ''data'' \<and> CHR '':'' \<notin> set ''/mnt/data'' \<and> CHR '':'' \<notin> set ''rw''
   \<and> ''rw'' \<noteq> ''ro''
   \<and> parseShortForm ''data:/mnt/data'' =
       Inr \<lparr>Source = ''data'', Target = ''/mnt/data'', ReadOnly = False,
            Automount = None, MountOptions = []\<rparr>
   \<and> parseShortForm ''data:/mnt/data:ro'' =
       Inr \<lparr>Source = ''data'', Target = ''/mnt/data'', ReadOnly = True,
            Automount = None, MountOptions = []\<rparr>
   \<and> parseShortForm ''data:/mnt/data:rw'' = Inl (UnknownVolumeFlag ''rw'')
   \<and> parseShortForm ''data'' = Inl (InvalidVolumeSpec ''data'')"
  using parseShortForm_forms [of "''data''" "''/mnt/data''"]
  by simp

section \<open>Interface names\<close>





section \<open>Subnet allocation\<close>

declare scanSubnets.simps [simp del]

lemma scanSubnets_Some:
  "scanSubnets a i = Some s \<longleftrightarrow>
     (\<exists>j. i \<le> j \<and> j < 4096 \<and> s = subnetCIDR j \<and> subnetCIDR j \<notin> set a
          \<and> (\<forall>k. i \<le> k \<and> k < j \<longrightarrow> subnetCIDR k \<in> set a))"
proof (induction a i rule: scanSubnets.induct)
  case (1 a i)
  show ?case
  proof (cases "i < 4096")
    case False
    then show ?thesis by (subst scanSubnets.simps) auto
  next
    case lt: True
    show ?thesis
    proof (cases "subnetCIDR i \<in> set a")
      case False
      have "scanSubnets a i = Some (subnetCIDR i)"
        using lt False by (subst scanSubnets.simps) simp
      moreover have "(\<exists>j. i \<le> j \<and> j < 4096 \<and> s = subnetCIDR j \<and> subnetCIDR j \<notin> set a
          \<and> (\<forall>k. i \<le> k \<and> k < j \<longrightarrow> subnetCIDR k \<in> set a)) \<longleftrightarrow> s = subnetCIDR i"
      proof
        assume "\<exists>j. i \<le> j \<and> j < 4096 \<and> s = subnetCIDR j \<and> subnetCIDR j \<notin> set a
          \<and> (\<forall>k. i \<le> k \<and> k < j \<longrightarrow> subnetCIDR k \<in> set a)"
        then obtain j where j: "i \<le> j" "s = subnetCIDR j"
          "\<forall>k. i \<le> k \<and> k < j \<longrightarrow> subnetCIDR k \<in> set a" by blast
        have "j = i"
        proof (rule ccontr)
          assume "j \<noteq> i"
          with j(1) have "i < j" by simp
          with j(3) have "subnetCIDR i \<in> set a" by simp
          with False show False by simp
        qed
        with j(2) show "s = subnetCIDR i" by simp
      next
        assume "s = subnetCIDR i"
        with lt False show "\<exists>j. i \<le> j \<and> j < 4096 \<and> s = subnetCIDR j \<and> subnetCIDR j \<notin> set a
          \<and> (\<forall>k. i \<le> k \<and> k < j \<longrightarrow> subnetCIDR k \<in> set a)"
          by (intro exI [of _ i]) auto
      qed
      ultimately show ?thesis by auto
    next
      case True
      have step: "scanSubnets a i = scanSubnets a (i + 1)"
        using lt True by (subst scanSubnets.simps) simp
      have IH: "scanSubnets a (i + 1) = Some s \<longleftrightarrow>
         (\<exists>j. i + 1 \<le> j \<and> j < 4096 \<and> s = subnetCIDR j \<and> subnetCIDR j \<notin> set a
          \<and> (\<forall>k. i + 1 \<le> k \<and> k < j \<longrightarrow> subnetCIDR k \<in> set a))"
        using "1.IH" lt True by simp
      have "(\<exists>j. i + 1 \<le> j \<and> j < 4096 \<and> s = subnetCIDR j \<and> subnetCIDR j \<notin> set a
          \<and> (\<forall>k. i + 1 \<le> k \<and> k < j \<longrightarrow> subnetCIDR k \<in> set a))
        \<longleftrightarrow> (\<exists>j. i \<le> j \<and> j < 4096 \<and> s = subnetCIDR j \<and> subnetCIDR j \<notin> set a
          \<and> (\<forall>k. i \<le> k \<and> k < j \<longrightarrow> subnetCIDR k \<in> set a))" (is "?L \<longleftrightarrow> ?R")
      proof
        assume ?L
        then obtain j where j: "i + 1 \<le> j" "j < 4096" "s = subnetCIDR j" "subnetCIDR j \<notin> set a"
          "\<forall>k. i + 1 \<le> k \<and> k < j \<longrightarrow> subnetCIDR k \<in> set a" by blast
        have "\<forall>k. i \<le> k \<and> k < j \<longrightarrow> subnetCIDR k \<in> set a"
        proof (intro allI impI)
          fix k assume k: "i \<le> k \<and> k < j"
          show "subnetCIDR k \<in> set a"
          proof (cases "k = i")
            case True with \<open>subnetCIDR i \<in> set a\<close> show ?thesis by simp
          next
            case False with k j(5) show ?thesis by simp
          qed
        qed
        with j show ?R by (intro exI [of _ j]) simp
      next
        assume ?R
        then obtain j where j: "i \<le> j" "j < 4096" "s = subnetCIDR j" "subnetCIDR j \<notin> set a"
          "\<forall>k. i \<le> k \<and> k < j \<longrightarrow> subnetCIDR k \<in> set a" by blast
        have "j \<noteq> i" using j(4) True by auto
        with j(1) have "i + 1 \<le> j" by simp
        with j show ?L by (intro exI [of _ j]) simp
      qed
      with step IH show ?thesis by simp
    qed
  qed
qed

lemma scanSubnets_None:
  "scanSubnets a i = None \<longleftrightarrow> (\<forall>j. i \<le> j \<and> j < 4096 \<longrightarrow> subnetCIDR j \<in> set a)"
proof -
  have "scanSubnets a i = None \<longleftrightarrow> (\<forall>s. scanSubnets a i \<noteq> Some s)" by auto
  also have "\<dots> \<longleftrightarrow> \<not> (\<exists>j. i \<le> j \<and> j < 4096 \<and> subnetCIDR j \<notin> set a
          \<and> (\<forall>k. i \<le> k \<and> k < j \<longrightarrow> subnetCIDR k \<in> set a))"
    by (auto simp: scanSubnets_Some)
  also have "\<dots> \<longleftrightarrow> (\<forall>j. i \<le> j \<and> j < 4096 \<longrightarrow> subnetCIDR j \<in> set a)" (is "?A \<longleftrightarrow> ?B")
  proof
    assume ?B then show ?A by blast
  next
    assume A: ?A
    show ?B
    proof (intro allI impI)
      fix j assume "i \<le> j \<and> j < 4096"
      then show "subnetCIDR j \<in> set a"
      proof (induction j rule: less_induct)
        case (less j)
        show ?case
        proof (rule ccontr)
          assume nf: "subnetCIDR j \<notin> set a"
          have "\<forall>k. i \<le> k \<and> k < j \<longrightarrow> subnetCIDR k \<in> set a"
            using less by auto
          with nf less.prems A show False by blast
        qed
      qed
    qed
  qed
  finally show ?thesis .
qed

lemma subnetCIDR_0: "subnetCIDR 0 = ''172.16.0.0/24''"
  by (simp add: subnetCIDR_def digit_def showNat.simps)
lemma subnetCIDR_1: "subnetCIDR (Suc 0) = ''172.16.1.0/24''"
  by (simp add: subnetCIDR_def digit_def showNat.simps)
lemma subnetCIDR_2: "subnetCIDR 2 = ''172.16.2.0/24''"
  by (simp add: subnetCIDR_def digit_def showNat.simps)
lemma subnetCIDR_4095: "subnetCIDR 4095 = ''172.31.255.0/24''"
  by (simp add: subnetCIDR_def digit_def showNat.simps)


lemma MkdirAll_workspace:
  "MkdirAll w [workspace] = (None, w1) \<Longrightarrow>
     Stat w1 [workspace] = Some Dir \<and> MkdirAll w1 [workspace] = (None, w1)
     \<and> (\<forall>p. p \<noteq> [workspace] \<longrightarrow> Stat w1 p = Stat w p)"
  by (auto simp: MkdirAll_def Stat_def split: option.splits node.splits)

lemma loadNetworkMetadata_Inr:
  assumes "loadNetworkMetadata w = (Inr md, w1)"
  shows "MkdirAll w [workspace] = (None, w1)"
    and "ReadFile w1 [workspace, ''networks.json''] = NotExist \<and> md = []
         \<or> ReadFile w1 [workspace, ''networks.json''] = Data (NetworksJSON md)"
  using assms
  by (auto simp: loadNetworkMetadata_def getNetworkMetadataPath_def
      split: prod.splits option.splits read_result.splits content.splits)

lemma loadNetworkMetadata_again:
  assumes "loadNetworkMetadata w = (Inr md, w1)"
  shows "loadNetworkMetadata w1 = (Inr md, w1)"
proof -
  from loadNetworkMetadata_Inr [OF assms] MkdirAll_workspace [of w w1]
  have m: "MkdirAll w1 [workspace] = (None, w1)"
    and r: "ReadFile w1 [workspace, ''networks.json''] = NotExist \<and> md = []
         \<or> ReadFile w1 [workspace, ''networks.json''] = Data (NetworksJSON md)"
    by auto
  from r show ?thesis
    by (auto simp: loadNetworkMetadata_def getNetworkMetadataPath_def m)
qed

lemma saveNetworkMetadata_after_load:
  assumes "loadNetworkMetadata w = (Inr md, w1)"
  shows "\<exists>w3. saveNetworkMetadata w1 md' = (None, w3)
           \<and> ReadFile w3 [workspace, ''networks.json''] = Data (NetworksJSON md')"
proof -
  from loadNetworkMetadata_Inr [OF assms] MkdirAll_workspace [of w w1]
  have m: "MkdirAll w1 [workspace] = (None, w1)" and d: "Stat w1 [workspace] = Some Dir"
    and r: "ReadFile w1 [workspace, ''networks.json''] = NotExist \<and> md = []
         \<or> ReadFile w1 [workspace, ''networks.json''] = Data (NetworksJSON md)"
    by auto
  from r have nd: "Stat w1 [workspace, ''networks.json''] \<noteq> Some Dir"
    by (auto simp: ReadFile_def split: option.splits node.splits)
  show ?thesis
    using nd d
    by (simp add: saveNetworkMetadata_def getNetworkMetadataPath_def m WriteFile_def
        ReadFile_def Stat_def update_conv')
qed


text \<open>
  Claim C1 says that \<open>allocateSubnet\<close> persists the subnet it returns. It does not
  write: on an empty workspace it returns \<open>172.16.0.0/24\<close>, \<open>networks.json\<close> is still
  absent afterwards, and a second call returns the same subnet.
\<close>

theorem allocateSubnet_no_write_counterexample:
  "fst (allocateSubnet world0) = Inr ''172.16.0.0/24''
   \<and> ReadFile (snd (allocateSubnet world0)) [workspace, ''networks.json''] = NotExist
   \<and> fst (allocateSubnet (snd (allocateSubnet world0))) = Inr ''172.16.0.0/24''"
  by (simp add: allocateSubnet_def loadNetworkMetadata_def getNetworkMetadataPath_def
      MkdirAll_def ReadFile_def Stat_def world0_def workspace_def
      scanSubnets.simps [of _ 0] subnetCIDR_0)

text \<open>
  Claim C1, amended. Whenever \<open>networks.json\<close> can be loaded, \<open>allocateSubnet\<close>
  returns the CIDR of the smallest index in \<open>[0, 4095]\<close> whose string is not a
  recorded subnet, leaves \<open>networks.json\<close> as it was, and fails only when all 4096
  are recorded; with nothing recorded the result is \<open>172.16.0.0/24\<close>, with
  \<open>172.16.0.0/24\<close> and \<open>172.16.2.0/24\<close> recorded it is \<open>172.16.1.0/24\<close>. The caller
  \<open>resolveNetworkSubnet\<close>, for a network set to \<open>auto\<close> (or with no subnet) that has
  no record yet, returns that subnet and writes it with the network's driver under
  the network's name in \<open>networks.json\<close>.
\<close>

theorem allocateSubnet_first_free:
  assumes "loadNetworkMetadata w = (Inr metadata, w1)"
  shows "snd (allocateSubnet w) = w1
    \<and> ReadFile w1 [workspace, ''networks.json''] = ReadFile w [workspace, ''networks.json'']
    \<and> (\<forall>s. fst (allocateSubnet w) = Inr s \<longleftrightarrow>
          (\<exists>i < 4096. s = subnetCIDR i \<and> subnetCIDR i \<notin> (\<lambda>(name, net). subnet net) ` set metadata
             \<and> (\<forall>k < i. subnetCIDR k \<in> (\<lambda>(name, net). subnet net) ` set metadata)))
    \<and> (\<forall>e. fst (allocateSubnet w) = Inl e \<longleftrightarrow>
          (e = NoAvailableSubnets
           \<and> (\<forall>i < 4096. subnetCIDR i \<in> (\<lambda>(name, net). subnet net) ` set metadata)))
    \<and> (metadata = [] \<longrightarrow> fst (allocateSubnet w) = Inr ''172.16.0.0/24'')
    \<and> ((\<lambda>(name, net). subnet net) ` set metadata = {''172.16.0.0/24'', ''172.16.2.0/24''}
          \<longrightarrow> fst (allocateSubnet w) = Inr ''172.16.1.0/24'')
    \<and> ((Subnet network = ''auto'' \<or> Subnet network = []) \<and> map_of metadata networkName = None \<longrightarrow>
          (case resolveNetworkSubnet w networkName network of
             (Inl e, w3) \<Rightarrow> e = NoAvailableSubnets \<and> fst (allocateSubnet w) = Inl e \<and> w3 = w1
           | (Inr s, w3) \<Rightarrow> fst (allocateSubnet w) = Inr s
                \<and> ReadFile w3 [workspace, ''networks.json''] =
                    Data (NetworksJSON (AList.update networkName
                       \<lparr>subnet = s, driver = Driver network, dnsmasq_unit = [],
                        dnsmasq_active = False\<rparr> metadata))))"
proof -
  let ?rec = "(\<lambda>(name, net). subnet net) ` set metadata"
  let ?scan = "scanSubnets (map (\<lambda>(name, net). subnet net) metadata) 0"
  have alloc: "allocateSubnet w =
      (case ?scan of Some s \<Rightarrow> (Inr s, w1) | None \<Rightarrow> (Inl NoAvailableSubnets, w1))"
    by (simp add: allocateSubnet_def assms)
  have alloc1: "allocateSubnet w1 = allocateSubnet w"
    by (simp add: allocateSubnet_def assms loadNetworkMetadata_again [OF assms])
  have c1: "snd (allocateSubnet w) = w1"
    by (simp add: alloc split: option.splits)
  have mk: "MkdirAll w [workspace] = (None, w1)"
    by (rule loadNetworkMetadata_Inr(1) [OF assms])
  have c2: "ReadFile w1 [workspace, ''networks.json''] = ReadFile w [workspace, ''networks.json'']"
    using MkdirAll_workspace [OF mk] by (simp add: ReadFile_def)
  have c3: "\<forall>s. fst (allocateSubnet w) = Inr s \<longleftrightarrow>
          (\<exists>i < 4096. s = subnetCIDR i \<and> subnetCIDR i \<notin> ?rec
             \<and> (\<forall>k < i. subnetCIDR k \<in> ?rec))"
  proof
    fix s
    have "fst (allocateSubnet w) = Inr s \<longleftrightarrow> ?scan = Some s"
      by (simp add: alloc split: option.splits)
    then show "fst (allocateSubnet w) = Inr s \<longleftrightarrow>
          (\<exists>i < 4096. s = subnetCIDR i \<and> subnetCIDR i \<notin> ?rec
             \<and> (\<forall>k < i. subnetCIDR k \<in> ?rec))"
      by (simp add: scanSubnets_Some)
  qed
  have c4: "\<forall>e. fst (allocateSubnet w) = Inl e \<longleftrightarrow>
          (e = NoAvailableSubnets \<and> (\<forall>i < 4096. subnetCIDR i \<in> ?rec))"
  proof
    fix e
    have "fst (allocateSubnet w) = Inl e \<longleftrightarrow> e = NoAvailableSubnets \<and> ?scan = None"
      by (auto simp: alloc split: option.splits)
    then show "fst (allocateSubnet w) = Inl e \<longleftrightarrow>
          (e = NoAvailableSubnets \<and> (\<forall>i < 4096. subnetCIDR i \<in> ?rec))"
      by (simp add: scanSubnets_None)
  qed
  have c5: "metadata = [] \<longrightarrow> fst (allocateSubnet w) = Inr ''172.16.0.0/24''"
  proof
    assume "metadata = []"
    then have "\<exists>i < 4096. ''172.16.0.0/24'' = subnetCIDR i \<and> subnetCIDR i \<notin> ?rec
             \<and> (\<forall>k < i. subnetCIDR k \<in> ?rec)"
      by (intro exI [of _ 0]) (simp add: subnetCIDR_0)
    with c3 show "fst (allocateSubnet w) = Inr ''172.16.0.0/24''" by blast
  qed
  have c6: "?rec = {''172.16.0.0/24'', ''172.16.2.0/24''}
          \<longrightarrow> fst (allocateSubnet w) = Inr ''172.16.1.0/24''"
  proof
    assume r: "?rec = {''172.16.0.0/24'', ''172.16.2.0/24''}"
    have "\<forall>k < Suc 0. subnetCIDR k \<in> ?rec"
      by (simp add: r subnetCIDR_0)
    then have "\<exists>i < 4096. ''172.16.1.0/24'' = subnetCIDR i \<and> subnetCIDR i \<notin> ?rec
             \<and> (\<forall>k < i. subnetCIDR k \<in> ?rec)"
      by (intro exI [of _ "Suc 0"]) (simp add: r subnetCIDR_1)
    with c3 show "fst (allocateSubnet w) = Inr ''172.16.1.0/24''" by blast
  qed
  have c7: "(Subnet network = ''auto'' \<or> Subnet network = []) \<and> map_of metadata networkName = None \<longrightarrow>
          (case resolveNetworkSubnet w networkName network of
             (Inl e, w3) \<Rightarrow> e = NoAvailableSubnets \<and> fst (allocateSubnet w) = Inl e \<and> w3 = w1
           | (Inr s, w3) \<Rightarrow> fst (allocateSubnet w) = Inr s
                \<and> ReadFile w3 [workspace, ''networks.json''] =
                    Data (NetworksJSON (AList.update networkName
                       \<lparr>subnet = s, driver = Driver network, dnsmasq_unit = [],
                        dnsmasq_active = False\<rparr> metadata)))"
  proof
    assume h: "(Subnet network = ''auto'' \<or> Subnet network = []) \<and> map_of metadata networkName = None"
    show "(case resolveNetworkSubnet w networkName network of
             (Inl e, w3) \<Rightarrow> e = NoAvailableSubnets \<and> fst (allocateSubnet w) = Inl e \<and> w3 = w1
           | (Inr s, w3) \<Rightarrow> fst (allocateSubnet w) = Inr s
                \<and> ReadFile w3 [workspace, ''networks.json''] =
                    Data (NetworksJSON (AList.update networkName
                       \<lparr>subnet = s, driver = Driver network, dnsmasq_unit = [],
                        dnsmasq_active = False\<rparr> metadata)))"
    proof (cases ?scan)
      case None
      then have "resolveNetworkSubnet w networkName network = (Inl NoAvailableSubnets, w1)"
        using h by (auto simp: resolveNetworkSubnet_def assms alloc1 alloc)
      then show ?thesis by (simp add: alloc None)
    next
      case (Some s)
      let ?md = "AList.update networkName
                       \<lparr>subnet = s, driver = Driver network, dnsmasq_unit = [],
                        dnsmasq_active = False\<rparr> metadata"
      from saveNetworkMetadata_after_load [OF assms, of ?md]
      obtain w3 where w3: "saveNetworkMetadata w1 ?md = (None, w3)"
        "ReadFile w3 [workspace, ''networks.json''] = Data (NetworksJSON ?md)" by blast
      have "resolveNetworkSubnet w networkName network = (Inr s, w3)"
        using h by (auto simp: resolveNetworkSubnet_def assms alloc1 alloc Some w3)
      then show ?thesis by (simp add: alloc Some w3)
    qed
  qed
  from c1 c2 c3 c4 c5 c6 c7 show ?thesis by blast
qed


text \<open>The theorem on a workspace that records \<open>172.16.0.0/24\<close> and
  \<open>172.16.2.0/24\<close>, for a new network \<open>backend\<close> set to \<open>auto\<close>.\<close>

theorem allocateSubnet_first_free_witness:
  "loadNetworkMetadata worldA = (Inr metadataA, worldA)
   \<and> fst (allocateSubnet worldA) = Inr ''172.16.1.0/24''
   \<and> fst (resolveNetworkSubnet worldA ''backend'' \<lparr>Driver = ''bridge'', Subnet = ''auto''\<rparr>)
       = Inr ''172.16.1.0/24''
   \<and> ReadFile (snd (resolveNetworkSubnet worldA ''backend'' \<lparr>Driver = ''bridge'', Subnet = ''auto''\<rparr>))
         [workspace, ''networks.json'']
       = Data (NetworksJSON (metadataA @ [(''backend'',
           \<lparr>subnet = ''172.16.1.0/24'', driver = ''bridge'', dnsmasq_unit = [],
            dnsmasq_active = False\<rparr>)]))"
proof -
  have h: "loadNetworkMetadata worldA = (Inr metadataA, worldA)"
    by (simp add: loadNetworkMetadata_def getNetworkMetadataPath_def MkdirAll_def ReadFile_def
        Stat_def worldA_def workspace_def)
  obtain r w3 where r: "resolveNetworkSubnet worldA ''backend'' \<lparr>Driver = ''bridge'', Subnet = ''auto''\<rparr> = (r, w3)"
    by (cases "resolveNetworkSubnet worldA ''backend'' \<lparr>Driver = ''bridge'', Subnet = ''auto''\<rparr>")
  show ?thesis
    using allocateSubnet_first_free [OF h, of "\<lparr>Driver = ''bridge'', Subnet = ''auto''\<rparr>" "''backend''"] h
    by (cases r) (auto simp: r metadataA_def)
qed

section \<open>MAC addresses\<close>

lemma digit_in: "digit n \<in> set ''0123456789abcdef''"
  unfolding digit_def by (rule nth_mem) simp

lemma digit_not_comma: "digit n \<noteq> CHR '',''" "CHR '','' \<noteq> digit n"
  using digit_in [of n] by auto

lemma showNat_no_comma: "CHR '','' \<notin> set (showNat n)"
proof (induction n rule: showNat.induct)
  case (1 n)
  show ?case
  proof (cases "n < 10")
    case True
    then show ?thesis by (subst showNat.simps) (simp add: digit_not_comma)
  next
    case False
    with 1 show ?thesis by (subst showNat.simps) (simp add: digit_not_comma)
  qed
qed

lemma hex2_no_comma: "CHR '','' \<notin> set (hex2 b)"
  by (simp add: hex2_def digit_not_comma)

lemma generateMACAddress_no_comma:
  "CHR '','' \<notin> set (generateMACAddress md5 projectName vmName i)"
  by (simp add: generateMACAddress_def Let_def hex2_no_comma)

lemma Split3:
  "c \<notin> set a \<Longrightarrow> c \<notin> set b \<Longrightarrow> c \<notin> set d \<Longrightarrow> Split c (a @ c # b @ c # d) = [a, b, d]"
  by (simp add: Split_append Split_no_sep)

lemma deviceMAC_virtio:
  assumes "CHR '','' \<notin> set mac"
  shows "deviceMAC (''virtio-net-pci,netdev=net'' @ showNat i @ '',mac='' @ mac) = Some mac"
proof -
  have e: "''virtio-net-pci,netdev=net'' @ showNat i @ '',mac='' @ mac
         = ''virtio-net-pci'' @ CHR '','' # (''netdev=net'' @ showNat i) @ CHR '','' # (''mac='' @ mac)"
    by simp
  have s: "Split CHR '','' (''virtio-net-pci'' @ CHR '','' # (''netdev=net'' @ showNat i) @ CHR '','' # (''mac='' @ mac))
         = [''virtio-net-pci'', ''netdev=net'' @ showNat i, ''mac='' @ mac]"
    by (rule Split3) (simp_all add: showNat_no_comma assms)
  show ?thesis
    unfolding deviceMAC_def e s by (simp add: HasPrefix_def)
qed

lemma deviceArgs_volumeArgs:
  "deviceArgs (volumeArgs mounts i @ rest) = deviceArgs rest"
  by (induction mounts arbitrary: i) auto

lemma deviceArgs_tapArgs:
  "deviceArgs (concat (map (tapArgs E vmName) is) @ rest) =
     map (\<lambda>i. ''virtio-net-pci,netdev=net'' @ showNat i @ '',mac=''
                @ generateMACAddress (md5Sum E) (getProjectName E) vmName i) is
     @ deviceArgs rest"
  by (induction "is") (auto simp: tapArgs_def Let_def)

lemma deviceArgs_userArgs:
  "deviceArgs (userArgs E vmName k sshPort @ rest) =
     (''virtio-net-pci,netdev=net'' @ showNat k @ '',mac=''
        @ generateMACAddress (md5Sum E) (getProjectName E) vmName k) # deviceArgs rest"
  by (simp add: userArgs_def Let_def)

lemma deviceArgs_iso: "deviceArgs (if isoPath \<noteq> [] then [''-drive'', x] else []) = []"
  by simp

lemma deviceArgs_buildQEMUCommand:
  "deviceArgs (tl (fst (buildQEMUCommand E w vmName vm disk isoPath sshPort mounts))) =
     map (\<lambda>i. ''virtio-net-pci,netdev=net'' @ showNat i @ '',mac=''
                @ generateMACAddress (md5Sum E) (getProjectName E) vmName i)
       ([0..<length (Networks vm)] @ (if sshPort > 0 then [length (Networks vm)] else []))"
proof -
  obtain socketPath w1 where s: "getConsoleSocketPath E w vmName = (socketPath, w1)"
    by (cases "getConsoleSocketPath E w vmName")
  show ?thesis
  proof (cases "Networks vm = []")
    case True
    then show ?thesis
      using deviceArgs_userArgs [of E vmName 0 sshPort "[]"]
      by (simp add: buildQEMUCommand_def s deviceArgs_volumeArgs deviceArgs_userArgs)
  next
    case False
    then show ?thesis
      using deviceArgs_userArgs [of E vmName "length (Networks vm)" sshPort "[]"]
      by (simp add: buildQEMUCommand_def s deviceArgs_volumeArgs deviceArgs_tapArgs
          deviceArgs_userArgs)
  qed
qed

lemma deviceMAC_devices:
  "map deviceMAC
     (map (\<lambda>i. ''virtio-net-pci,netdev=net'' @ showNat i @ '',mac=''
                @ generateMACAddress md5 projectName vmName i) is)
   = map (\<lambda>i. Some (generateMACAddress md5 projectName vmName i)) is"
  by (simp only: map_map comp_def deviceMAC_virtio [OF generateMACAddress_no_comma])

lemma macAddresses_upt:
  "macAddresses E vmName vm sshPort =
     map (generateMACAddress (md5Sum E) (getProjectName E) vmName)
       ([0..<length (Networks vm)] @ (if sshPort > 0 then [length (Networks vm)] else []))"
  by (simp add: macAddresses_def)

lemma enumerate_map_upt0:
  "enumerate 0 (map g [0..<m]) = map (\<lambda>i. (i, g i)) [0..<m]"
  by (rule nth_equalityI) (simp_all add: nth_enumerate_eq)

lemma enumerate_map_upt:
  "enumerate 0 (map g ([0..<n] @ (if b then [n] else []))) =
     map (\<lambda>i. (i, g i)) ([0..<n] @ (if b then [n] else []))"
proof (cases b)
  case True
  then show ?thesis using enumerate_map_upt0 [of g "Suc n"] by simp
next
  case False
  then show ?thesis using enumerate_map_upt0 [of g n] by simp
qed

lemma below16:
  "n < 16 \<Longrightarrow> n \<in> {0, 1, 2, 3, 4, 5, 6, 7, 8, 9, 10, 11, 12, 13, 14, 15 :: nat}"
  by (simp only: insert_iff empty_iff) arith

lemma hexDigitValue_digit: "n < 16 \<Longrightarrow> hexDigitValue (digit n) = Some n"
  by (drule below16) (auto simp: digit_def hexDigitValue_def)

lemma hexByte_hex2: "hexByte (hex2 b) = Some b"
proof -
  have "unat b < 256" using unsigned_less [of b] by simp
  then have hi: "unat b div 16 < 16" by simp
  have lo: "unat b mod 16 < 16" by simp
  have "16 * (unat b div 16) + unat b mod 16 = unat b" by simp
  then show ?thesis
    by (simp add: hexByte_def hex2_def hexDigitValue_digit [OF hi] hexDigitValue_digit [OF lo])
qed

lemma digit_decimal: "n < 10 \<Longrightarrow> of_char (digit n) = 48 + n"
proof -
  assume "n < 10"
  then have "n < 16" by simp
  from below16 [OF this] \<open>n < 10\<close> show ?thesis
    by (auto simp: digit_def)
qed

lemma showNat_decimal:
  "showNat n \<noteq> []
   \<and> list_all (\<lambda>c. 48 \<le> (of_char c :: nat) \<and> (of_char c :: nat) \<le> 57) (showNat n)
   \<and> foldl (\<lambda>acc c. 10 * acc + ((of_char c :: nat) - 48)) 0 (showNat n) = n
   \<and> ((hd (showNat n) = CHR ''0'') = (n = 0))"
proof (induction n rule: showNat.induct)
  case (1 n)
  show ?case
  proof (cases "n < 10")
    case True
    have z: "(digit n = CHR ''0'') = (n = 0)"
    proof
      assume "digit n = CHR ''0''"
      then have "(of_char (digit n) :: nat) = 48" by simp
      with digit_decimal [OF True] show "n = 0" by simp
    next
      assume "n = 0"
      then show "digit n = CHR ''0''" by (simp add: digit_def)
    qed
    from True show ?thesis
      by (subst (1 2 3 4) showNat.simps) (simp add: digit_decimal z)
  next
    case False
    then have m: "n mod 10 < 10" and d: "n div 10 \<noteq> 0" by simp_all
    from 1 [OF False] d have ih: "showNat (n div 10) \<noteq> []"
      "list_all (\<lambda>c. 48 \<le> (of_char c :: nat) \<and> (of_char c :: nat) \<le> 57) (showNat (n div 10))"
      "foldl (\<lambda>acc c. 10 * acc + ((of_char c :: nat) - 48)) 0 (showNat (n div 10)) = n div 10"
      "hd (showNat (n div 10)) \<noteq> CHR ''0''"
      by simp_all
    have e: "showNat n = showNat (n div 10) @ [digit (n mod 10)]"
      using False by (subst showNat.simps) simp
    from False have "n \<noteq> 0" by simp
    with ih show ?thesis
      unfolding e by (simp add: digit_decimal [OF m])
  qed
qed

lemma decimalValue_showNat: "decimalValue (showNat n) = Some n"
  using showNat_decimal [of n] by (simp add: decimalValue_def)

lemma showNat_canonical: "(hd (showNat n) = CHR ''0'') = (showNat n = ''0'')"
proof -
  have "(showNat n = ''0'') = (n = 0)"
  proof
    assume "showNat n = ''0''"
    then have "decimalValue ''0'' = Some n" using decimalValue_showNat [of n] by simp
    then show "n = 0" by (simp add: decimalValue_def)
  next
    assume "n = 0"
    then show "showNat n = ''0''" by (simp add: showNat.simps digit_def)
  qed
  with showNat_decimal [of n] show ?thesis by simp
qed

lemma generateMACAddress_bytes:
  "\<exists>b0 b1 b2 d.
     generateMACAddress md5 projectName vmName i = ''52:54:00:'' @ b0 @ '':'' @ b1 @ '':'' @ b2
     \<and> hexByte b0 = Some (md5 (projectName @ ''-'' @ vmName @ ''-'' @ d) 0)
     \<and> hexByte b1 = Some (md5 (projectName @ ''-'' @ vmName @ ''-'' @ d) 1)
     \<and> hexByte b2 = Some (md5 (projectName @ ''-'' @ vmName @ ''-'' @ d) 2)
     \<and> decimalValue d = Some i \<and> (hd d = CHR ''0'') = (d = ''0'')"
  apply (rule exI [of _ "hex2 (md5 (projectName @ ''-'' @ vmName @ ''-'' @ showNat i) 0)"])
  apply (rule exI [of _ "hex2 (md5 (projectName @ ''-'' @ vmName @ ''-'' @ showNat i) 1)"])
  apply (rule exI [of _ "hex2 (md5 (projectName @ ''-'' @ vmName @ ''-'' @ showNat i) 2)"])
  apply (rule exI [of _ "showNat i"])
  apply (simp add: generateMACAddress_def vmIdentifier_def Let_def hexByte_hex2
      decimalValue_showNat showNat_canonical)
  done


lemma Split_terminated:
  "\<forall>l \<in> set ls. c \<notin> set l \<Longrightarrow> Split c (concat (map (\<lambda>l. l @ [c]) ls)) = ls @ [[]]"
proof (induction ls)
  case Nil
  then show ?case by simp
next
  case (Cons l ls)
  then have "Split c (l @ c # concat (map (\<lambda>l. l @ [c]) ls)) = l # (ls @ [[]])"
    by (simp add: Split_append)
  then show ?case by simp
qed

lemma Split_preceded:
  "\<forall>l \<in> set ls. c \<notin> set l \<Longrightarrow> Split c (concat (map (\<lambda>l. c # l) ls)) = [] # ls"
  using Split_flags [of ls c "[]"] by simp

lemma digit_not_newline: "digit n \<noteq> newline"
  using digit_in [of n] by (auto simp: newline_def)

lemma showNat_no_newline: "newline \<notin> set (showNat n)"
proof (induction n rule: showNat.induct)
  case (1 n)
  show ?case
  proof (cases "n < 10")
    case True
    then show ?thesis
      using digit_not_newline [of n] by (subst showNat.simps) auto
  next
    case False
    with 1 show ?thesis
      using digit_not_newline [of "n mod 10"] by (subst showNat.simps) auto
  qed
qed

lemma generateMACAddress_no_newline:
  "newline \<notin> set (generateMACAddress md5 projectName vmName i)"
proof -
  have "digit n \<noteq> CHR 0x0A" for n
    using digit_in [of n] by auto
  then have "\<And>n. digit n \<noteq> CHR 0x0A" "\<And>n. CHR 0x0A \<noteq> digit n"
    by (simp_all add: eq_commute [of "CHR 0x0A"])
  then show ?thesis
    by (simp add: generateMACAddress_def Let_def hex2_def newline_def)
qed

lemma macAddresses_no_newline:
  "\<forall>mac \<in> set (macAddresses E vmName vm sshPort). newline \<notin> set mac"
  by (auto simp: macAddresses_def generateMACAddress_no_newline)

lemma macOfLine_macaddress:
  "macOfLine (''        macaddress: '' @ [dquote] @ mac @ [dquote]) = Some mac"
  by (simp add: macOfLine_def HasPrefix_def Let_def)

lemma macOfLine_other:
  "macOfLine (''    net'' @ rest) = None"
  "macOfLine ''      match:'' = None"
  "macOfLine ''      dhcp4: true'' = None"
  "macOfLine (''      set-name: '' @ rest) = None"
  "macOfLine ''network:'' = None"
  "macOfLine ''  version: 2'' = None"
  "macOfLine ''  ethernets:'' = None"
  "macOfLine [] = None"
  by (simp_all add: macOfLine_def HasPrefix_def Let_def)

lemma map_filter_append:
  "List.map_filter f (xs @ ys) = List.map_filter f xs @ List.map_filter f ys"
  by (simp add: List.map_filter_def)

lemma entry_lines:
  "ethernetEntry i mac =
     concat (map (\<lambda>l. l @ [newline])
       [''    net'' @ showNat i @ '':'', ''      match:'',
        ''        macaddress: '' @ [dquote] @ mac @ [dquote],
        ''      dhcp4: true'', ''      set-name: net'' @ showNat i])"
  by (simp add: ethernetEntry_def Let_def)

lemma entries_lines:
  "concat (map (\<lambda>(i, mac). ethernetEntry i mac) xs) =
     concat (map (\<lambda>l. l @ [newline])
       (concat (map (\<lambda>(i, mac).
          [''    net'' @ showNat i @ '':'', ''      match:'',
           ''        macaddress: '' @ [dquote] @ mac @ [dquote],
           ''      dhcp4: true'', ''      set-name: net'' @ showNat i]) xs)))"
proof (induction xs)
  case Nil
  then show ?case by simp
next
  case (Cons x xs)
  obtain i mac where x: "x = (i, mac)" by (cases x)
  show ?case
    unfolding x using Cons.IH by (simp only: list.map concat.simps prod.case entry_lines map_append concat_append)
qed

lemma entries_newline_free:
  "\<forall>x \<in> set xs. newline \<notin> set (snd x) \<Longrightarrow>
     \<forall>l \<in> set (concat (map (\<lambda>(i, mac).
          [''    net'' @ showNat i @ '':'', ''      match:'',
           ''        macaddress: '' @ [dquote] @ mac @ [dquote],
           ''      dhcp4: true'', ''      set-name: net'' @ showNat i]) xs)). newline \<notin> set l"
  using showNat_no_newline [unfolded newline_def]
  by (induction xs) (auto simp: newline_def dquote_def)

lemma entries_macs:
  "List.map_filter macOfLine (concat (map (\<lambda>(i, mac).
          [''    net'' @ showNat i @ '':'', ''      match:'',
           ''        macaddress: '' @ [dquote] @ mac @ [dquote],
           ''      dhcp4: true'', ''      set-name: net'' @ showNat i]) xs)) = map snd xs"
proof (induction xs)
  case Nil
  then show ?case by (simp add: List.map_filter_def)
next
  case (Cons x xs)
  obtain i mac where x: "x = (i, mac)" by (cases x)
  have "List.map_filter macOfLine
          [''    net'' @ showNat i @ '':'', ''      match:'',
           ''        macaddress: '' @ [dquote] @ mac @ [dquote],
           ''      dhcp4: true'', ''      set-name: net'' @ showNat i] = [mac]"
    using macOfLine_other(1) [of "showNat i @ '':''"] macOfLine_other(4) [of "''net'' @ showNat i"]
      macOfLine_macaddress [of mac] macOfLine_other(2,3)
    by (simp add: List.map_filter_def)
  with Cons.IH show ?case
    unfolding x by (simp only: list.map concat.simps prod.case map_filter_append snd_conv) simp
qed

lemma seedMACs_networkConfigContent:
  assumes "\<forall>mac \<in> set macs. newline \<notin> set mac"
  shows "seedMACs (networkConfigContent macs) = macs"
proof -
  define ls where "ls = [''network:'', ''  version: 2'', ''  ethernets:'']
      @ concat (map (\<lambda>(i, mac).
          [''    net'' @ showNat i @ '':'', ''      match:'',
           ''        macaddress: '' @ [dquote] @ mac @ [dquote],
           ''      dhcp4: true'', ''      set-name: net'' @ showNat i]) (enumerate 0 macs))"
  have c: "networkConfigContent macs = concat (map (\<lambda>l. l @ [newline]) ls)"
    unfolding networkConfigContent_def ls_def entries_lines by simp
  have "\<forall>x \<in> set (enumerate 0 macs). newline \<notin> set (snd x)"
    using assms by (auto simp: in_set_enumerate_eq)
  from entries_newline_free [OF this]
  have nf: "\<forall>l \<in> set ls. newline \<notin> set l"
    by (auto simp: ls_def newline_def)
  have "seedMACs (networkConfigContent macs) = List.map_filter macOfLine (ls @ [[]])"
    unfolding seedMACs_def c by (simp only: Split_terminated [OF nf])
  also have "\<dots> = map snd (enumerate 0 macs)"
    unfolding ls_def map_filter_append entries_macs
    using macOfLine_other(5,6,7,8) by (simp add: List.map_filter_def)
  also have "\<dots> = macs" by (simp add: map_snd_enumerate)
  finally show ?thesis .
qed


lemma entries_lines_preceded:
  "concat (map (\<lambda>(i, mac).
                    [newline] @ ''    net'' @ showNat i @ '':''
                    @ [newline] @ ''      match:''
                    @ [newline] @ ''        macaddress: '' @ [dquote] @ mac @ [dquote]
                    @ [newline] @ ''      dhcp4: true''
                    @ [newline] @ ''      set-name: net'' @ showNat i) xs) =
     concat (map (\<lambda>l. newline # l)
       (concat (map (\<lambda>(i, mac).
          [''    net'' @ showNat i @ '':'', ''      match:'',
           ''        macaddress: '' @ [dquote] @ mac @ [dquote],
           ''      dhcp4: true'', ''      set-name: net'' @ showNat i]) xs)))"
proof (induction xs)
  case Nil
  then show ?case by simp
next
  case (Cons x xs)
  obtain i mac where x: "x = (i, mac)" by (cases x)
  show ?case
    unfolding x using Cons.IH by simp
qed

lemma seedMACs_userDataNetwork:
  assumes "\<forall>mac \<in> set macs. newline \<notin> set mac"
  shows "seedMACs (userDataNetwork macs) = macs"
proof (cases "macs = []")
  case True
  then show ?thesis
    using macOfLine_other(8)
    by (simp add: userDataNetwork_def seedMACs_def List.map_filter_def)
next
  case False
  define ls where "ls = [''network:'', ''  version: 2'', ''  ethernets:'']
      @ concat (map (\<lambda>(i, mac).
          [''    net'' @ showNat i @ '':'', ''      match:'',
           ''        macaddress: '' @ [dquote] @ mac @ [dquote],
           ''      dhcp4: true'', ''      set-name: net'' @ showNat i]) (enumerate 0 macs))"
  have c: "userDataNetwork macs = concat (map (\<lambda>l. newline # l) ls)"
    using False unfolding userDataNetwork_def ls_def entries_lines_preceded by simp
  have "\<forall>x \<in> set (enumerate 0 macs). newline \<notin> set (snd x)"
    using assms by (auto simp: in_set_enumerate_eq)
  from entries_newline_free [OF this]
  have nf: "\<forall>l \<in> set ls. newline \<notin> set l"
    by (auto simp: ls_def newline_def)
  have "seedMACs (userDataNetwork macs) = List.map_filter macOfLine ([] # ls)"
    unfolding seedMACs_def c by (simp only: Split_preceded [OF nf])
  also have "\<dots> = map snd (enumerate 0 macs)"
  proof -
    have e: "[] # ls = [[], ''network:'', ''  version: 2'', ''  ethernets:'']
      @ concat (map (\<lambda>(i, mac).
          [''    net'' @ showNat i @ '':'', ''      match:'',
           ''        macaddress: '' @ [dquote] @ mac @ [dquote],
           ''      dhcp4: true'', ''      set-name: net'' @ showNat i]) (enumerate 0 macs))"
      by (simp add: ls_def)
    show ?thesis
      using macOfLine_other(5,6,7,8)
      by (simp only: e map_filter_append entries_macs) (simp add: List.map_filter_def)
  qed
  also have "\<dots> = macs" by (simp add: map_snd_enumerate)
  finally show ?thesis .
qed

lemma writeNetworkConfig_written:
  assumes "writeNetworkConfig w cloudInitDir macs = (None, w')" "macs \<noteq> []"
  shows "ReadFile w' (cloudInitDir @ [''network-config''])
           = Data (TextFile (networkConfigContent macs))"
  using assms
  by (auto simp: writeNetworkConfig_def WriteFile_def ReadFile_def Stat_def update_conv'
      split: if_splits)


text \<open>
  Claim C2. The MAC address of interface \<open>i\<close> of a VM is \<open>52:54:00:\<close> followed by three
  pairs of lower-case hexadecimal digits, separated by colons, that denote the first
  three bytes of the MD5 digest of \<open><project>-<vm>-<i>\<close> (\<open>i\<close> in decimal without
  leading zeros): a function of the three inputs alone. The list \<open>macAddresses\<close> that
  \<open>startVM\<close> hands to the seed generator holds these addresses for the bridge
  networks of the VM, in order, and then for the user-mode interface when there is
  an SSH port. The addresses read back from the \<open>network-config\<close> the generator
  builds, from the \<open>network:\<close> block of \<open>user-data\<close>, and from the file once written, are
  that list; and it is, entry for entry, the list of \<open>mac=\<close> properties of the
  \<open>-device virtio-net-pci\<close> arguments of the command \<open>buildQEMUCommand\<close> builds for the
  same VM and SSH port, entry \<open>i\<close> on the device of \<open>netdev=net<i>\<close>.
\<close>

theorem mac_agreement:
  "(\<exists>b0 b1 b2 d.
      generateMACAddress md5 projectName vmName i = ''52:54:00:'' @ b0 @ '':'' @ b1 @ '':'' @ b2
      \<and> hexByte b0 = Some (md5 (projectName @ ''-'' @ vmName @ ''-'' @ d) 0)
      \<and> hexByte b1 = Some (md5 (projectName @ ''-'' @ vmName @ ''-'' @ d) 1)
      \<and> hexByte b2 = Some (md5 (projectName @ ''-'' @ vmName @ ''-'' @ d) 2)
      \<and> decimalValue d = Some i \<and> (hd d = CHR ''0'') = (d = ''0''))
   \<and> macAddresses E vmName vm sshPort
       = map (generateMACAddress (md5Sum E) (getProjectName E) vmName)
           [0..<length (Networks vm) + (if sshPort > 0 then 1 else 0)]
   \<and> seedMACs (networkConfigContent (macAddresses E vmName vm sshPort))
       = macAddresses E vmName vm sshPort
   \<and> seedMACs (userDataNetwork (macAddresses E vmName vm sshPort))
       = macAddresses E vmName vm sshPort
   \<and> (macAddresses E vmName vm sshPort \<noteq> []
        \<and> writeNetworkConfig w0 cloudInitDir (macAddresses E vmName vm sshPort) = (None, w1) \<longrightarrow>
       (\<exists>t. ReadFile w1 (cloudInitDir @ [''network-config'']) = Data (TextFile t)
            \<and> seedMACs t = macAddresses E vmName vm sshPort))
   \<and> map deviceMAC (deviceArgs (tl (fst
         (buildQEMUCommand E w vmName vm instanceDiskPath cloudInitISOPath sshPort volumeMounts))))
       = map Some (macAddresses E vmName vm sshPort)
   \<and> deviceArgs (tl (fst
         (buildQEMUCommand E w vmName vm instanceDiskPath cloudInitISOPath sshPort volumeMounts)))
       = map (\<lambda>(i, mac). ''virtio-net-pci,netdev=net'' @ showNat i @ '',mac='' @ mac)
           (enumerate 0 (macAddresses E vmName vm sshPort))"
proof -
  note nn = macAddresses_no_newline [of E vmName vm sshPort]
  have a: "\<exists>b0 b1 b2 d.
      generateMACAddress md5 projectName vmName i = ''52:54:00:'' @ b0 @ '':'' @ b1 @ '':'' @ b2
      \<and> hexByte b0 = Some (md5 (projectName @ ''-'' @ vmName @ ''-'' @ d) 0)
      \<and> hexByte b1 = Some (md5 (projectName @ ''-'' @ vmName @ ''-'' @ d) 1)
      \<and> hexByte b2 = Some (md5 (projectName @ ''-'' @ vmName @ ''-'' @ d) 2)
      \<and> decimalValue d = Some i \<and> (hd d = CHR ''0'') = (d = ''0'')"
    by (rule generateMACAddress_bytes)
  have b: "macAddresses E vmName vm sshPort
       = map (generateMACAddress (md5Sum E) (getProjectName E) vmName)
           [0..<length (Networks vm) + (if sshPort > 0 then 1 else 0)]"
    by (simp add: macAddresses_def)
  have c: "seedMACs (networkConfigContent (macAddresses E vmName vm sshPort))
       = macAddresses E vmName vm sshPort"
    by (rule seedMACs_networkConfigContent [OF nn])
  have d: "seedMACs (userDataNetwork (macAddresses E vmName vm sshPort))
       = macAddresses E vmName vm sshPort"
    by (rule seedMACs_userDataNetwork [OF nn])
  have e: "macAddresses E vmName vm sshPort \<noteq> []
        \<and> writeNetworkConfig w0 cloudInitDir (macAddresses E vmName vm sshPort) = (None, w1) \<longrightarrow>
       (\<exists>t. ReadFile w1 (cloudInitDir @ [''network-config'']) = Data (TextFile t)
            \<and> seedMACs t = macAddresses E vmName vm sshPort)"
    using writeNetworkConfig_written [of w0 cloudInitDir "macAddresses E vmName vm sshPort" w1] c
    by blast
  have g: "deviceArgs (tl (fst
         (buildQEMUCommand E w vmName vm instanceDiskPath cloudInitISOPath sshPort volumeMounts)))
       = map (\<lambda>(i, mac). ''virtio-net-pci,netdev=net'' @ showNat i @ '',mac='' @ mac)
           (enumerate 0 (macAddresses E vmName vm sshPort))"
    by (simp only: deviceArgs_buildQEMUCommand macAddresses_upt enumerate_map_upt map_map comp_def
        prod.case)
  have f: "map deviceMAC (deviceArgs (tl (fst
         (buildQEMUCommand E w vmName vm instanceDiskPath cloudInitISOPath sshPort volumeMounts))))
       = map Some (macAddresses E vmName vm sshPort)"
  proof -
    have "map deviceMAC (deviceArgs (tl (fst
         (buildQEMUCommand E w vmName vm instanceDiskPath cloudInitISOPath sshPort volumeMounts))))
       = map (\<lambda>i. Some (generateMACAddress (md5Sum E) (getProjectName E) vmName i))
           ([0..<length (Networks vm)] @ (if sshPort > 0 then [length (Networks vm)] else []))"
      by (simp only: deviceArgs_buildQEMUCommand deviceMAC_devices)
    also have "\<dots> = map Some (macAddresses E vmName vm sshPort)"
      by (simp add: macAddresses_def)
    finally show ?thesis .
  qed
  from a b c d e f g show ?thesis by blast
qed

text \<open>The theorem for the VM \<open>web\<close> of the project \<open>demo\<close>, on one bridge network and
  with SSH port 2222: the digest of \<open>demo-web-0\<close> begins \<open>f8 55 93\<close> and that of
  \<open>demo-web-1\<close> begins \<open>84 07 d7\<close>.\<close>

theorem mac_agreement_witness:
  "generateMACAddress md5Demo ''demo'' ''web'' 0 = ''52:54:00:f8:55:93''
   \<and> hexByte ''f8'' = Some (md5Demo ''demo-web-0'' 0)
   \<and> hexByte ''55'' = Some (md5Demo ''demo-web-0'' 1)
   \<and> hexByte ''93'' = Some (md5Demo ''demo-web-0'' 2)
   \<and> macAddresses envM ''web'' vmNet 2222 = [''52:54:00:f8:55:93'', ''52:54:00:84:07:d7'']
   \<and> seedMACs (networkConfigContent (macAddresses envM ''web'' vmNet 2222))
       = [''52:54:00:f8:55:93'', ''52:54:00:84:07:d7'']
   \<and> seedMACs (userDataNetwork (macAddresses envM ''web'' vmNet 2222))
       = [''52:54:00:f8:55:93'', ''52:54:00:84:07:d7'']
   \<and> fst (writeNetworkConfig worldC [workspace, ''web'', ''cloud-init'']
            (macAddresses envM ''web'' vmNet 2222)) = None
   \<and> (\<exists>t. ReadFile (snd (writeNetworkConfig worldC [workspace, ''web'', ''cloud-init'']
                              (macAddresses envM ''web'' vmNet 2222)))
              [workspace, ''web'', ''cloud-init'', ''network-config''] = Data (TextFile t)
          \<and> seedMACs t = [''52:54:00:f8:55:93'', ''52:54:00:84:07:d7''])
   \<and> map deviceMAC (deviceArgs (tl (fst
         (buildQEMUCommand envM world0 ''web'' vmNet ''disk.qcow2'' ''cloud-init.iso'' 2222 []))))
       = [Some ''52:54:00:f8:55:93'', Some ''52:54:00:84:07:d7'']"
proof -
  have g: "generateMACAddress md5Demo ''demo'' ''web'' 0 = ''52:54:00:f8:55:93''"
    by code_simp
  have h: "hexByte ''f8'' = Some (md5Demo ''demo-web-0'' 0)"
    "hexByte ''55'' = Some (md5Demo ''demo-web-0'' 1)"
    "hexByte ''93'' = Some (md5Demo ''demo-web-0'' 2)"
    by code_simp+
  have m: "macAddresses envM ''web'' vmNet 2222 = [''52:54:00:f8:55:93'', ''52:54:00:84:07:d7'']"
    by code_simp
  have wr: "fst (writeNetworkConfig worldC [workspace, ''web'', ''cloud-init'']
            (macAddresses envM ''web'' vmNet 2222)) = None"
    by (simp add: m writeNetworkConfig_def WriteFile_def Stat_def worldC_def workspace_def)
  then have wr': "writeNetworkConfig worldC [workspace, ''web'', ''cloud-init'']
            (macAddresses envM ''web'' vmNet 2222)
          = (None, snd (writeNetworkConfig worldC [workspace, ''web'', ''cloud-init'']
                         (macAddresses envM ''web'' vmNet 2222)))"
    by (metis prod.collapse)
  have ne: "macAddresses envM ''web'' vmNet 2222 \<noteq> []" by (simp add: m)
  note t = mac_agreement [of md5Demo "''demo''" "''web''" 0 envM vmNet 2222 worldC
      "[workspace, ''web'', ''cloud-init'']"
      "snd (writeNetworkConfig worldC [workspace, ''web'', ''cloud-init'']
              (macAddresses envM ''web'' vmNet 2222))"
      world0 "''disk.qcow2''" "''cloud-init.iso''" "[]"]
  from t ne wr' have r: "\<exists>t. ReadFile (snd (writeNetworkConfig worldC [workspace, ''web'', ''cloud-init'']
                              (macAddresses envM ''web'' vmNet 2222)))
              ([workspace, ''web'', ''cloud-init''] @ [''network-config'']) = Data (TextFile t)
          \<and> seedMACs t = macAddresses envM ''web'' vmNet 2222"
    by blast
  from t have s: "seedMACs (networkConfigContent (macAddresses envM ''web'' vmNet 2222))
       = macAddresses envM ''web'' vmNet 2222"
    "seedMACs (userDataNetwork (macAddresses envM ''web'' vmNet 2222))
       = macAddresses envM ''web'' vmNet 2222"
    "map deviceMAC (deviceArgs (tl (fst
         (buildQEMUCommand envM world0 ''web'' vmNet ''disk.qcow2'' ''cloud-init.iso'' 2222 []))))
       = map Some (macAddresses envM ''web'' vmNet 2222)"
    by blast+
  from g h m wr r s show ?thesis by simp
qed

section \<open>SSH port allocation\<close>

declare portLoop.simps [simp del]

lemma world_fs_same [simp]: "w\<lparr>fs := fs w\<rparr> = w"
  by simp



lemma MkdirAll_instance_exists:
  assumes "Stat w [workspace] = Some Dir" "Stat w [workspace, vmName] = Some Dir"
  shows "MkdirAll w [workspace, vmName] = (None, w)"
  using assms
  by (auto simp: MkdirAll_def Stat_def split: option.splits node.splits if_splits)

lemma loadPortMetadata_existing:
  assumes "Stat w [workspace] = Some Dir" "Stat w [workspace, vmName] = Some Dir"
  shows "loadPortMetadata w vmName =
     (case Stat w [workspace, vmName, ''ports.json''] of
        None \<Rightarrow> Inr None
      | Some Dir \<Rightarrow> Inl (ReadFailed [workspace, vmName, ''ports.json''])
      | Some (File (PortsJSON m)) \<Rightarrow> Inr (Some m)
      | Some (File _) \<Rightarrow> Inl (ParseFailed [workspace, vmName, ''ports.json'']), w)"
  by (simp add: loadPortMetadata_def getPortMetadataPath_def getInstanceDir_def
      MkdirAll_instance_exists [OF assms] ReadFile_def
      split: option.splits node.splits content.splits)






lemma portLoop_spec:
  "portLoop E w vmName alloc port = (r, w') \<Longrightarrow>
     (\<forall>p. r = Inr p \<longrightarrow>
        port \<le> p \<and> p \<le> 2322 \<and> map_of alloc p = None \<and> isPortAvailable E p
        \<and> (\<forall>q. port \<le> q \<and> q < p \<longrightarrow> \<not> (map_of alloc q = None \<and> isPortAvailable E q))
        \<and> w' = snd (savePortMetadata w vmName \<lparr>ssh = p\<rparr>))
   \<and> (\<forall>e. r = Inl e \<longrightarrow>
        e = NoAvailablePorts 2222 2322 \<and> w' = w
        \<and> (\<forall>q. port \<le> q \<and> q \<le> 2322 \<longrightarrow> \<not> (map_of alloc q = None \<and> isPortAvailable E q)))"
proof (induction E w vmName alloc port arbitrary: r w' rule: portLoop.induct)
  case (1 E w vmName alloc port)
  show ?case
  proof (cases "port \<le> 2322")
    case False
    with "1.prems" show ?thesis by (subst (asm) portLoop.simps) auto
  next
    case le: True
    show ?thesis
    proof (cases "map_of alloc port = None \<and> isPortAvailable E port")
      case True
      with le "1.prems" have "r = Inr port" "w' = snd (savePortMetadata w vmName \<lparr>ssh = port\<rparr>)"
        by (subst (asm) portLoop.simps, auto)+
      with le True show ?thesis by auto
    next
      case False
      with le "1.prems" have step: "portLoop E w vmName alloc (port + 1) = (r, w')"
        by (subst (asm) portLoop.simps) (auto split: if_splits)
      have IH: "(\<forall>p. r = Inr p \<longrightarrow>
        port + 1 \<le> p \<and> p \<le> 2322 \<and> map_of alloc p = None \<and> isPortAvailable E p
        \<and> (\<forall>q. port + 1 \<le> q \<and> q < p \<longrightarrow> \<not> (map_of alloc q = None \<and> isPortAvailable E q))
        \<and> w' = snd (savePortMetadata w vmName \<lparr>ssh = p\<rparr>))
   \<and> (\<forall>e. r = Inl e \<longrightarrow>
        e = NoAvailablePorts 2222 2322 \<and> w' = w
        \<and> (\<forall>q. port + 1 \<le> q \<and> q \<le> 2322 \<longrightarrow> \<not> (map_of alloc q = None \<and> isPortAvailable E q)))"
      proof (cases "map_of alloc port \<noteq> None")
        case True
        from "1.IH"(1) [OF le True step] show ?thesis .
      next
        case nn: False
        with False have na: "\<not> isPortAvailable E port" by simp
        from "1.IH"(2) [OF le nn na step] show ?thesis .
      qed
      have edge: "\<And>q. port \<le> q \<Longrightarrow> q = port \<or> port + 1 \<le> q" by auto
      show ?thesis
      proof (rule conjI; intro allI impI)
        fix p assume rp: "r = Inr p"
        with IH have a: "port + 1 \<le> p" "p \<le> 2322" "map_of alloc p = None" "isPortAvailable E p"
          "\<forall>q. port + 1 \<le> q \<and> q < p \<longrightarrow> \<not> (map_of alloc q = None \<and> isPortAvailable E q)"
          "w' = snd (savePortMetadata w vmName \<lparr>ssh = p\<rparr>)" by auto
        have "\<forall>q. port \<le> q \<and> q < p \<longrightarrow> \<not> (map_of alloc q = None \<and> isPortAvailable E q)"
          using a(5) False edge by blast
        with a show "port \<le> p \<and> p \<le> 2322 \<and> map_of alloc p = None \<and> isPortAvailable E p
        \<and> (\<forall>q. port \<le> q \<and> q < p \<longrightarrow> \<not> (map_of alloc q = None \<and> isPortAvailable E q))
        \<and> w' = snd (savePortMetadata w vmName \<lparr>ssh = p\<rparr>)" by auto
      next
        fix e assume re: "r = Inl e"
        with IH have a: "e = NoAvailablePorts 2222 2322" "w' = w"
          "\<forall>q. port + 1 \<le> q \<and> q \<le> 2322 \<longrightarrow> \<not> (map_of alloc q = None \<and> isPortAvailable E q)"
          by auto
        have "\<forall>q. port \<le> q \<and> q \<le> 2322 \<longrightarrow> \<not> (map_of alloc q = None \<and> isPortAvailable E q)"
          using a(3) False edge by blast
        with a show "e = NoAvailablePorts 2222 2322 \<and> w' = w
        \<and> (\<forall>q. port \<le> q \<and> q \<le> 2322 \<longrightarrow> \<not> (map_of alloc q = None \<and> isPortAvailable E q))" by auto
      qed
    qed
  qed
qed

lemma ReadFile_Stat: "Stat w' p = Stat w p \<Longrightarrow> ReadFile w' p = ReadFile w p"
  by (simp add: ReadFile_def)

lemma keep3_MkdirAll:
  "MkdirAll w [a, b] = (r, w1) \<Longrightarrow> length p = 3 \<Longrightarrow> Stat w1 p = Stat w p"
  by (auto simp: MkdirAll_def Stat_def split: option.splits node.splits if_splits)

lemma keep3_load:
  assumes "loadPortMetadata w vmName = (r, w1)" "length p = 3"
  shows "Stat w1 p = Stat w p"
proof -
  obtain r1 w2 where g: "MkdirAll w [workspace, vmName] = (r1, w2)"
    by (cases "MkdirAll w [workspace, vmName]")
  from assms(1) have "w1 = w2"
    by (auto simp: loadPortMetadata_def getPortMetadataPath_def getInstanceDir_def g
      split: prod.splits option.splits read_result.splits content.splits)
  with keep3_MkdirAll [OF g assms(2)] show ?thesis by simp
qed

lemma keep3_scan:
  "length p = 3 \<Longrightarrow> Stat (snd (scanEntries w es acc)) p = Stat w p"
proof (induction es arbitrary: w acc)
  case Nil
  then show ?case by simp
next
  case (Cons e es)
  obtain name n where e: "e = (name, n)" by (cases e)
  obtain r w1 where l: "loadPortMetadata w name = (r, w1)" by (cases "loadPortMetadata w name")
  have k: "Stat w1 p = Stat w p" using keep3_load [OF l Cons.prems] .
  show ?case
    using Cons.IH [OF Cons.prems, of w] Cons.IH [OF Cons.prems, of w1] k
    by (auto simp: e l split: sum.splits option.splits)
qed

lemma keep3_getAllocatedPorts:
  "length p = 3 \<Longrightarrow> Stat (snd (getAllocatedPorts w)) p = Stat w p"
  by (auto simp: getAllocatedPorts_def keep3_scan split: option.splits)

lemma savePortMetadata_effect:
  assumes "savePortMetadata w vmName m = (r, w')"
  shows "(\<forall>p. length p = 3 \<and> p \<noteq> [workspace, vmName, ''ports.json''] \<longrightarrow> Stat w' p = Stat w p)
    \<and> (Stat w' [workspace, vmName, ''ports.json''] = Stat w [workspace, vmName, ''ports.json'']
         \<or> Stat w' [workspace, vmName, ''ports.json''] = Some (File (PortsJSON m)))"
proof -
  obtain r1 w1 where g: "MkdirAll w [workspace, vmName] = (r1, w1)"
    by (cases "MkdirAll w [workspace, vmName]")
  have k: "\<And>p. length p = 3 \<Longrightarrow> Stat w1 p = Stat w p"
    using keep3_MkdirAll [OF g] .
  show ?thesis
  proof (cases r1)
    case (Some e)
    with assms have "w' = w1"
      by (simp add: savePortMetadata_def getPortMetadataPath_def getInstanceDir_def g)
    with k show ?thesis by simp
  next
    case None
    with assms have wf: "WriteFile w1 [workspace, vmName, ''ports.json''] (PortsJSON m) = (r, w')"
      by (simp add: savePortMetadata_def getPortMetadataPath_def getInstanceDir_def g)
    have "(\<forall>p. p \<noteq> [workspace, vmName, ''ports.json''] \<longrightarrow> Stat w' p = Stat w1 p)
      \<and> (Stat w' [workspace, vmName, ''ports.json''] = Stat w1 [workspace, vmName, ''ports.json'']
         \<or> Stat w' [workspace, vmName, ''ports.json''] = Some (File (PortsJSON m)))"
      using wf by (auto simp: WriteFile_def Stat_def update_conv' split: if_splits)
    with k show ?thesis by simp
  qed
qed


lemma allocateSSHPort_unpinned:
  assumes "manualPort vm = None" "loadPortMetadata w vmName = (r0, w1)"
  shows "allocateSSHPort E w vmName vm =
     (case (case r0 of
              Inr (Some m) \<Rightarrow> (if ssh m > 0 \<and> isPortAvailable E (ssh m) then Some (ssh m) else None)
            | _ \<Rightarrow> None) of
        Some port \<Rightarrow> (Inr port, w1)
      | None \<Rightarrow> portLoop E (snd (getAllocatedPorts w1)) vmName (fst (getAllocatedPorts w1)) 2222)"
  by (simp add: allocateSSHPort_def assms case_prod_beta cong: option.case_cong)

lemma portLoop_frame:
  assumes "portLoop E w vmName alloc port = (r, w')"
  shows "(\<forall>p. length p = 3 \<and> p \<noteq> [workspace, vmName, ''ports.json''] \<longrightarrow> Stat w' p = Stat w p)
    \<and> (Stat w' [workspace, vmName, ''ports.json''] = Stat w [workspace, vmName, ''ports.json'']
         \<or> (\<exists>q. r = Inr q \<and> port \<le> q \<and> q \<le> 2322 \<and> isPortAvailable E q
               \<and> Stat w' [workspace, vmName, ''ports.json''] = Some (File (PortsJSON \<lparr>ssh = q\<rparr>))))"
proof (cases r)
  case (Inl e)
  with portLoop_spec [OF assms] have "w' = w" by simp
  then show ?thesis by simp
next
  case (Inr q)
  with portLoop_spec [OF assms] have q: "port \<le> q" "q \<le> 2322" "isPortAvailable E q"
    "w' = snd (savePortMetadata w vmName \<lparr>ssh = q\<rparr>)" by auto
  obtain r1 where "savePortMetadata w vmName \<lparr>ssh = q\<rparr> = (r1, w')"
    using q(4) by (cases "savePortMetadata w vmName \<lparr>ssh = q\<rparr>") simp
  from savePortMetadata_effect [OF this] q Inr show ?thesis by auto
qed

text \<open>
  Claim C10. When the configuration pins an SSH port (\<open>vm.SSH.Port > 0\<close>),
  \<open>allocateSSHPort\<close> returns that port if it is free and the in-use error if it is
  busy, and in both cases leaves the whole workspace as it was. Whenever a call
  changes the \<open>ports.json\<close> of any VM, the file is the caller's own, no port was
  pinned, and the file now records the port just returned, a free port of
  \<open>[2222, 2322]\<close>: the file is written on the fresh-allocation path only.
\<close>

theorem allocateSSHPort_pinned_no_write:
  "(\<forall>port. manualPort vm = Some port \<longrightarrow>
       allocateSSHPort E w vmName vm =
         (if isPortAvailable E port then Inr port else Inl (SSHPortInUse port), w))
   \<and> (\<forall>name. ReadFile (snd (allocateSSHPort E w vmName vm)) [workspace, name, ''ports.json'']
              \<noteq> ReadFile w [workspace, name, ''ports.json''] \<longrightarrow>
         name = vmName \<and> manualPort vm = None
         \<and> (\<exists>port. fst (allocateSSHPort E w vmName vm) = Inr port
                \<and> 2222 \<le> port \<and> port \<le> 2322 \<and> isPortAvailable E port
                \<and> ReadFile (snd (allocateSSHPort E w vmName vm)) [workspace, vmName, ''ports.json'']
                    = Data (PortsJSON \<lparr>ssh = port\<rparr>)))"
proof (rule conjI; intro allI impI)
  fix port assume "manualPort vm = Some port"
  then show "allocateSSHPort E w vmName vm =
         (if isPortAvailable E port then Inr port else Inl (SSHPortInUse port), w)"
    by (simp add: allocateSSHPort_def)
next
  fix name
  let ?res = "allocateSSHPort E w vmName vm"
  assume ch: "ReadFile (snd ?res) [workspace, name, ''ports.json'']
              \<noteq> ReadFile w [workspace, name, ''ports.json'']"
  have mp: "manualPort vm = None"
  proof (rule ccontr)
    assume "manualPort vm \<noteq> None"
    then obtain port where "manualPort vm = Some port" by auto
    then have "snd ?res = w" by (simp add: allocateSSHPort_def)
    with ch show False by simp
  qed
  obtain r0 w1 where l: "loadPortMetadata w vmName = (r0, w1)"
    by (cases "loadPortMetadata w vmName")
  have k1: "\<And>p. length p = 3 \<Longrightarrow> Stat w1 p = Stat w p"
    using keep3_load [OF l] .
  let ?stored = "(case r0 of
              Inr (Some m) \<Rightarrow> (if ssh m > 0 \<and> isPortAvailable E (ssh m) then Some (ssh m) else None)
            | _ \<Rightarrow> None)"
  show "name = vmName \<and> manualPort vm = None
         \<and> (\<exists>port. fst ?res = Inr port
                \<and> 2222 \<le> port \<and> port \<le> 2322 \<and> isPortAvailable E port
                \<and> ReadFile (snd ?res) [workspace, vmName, ''ports.json'']
                    = Data (PortsJSON \<lparr>ssh = port\<rparr>))"
  proof (cases ?stored)
    case (Some port)
    then have "snd ?res = w1"
      by (simp add: allocateSSHPort_unpinned [OF mp l])
    with ch k1 [of "[workspace, name, ''ports.json'']"] show ?thesis
      by (simp add: ReadFile_def)
  next
    case None
    let ?w2 = "snd (getAllocatedPorts w1)"
    obtain r w' where pl: "portLoop E ?w2 vmName (fst (getAllocatedPorts w1)) 2222 = (r, w')"
      by (cases "portLoop E ?w2 vmName (fst (getAllocatedPorts w1)) 2222")
    have res: "?res = (r, w')"
      using None by (simp add: allocateSSHPort_unpinned [OF mp l] pl)
    have k2: "\<And>p. length p = 3 \<Longrightarrow> Stat ?w2 p = Stat w p"
      using keep3_getAllocatedPorts [of _ w1] k1 by simp
    note fr = portLoop_frame [OF pl]
    have nm: "name = vmName"
    proof (rule ccontr)
      assume "name \<noteq> vmName"
      with fr k2 [of "[workspace, name, ''ports.json'']"]
      have "Stat w' [workspace, name, ''ports.json''] = Stat w [workspace, name, ''ports.json'']"
        by simp
      with ch res show False by (simp add: ReadFile_def)
    qed
    from ch res nm have "Stat w' [workspace, vmName, ''ports.json''] \<noteq> Stat w [workspace, vmName, ''ports.json'']"
      by (auto simp: ReadFile_def)
    with fr k2 [of "[workspace, vmName, ''ports.json'']"]
    obtain q where "r = Inr q" "2222 \<le> q" "q \<le> 2322" "isPortAvailable E q"
      "Stat w' [workspace, vmName, ''ports.json''] = Some (File (PortsJSON \<lparr>ssh = q\<rparr>))"
      by auto
    with nm mp res show ?thesis by (auto simp: ReadFile_def)
  qed
qed

text \<open>The theorem for a pinned free port, a pinned busy port, and a fresh allocation
  that writes \<open>ports.json\<close>.\<close>

theorem allocateSSHPort_pinned_no_write_witness:
  "manualPort vmPinned = Some 2200
   \<and> allocateSSHPort envA worldP ''web'' vmPinned = (Inr 2200, worldP)
   \<and> manualPort vmPinnedBusy = Some 2222
   \<and> allocateSSHPort envA worldP ''web'' vmPinnedBusy = (Inl (SSHPortInUse 2222), worldP)
   \<and> ReadFile worldP [workspace, ''web'', ''ports.json''] = NotExist
   \<and> manualPort vmPlain = None
   \<and> fst (allocateSSHPort envA worldP ''web'' vmPlain) = Inr 2224
   \<and> ReadFile (snd (allocateSSHPort envA worldP ''web'' vmPlain)) [workspace, ''web'', ''ports.json'']
       = Data (PortsJSON \<lparr>ssh = 2224\<rparr>)"
proof -
  have m1: "manualPort vmPinned = Some 2200" "manualPort vmPinnedBusy = Some 2222"
    "manualPort vmPlain = None"
    by (simp_all add: manualPort_def vmPinned_def vmPinnedBusy_def vmPlain_def)
  have a: "isPortAvailable envA 2200" "\<not> isPortAvailable envA 2222"
    by (simp_all add: envA_def)
  have r0: "ReadFile worldP [workspace, ''web'', ''ports.json''] = NotExist"
    by (simp add: ReadFile_def Stat_def worldP_def workspace_def)
  have ch: "ReadFile (snd (allocateSSHPort envA worldP ''web'' vmPlain)) [workspace, ''web'', ''ports.json'']
       \<noteq> ReadFile worldP [workspace, ''web'', ''ports.json'']"
    by (simp add: allocateSSHPort_def m1 loadPortMetadata_def getPortMetadataPath_def
        getInstanceDir_def MkdirAll_def ReadFile_def Stat_def worldP_def workspace_def
        getAllocatedPorts_def ReadDir_def List.map_filter_def portLoop.simps envA_def
        savePortMetadata_def WriteFile_def)
  have p: "fst (allocateSSHPort envA worldP ''web'' vmPlain) = Inr 2224"
    by (simp add: allocateSSHPort_def m1 loadPortMetadata_def getPortMetadataPath_def
        getInstanceDir_def MkdirAll_def ReadFile_def Stat_def worldP_def workspace_def
        getAllocatedPorts_def ReadDir_def List.map_filter_def portLoop.simps envA_def
        savePortMetadata_def WriteFile_def)
  from conjunct2 [OF allocateSSHPort_pinned_no_write [of vmPlain envA worldP "''web''"],
         THEN spec, of "''web''"] ch p
  have f: "ReadFile (snd (allocateSSHPort envA worldP ''web'' vmPlain)) [workspace, ''web'', ''ports.json'']
       = Data (PortsJSON \<lparr>ssh = 2224\<rparr>)"
    by auto
  from allocateSSHPort_pinned_no_write [of vmPinned envA worldP "''web''"]
       allocateSSHPort_pinned_no_write [of vmPinnedBusy envA worldP "''web''"]
       m1 a r0 p f
  show ?thesis by auto
qed

lemma wellFormedD:
  "wellFormed w \<Longrightarrow> (p, n) \<in> set (fs w) \<Longrightarrow> Stat w (butlast p) = Some Dir"
  unfolding wellFormed_def by blast











section \<open>Status\<close>

lemma instance_dirs:
  assumes "wellFormed w" "Stat w [workspace, vmName, f] \<noteq> None"
  shows "Stat w [workspace] = Some Dir" "Stat w [workspace, vmName] = Some Dir"
proof -
  from assms(2) obtain n where "map_of (fs w) [workspace, vmName, f] = Some n"
    by (auto simp: Stat_def)
  then have "([workspace, vmName, f], n) \<in> set (fs w)" by (rule map_of_SomeD)
  from wellFormedD [OF assms(1) this] show d: "Stat w [workspace, vmName] = Some Dir"
    by simp
  then have "map_of (fs w) [workspace, vmName] = Some Dir"
    by (simp add: Stat_def)
  then have "([workspace, vmName], Dir) \<in> set (fs w)" by (rule map_of_SomeD)
  from wellFormedD [OF assms(1) this] show "Stat w [workspace] = Some Dir"
    by simp
qed

lemma getInstanceDir_existing:
  assumes "Stat w [workspace] = Some Dir" "Stat w [workspace, vmName] = Some Dir"
  shows "getInstanceDir w vmName = (Inr [workspace, vmName], w)"
  by (simp add: getInstanceDir_def MkdirAll_instance_exists [OF assms])

lemma getInstanceDir_keep3:
  assumes "getInstanceDir w vmName = (r, w1)" "length p = 3"
  shows "Stat w1 p = Stat w p"
proof -
  obtain r1 w2 where g: "MkdirAll w [workspace, vmName] = (r1, w2)"
    by (cases "MkdirAll w [workspace, vmName]")
  from assms(1) have "w1 = w2"
    by (auto simp: getInstanceDir_def g split: option.splits)
  with keep3_MkdirAll [OF g assms(2)] show ?thesis by simp
qed

lemma vmInstanceExists_iff:
  assumes wf: "wellFormed w"
  shows "fst (vmInstanceExists w vmName) \<longleftrightarrow> Stat w [workspace, vmName, ''disk.qcow2''] \<noteq> None"
proof -
  obtain r w1 where g: "getInstanceDir w vmName = (r, w1)"
    by (cases "getInstanceDir w vmName")
  have k: "Stat w1 [workspace, vmName, ''disk.qcow2''] = Stat w [workspace, vmName, ''disk.qcow2'']"
    using getInstanceDir_keep3 [OF g] by simp
  show ?thesis
  proof (cases "Stat w [workspace, vmName, ''disk.qcow2''] = None")
    case True
    with k g show ?thesis
      by (auto simp: vmInstanceExists_def getInstanceDir_def split: sum.splits option.splits prod.splits)
  next
    case False
    from instance_dirs [OF wf False] have "getInstanceDir w vmName = (Inr [workspace, vmName], w)"
      by (rule getInstanceDir_existing)
    with False show ?thesis by (simp add: vmInstanceExists_def)
  qed
qed

lemma vmInstanceExists_world:
  assumes wf: "wellFormed w" and e: "Stat w [workspace, vmName, ''disk.qcow2''] \<noteq> None"
  shows "vmInstanceExists w vmName = (True, w)"
proof -
  from instance_dirs [OF wf e] have "getInstanceDir w vmName = (Inr [workspace, vmName], w)"
    by (rule getInstanceDir_existing)
  with e show ?thesis by (simp add: vmInstanceExists_def)
qed

lemma isVMReady_probe:
  assumes d: "Stat w [workspace] = Some Dir" "Stat w [workspace, vmName] = Some Dir"
    and f: "fs w' = fs w"
  shows "fst (isVMReady E w' vmName imageURL) = sshProbe E w vmName imageURL"
proof -
  have st: "\<And>p. Stat w' p = Stat w p" using f by (simp add: Stat_def)
  have d': "Stat w' [workspace] = Some Dir" "Stat w' [workspace, vmName] = Some Dir"
    using d st by simp_all
  note l = loadPortMetadata_existing [OF d']
  show ?thesis
    by (auto simp: isVMReady_def getSSHPort_def l st sshProbe_def run_def
        split: option.splits node.splits content.splits)
qed

text \<open>
  Claim C4, amended. On a well-formed workspace the status of a VM is \<open>not-created\<close>
  when its overlay \<open>disk.qcow2\<close> is absent; otherwise \<open>unknown\<close> when the supervisor
  query fails, \<open>stopped\<close> when the supervisor reports \<open>inactive\<close>, \<open>ready\<close> when it
  reports \<open>active\<close> and the SSH probe succeeds, \<open>starting\<close> when it reports \<open>active\<close>
  and the probe fails, and for any other reported state that state itself.
\<close>

theorem getVMStatus_table:
  assumes wf: "wellFormed w"
  shows "fst (getVMStatus E w vmName imageURL) =
    (if Stat w [workspace, vmName, ''disk.qcow2''] = None then ''not-created''
     else (case exec E [''systemctl'', ''--user'', ''show'',
                        getVMUnitName (getProjectName E) vmName,
                        ''--property=ActiveState'', ''--value''] of
             None \<Rightarrow> ''unknown''
           | Some output \<Rightarrow>
               (if TrimSpace output = ''inactive'' then ''stopped''
                else if TrimSpace output = ''active''
                then (if sshProbe E w vmName imageURL then ''ready'' else ''starting'')
                else TrimSpace output)))"
proof (cases "Stat w [workspace, vmName, ''disk.qcow2''] = None")
  case True
  with vmInstanceExists_iff [OF wf, of vmName] have "\<not> fst (vmInstanceExists w vmName)" by simp
  then show ?thesis using True
    by (cases "vmInstanceExists w vmName") (simp add: getVMStatus_def)
next
  case False
  note ex = vmInstanceExists_world [OF wf False]
  note d = instance_dirs [OF wf False]
  let ?cmd = "[''systemctl'', ''--user'', ''show'',
                        getVMUnitName (getProjectName E) vmName,
                        ''--property=ActiveState'', ''--value'']"
  have rd: "fst (isVMReady E (w\<lparr>cmds := cmds w @ [?cmd]\<rparr>) vmName imageURL)
            = sshProbe E w vmName imageURL"
    by (rule isVMReady_probe [OF d]) simp
  show ?thesis
  proof (cases "exec E ?cmd")
    case None
    show ?thesis by (simp add: getVMStatus_def ex run_def None False)
  next
    case (Some out)
    obtain b w3 where iv: "isVMReady E (w\<lparr>cmds := cmds w @ [?cmd]\<rparr>) vmName imageURL = (b, w3)"
      by (cases "isVMReady E (w\<lparr>cmds := cmds w @ [?cmd]\<rparr>) vmName imageURL")
    with rd have b: "b = sshProbe E w vmName imageURL" by simp
    show ?thesis
      using b by (simp add: getVMStatus_def ex run_def Some Let_def iv False)
  qed
qed

text \<open>
  Claim C4 has every state other than active shown as \<open>stopped\<close>. Only \<open>inactive\<close>
  is: for a VM whose overlay exists and whose unit is reported \<open>deactivating\<close>, the
  status is \<open>deactivating\<close>.
\<close>

theorem getVMStatus_stopped_counterexample:
  "Stat worldD [workspace, ''web'', ''disk.qcow2''] \<noteq> None
   \<and> exec envDeactivating [''systemctl'', ''--user'', ''show'', ''qemu-compose-demo-web'',
                            ''--property=ActiveState'', ''--value'']
       = Some (''deactivating'' @ [CHR 0x0A])
   \<and> fst (getVMStatus envDeactivating worldD ''web'' ''https://example/cloud.img'') = ''deactivating''"
  by (simp add: getVMStatus_def vmInstanceExists_def getInstanceDir_def MkdirAll_def Stat_def
      worldD_def workspace_def envDeactivating_def envA_def run_def TrimSpace_def isSpace_def
      getVMUnitName_def ReplaceAll_def)

text \<open>The table on a workspace holding the overlay of \<open>web\<close>: ready, a state passed
  through, a failed query, and a VM that was never created.\<close>

theorem getVMStatus_table_witness:
  "wellFormed worldD
   \<and> fst (getVMStatus envActive worldD ''web'' ''https://example/cloud.img'') = ''ready''
   \<and> fst (getVMStatus envDeactivating worldD ''web'' ''https://example/cloud.img'') = ''deactivating''
   \<and> fst (getVMStatus envA worldD ''web'' ''https://example/cloud.img'') = ''unknown''
   \<and> fst (getVMStatus envActive worldD ''db'' ''https://example/cloud.img'') = ''not-created''"
proof -
  have wf: "wellFormed worldD"
    by (simp add: wellFormed_def worldD_def Stat_def)
  have s: "Stat worldD [workspace, ''web'', ''disk.qcow2''] \<noteq> None"
    "Stat worldD [workspace, ''db'', ''disk.qcow2''] = None"
    by (simp_all add: Stat_def worldD_def workspace_def)
  have p: "sshProbe envActive worldD ''web'' ''https://example/cloud.img''"
    by (simp add: sshProbe_def Stat_def worldD_def workspace_def envActive_def envA_def)
  have t: "TrimSpace (''active'' @ [CHR 0x0A]) = ''active''"
    "TrimSpace (''deactivating'' @ [CHR 0x0A]) = ''deactivating''"
    by (simp_all add: TrimSpace_def isSpace_def)
  from getVMStatus_table [OF wf, of envActive "''web''" "''https://example/cloud.img''"]
       getVMStatus_table [OF wf, of envDeactivating "''web''" "''https://example/cloud.img''"]
       getVMStatus_table [OF wf, of envA "''web''" "''https://example/cloud.img''"]
       getVMStatus_table [OF wf, of envActive "''db''" "''https://example/cloud.img''"]
       wf s p t
  show ?thesis
    by (simp add: envActive_def envDeactivating_def envA_def)
qed

section \<open>Disk size drift\<close>

lemma loadDiskMetadata_existing:
  assumes "Stat w [workspace] = Some Dir" "Stat w [workspace, vmName] = Some Dir"
  shows "loadDiskMetadata w vmName =
     (case Stat w [workspace, vmName, ''disk.metadata.json''] of
        None \<Rightarrow> Inr None
      | Some Dir \<Rightarrow> Inl (ReadFailed [workspace, vmName, ''disk.metadata.json''])
      | Some (File (DiskJSON m)) \<Rightarrow> Inr (Some m)
      | Some (File _) \<Rightarrow> Inl (ParseFailed [workspace, vmName, ''disk.metadata.json'']), w)"
  by (simp add: loadDiskMetadata_def getDiskMetadataPath_def getInstanceDir_def
      MkdirAll_instance_exists [OF assms] ReadFile_def
      split: option.splits node.splits content.splits)

lemma saveDiskMetadata_missing:
  assumes "Stat w [workspace] = Some Dir" "Stat w [workspace, vmName] = Some Dir"
    and "Stat w [workspace, vmName, ''disk.metadata.json''] = None"
  shows "saveDiskMetadata w vmName m =
     (None, w\<lparr>fs := AList.update [workspace, vmName, ''disk.metadata.json''] (File (DiskJSON m)) (fs w)\<rparr>)"
  using assms(2,3)
  by (simp add: saveDiskMetadata_def getDiskMetadataPath_def getInstanceDir_def
      MkdirAll_instance_exists [OF assms(1,2)] WriteFile_def)

lemma createInstanceDisk_existing:
  assumes wf: "wellFormed w" and ex: "Stat w [workspace, vmName, ''disk.qcow2''] \<noteq> None"
  shows "createInstanceDisk E w vmName baseImagePath diskConfig =
     (Inr (pathStr E [workspace, vmName, ''disk.qcow2'']),
      (case Stat w [workspace, vmName, ''disk.metadata.json''] of
         None \<Rightarrow> w\<lparr>fs := AList.update [workspace, vmName, ''disk.metadata.json'']
                              (File (DiskJSON \<lparr>disk_size = declaredSize diskConfig\<rparr>)) (fs w)\<rparr>
       | Some (File (DiskJSON m)) \<Rightarrow>
           (if disk_size m \<noteq> declaredSize diskConfig
            then w\<lparr>stdout := stdout w @ driftWarning vmName (declaredSize diskConfig) (disk_size m)\<rparr>
            else w)
       | _ \<Rightarrow> w\<lparr>stdout := stdout w @ [''  '' @ warnSign
                            @ '' Warning: could not verify disk size (metadata error)'' @ [CHR 0x0A]]\<rparr>))"
proof -
  note d = instance_dirs [OF wf ex]
  have g: "getInstanceDir w vmName = (Inr [workspace, vmName], w)"
    using d by (rule getInstanceDir_existing)
  have ds: "declaredSize diskConfig \<noteq> []"
    by (simp add: declaredSize_def split: option.splits)
  note l = loadDiskMetadata_existing [OF d]
  show ?thesis
  proof (cases "Stat w [workspace, vmName, ''disk.metadata.json'']")
    case None
    note sv = saveDiskMetadata_missing [OF d None]
    show ?thesis
      using ds
      by (simp add: createInstanceDisk_def g Let_def ex l None sv declaredSize_def [symmetric])
  next
    case (Some n)
    show ?thesis
      using ds
      by (cases n)
         (auto simp: createInstanceDisk_def g Let_def ex l Some Printf_def driftWarning_def
            declaredSize_def [symmetric] split: content.splits)
  qed
qed


lemma MkdirAll_fields:
  "cmds (snd (MkdirAll w p)) = cmds w" "stdout (snd (MkdirAll w p)) = stdout w"
  by (simp_all add: MkdirAll_def split: sum.splits)

lemma WriteFile_fields:
  "cmds (snd (WriteFile w p c)) = cmds w" "stdout (snd (WriteFile w p c)) = stdout w"
  by (simp_all add: WriteFile_def)

lemma saveDiskMetadata_fields:
  "cmds (snd (saveDiskMetadata w vmName m)) = cmds w"
  "stdout (snd (saveDiskMetadata w vmName m)) = stdout w"
  using MkdirAll_fields [of w "[workspace, vmName]"]
  by (auto simp: saveDiskMetadata_def getDiskMetadataPath_def getInstanceDir_def WriteFile_fields
      split: prod.splits option.splits sum.splits)

lemma createInstanceDisk_first:
  assumes ab: "Stat w [workspace, vmName, ''disk.qcow2''] = None"
    and us: "instanceDirUsable w vmName"
    and cr: "exec E (createCommand E vmName baseImagePath) \<noteq> None"
  shows "cmds (snd (createInstanceDisk E w vmName baseImagePath diskConfig)) =
           cmds w @ [createCommand E vmName baseImagePath,
                     resizeCommand E vmName (declaredSize diskConfig)]"
proof -
  from us obtain w1 where m: "MkdirAll w [workspace, vmName] = (None, w1)"
    by (auto simp: instanceDirUsable_def MkdirAll_def Stat_def split: option.splits node.splits)
  have g: "getInstanceDir w vmName = (Inr [workspace, vmName], w1)"
    by (simp add: getInstanceDir_def m)
  have c1: "cmds w1 = cmds w" using MkdirAll_fields(1) [of w "[workspace, vmName]"] m by simp
  have ab1: "Stat w1 [workspace, vmName, ''disk.qcow2''] = None"
    using keep3_MkdirAll [OF m, of "[workspace, vmName, ''disk.qcow2'']"] ab by simp
  have ds: "declaredSize diskConfig \<noteq> []"
    by (simp add: declaredSize_def split: option.splits)
  from cr obtain out where out: "exec E (createCommand E vmName baseImagePath) = Some out" by auto
  let ?w3 = "w1\<lparr>cmds := cmds w1 @ [createCommand E vmName baseImagePath],
                 fs := AList.update [workspace, vmName, ''disk.qcow2'']
                         (File (Qcow2 (Some baseImagePath) None)) (fs w1)\<rparr>"
  have rs: "cmds (snd (resizeInstanceDisk E ?w3 [workspace, vmName, ''disk.qcow2''] (declaredSize diskConfig)))
        = cmds w @ [createCommand E vmName baseImagePath, resizeCommand E vmName (declaredSize diskConfig)]"
    by (simp add: resizeInstanceDisk_def run_def resizeCommand_def c1
        split: option.splits node.splits content.splits)
  obtain r4 w4 where r4: "resizeInstanceDisk E ?w3 [workspace, vmName, ''disk.qcow2'']
       (declaredSize diskConfig) = (r4, w4)"
    by (cases "resizeInstanceDisk E ?w3 [workspace, vmName, ''disk.qcow2''] (declaredSize diskConfig)")
  with rs have c4: "cmds w4 = cmds w @ [createCommand E vmName baseImagePath,
       resizeCommand E vmName (declaredSize diskConfig)]" by simp
  show ?thesis
    using ds out [unfolded createCommand_def] r4 [unfolded createCommand_def] c4
    by (cases r4)
       (simp_all add: createInstanceDisk_def g Let_def ab1 run_def createCommand_def
        declaredSize_def [symmetric] saveDiskMetadata_fields Printf_def)
qed


text \<open>
  Claim C6. On a well-formed workspace, when the overlay of a VM already exists,
  \<open>createInstanceDisk\<close> returns its path, runs no command (so no resize) and leaves
  the overlay as it is; if the size stored in \<open>disk.metadata.json\<close> is not the
  declared one, the file system is unchanged and the three warning lines, the last
  telling the operator to delete the instance directory and run \<open>up\<close> again, are
  printed; if \<open>disk.metadata.json\<close> is missing it is written with the declared size.
  When the overlay is absent and \<open>qemu-img create\<close> succeeds, the commands run are
  the create and then the resize to the declared size; and any command the function
  runs at all is run with the overlay absent beforehand.
\<close>

theorem createInstanceDisk_drift:
  assumes wf: "wellFormed w"
  shows
   "(Stat w [workspace, vmName, ''disk.qcow2''] \<noteq> None \<longrightarrow>
       fst (createInstanceDisk E w vmName baseImagePath diskConfig)
         = Inr (pathStr E [workspace, vmName, ''disk.qcow2''])
       \<and> cmds (snd (createInstanceDisk E w vmName baseImagePath diskConfig)) = cmds w
       \<and> Stat (snd (createInstanceDisk E w vmName baseImagePath diskConfig))
             [workspace, vmName, ''disk.qcow2'']
           = Stat w [workspace, vmName, ''disk.qcow2'']
       \<and> (\<forall>m. Stat w [workspace, vmName, ''disk.metadata.json''] = Some (File (DiskJSON m))
                \<and> disk_size m \<noteq> declaredSize diskConfig \<longrightarrow>
              fs (snd (createInstanceDisk E w vmName baseImagePath diskConfig)) = fs w
              \<and> stdout (snd (createInstanceDisk E w vmName baseImagePath diskConfig))
                  = stdout w @ driftWarning vmName (declaredSize diskConfig) (disk_size m))
       \<and> (Stat w [workspace, vmName, ''disk.metadata.json''] = None \<longrightarrow>
              ReadFile (snd (createInstanceDisk E w vmName baseImagePath diskConfig))
                  [workspace, vmName, ''disk.metadata.json'']
                = Data (DiskJSON \<lparr>disk_size = declaredSize diskConfig\<rparr>)
              \<and> stdout (snd (createInstanceDisk E w vmName baseImagePath diskConfig)) = stdout w))
    \<and> (Stat w [workspace, vmName, ''disk.qcow2''] = None \<and> instanceDirUsable w vmName
         \<and> exec E (createCommand E vmName baseImagePath) \<noteq> None \<longrightarrow>
        cmds (snd (createInstanceDisk E w vmName baseImagePath diskConfig)) =
          cmds w @ [createCommand E vmName baseImagePath,
                    resizeCommand E vmName (declaredSize diskConfig)])
    \<and> (\<forall>c. c \<in> set (cmds (snd (createInstanceDisk E w vmName baseImagePath diskConfig)))
              \<and> c \<notin> set (cmds w) \<longrightarrow>
           Stat w [workspace, vmName, ''disk.qcow2''] = None)"
proof -
  let ?res = "createInstanceDisk E w vmName baseImagePath diskConfig"
  have A: "Stat w [workspace, vmName, ''disk.qcow2''] \<noteq> None \<Longrightarrow>
       fst ?res = Inr (pathStr E [workspace, vmName, ''disk.qcow2''])
       \<and> cmds (snd ?res) = cmds w
       \<and> Stat (snd ?res) [workspace, vmName, ''disk.qcow2'']
           = Stat w [workspace, vmName, ''disk.qcow2'']
       \<and> (\<forall>m. Stat w [workspace, vmName, ''disk.metadata.json''] = Some (File (DiskJSON m))
                \<and> disk_size m \<noteq> declaredSize diskConfig \<longrightarrow>
              fs (snd ?res) = fs w
              \<and> stdout (snd ?res)
                  = stdout w @ driftWarning vmName (declaredSize diskConfig) (disk_size m))
       \<and> (Stat w [workspace, vmName, ''disk.metadata.json''] = None \<longrightarrow>
              ReadFile (snd ?res) [workspace, vmName, ''disk.metadata.json'']
                = Data (DiskJSON \<lparr>disk_size = declaredSize diskConfig\<rparr>)
              \<and> stdout (snd ?res) = stdout w)"
  proof -
    assume ex: "Stat w [workspace, vmName, ''disk.qcow2''] \<noteq> None"
    note e = createInstanceDisk_existing [OF wf ex, of E baseImagePath diskConfig]
    show ?thesis
    proof (cases "Stat w [workspace, vmName, ''disk.metadata.json'']")
      case None
      then show ?thesis
        by (simp add: e ReadFile_def Stat_def update_conv')
    next
      case (Some n)
      then show ?thesis
        by (cases n) (auto simp: e Stat_def split: content.splits)
    qed
  qed
  have B: "Stat w [workspace, vmName, ''disk.qcow2''] = None \<and> instanceDirUsable w vmName
         \<and> exec E (createCommand E vmName baseImagePath) \<noteq> None \<longrightarrow>
        cmds (snd ?res) =
          cmds w @ [createCommand E vmName baseImagePath,
                    resizeCommand E vmName (declaredSize diskConfig)]"
    using createInstanceDisk_first [of w vmName E baseImagePath diskConfig] by blast
  have C: "\<forall>c. c \<in> set (cmds (snd ?res)) \<and> c \<notin> set (cmds w) \<longrightarrow>
           Stat w [workspace, vmName, ''disk.qcow2''] = None"
  proof (intro allI impI)
    fix c assume c: "c \<in> set (cmds (snd ?res)) \<and> c \<notin> set (cmds w)"
    show "Stat w [workspace, vmName, ''disk.qcow2''] = None"
    proof (rule ccontr)
      assume "Stat w [workspace, vmName, ''disk.qcow2''] \<noteq> None"
      from A [OF this] have "cmds (snd ?res) = cmds w" by blast
      with c show False by simp
    qed
  qed
  from A B C show ?thesis by blast
qed

text \<open>The theorem for \<open>web\<close> declaring \<open>20G\<close>: over a stored \<open>5G\<close>, over a missing
  metadata file, and on an empty workspace.\<close>

theorem createInstanceDisk_drift_witness:
  "wellFormed worldD \<and> wellFormed worldNoMeta \<and> wellFormed world0
   \<and> Stat worldD [workspace, ''web'', ''disk.qcow2''] \<noteq> None
   \<and> Stat worldD [workspace, ''web'', ''disk.metadata.json'']
       = Some (File (DiskJSON \<lparr>disk_size = ''5G''\<rparr>))
   \<and> declaredSize (Some \<lparr>Size = ''20G''\<rparr>) = ''20G''
   \<and> fs (snd (createInstanceDisk envOK worldD ''web'' ''/cache/cloud.img'' (Some \<lparr>Size = ''20G''\<rparr>)))
       = fs worldD
   \<and> cmds (snd (createInstanceDisk envOK worldD ''web'' ''/cache/cloud.img'' (Some \<lparr>Size = ''20G''\<rparr>)))
       = []
   \<and> stdout (snd (createInstanceDisk envOK worldD ''web'' ''/cache/cloud.img'' (Some \<lparr>Size = ''20G''\<rparr>)))
       = driftWarning ''web'' ''20G'' ''5G''
   \<and> Stat worldNoMeta [workspace, ''web'', ''disk.metadata.json''] = None
   \<and> ReadFile (snd (createInstanceDisk envOK worldNoMeta ''web'' ''/cache/cloud.img'' (Some \<lparr>Size = ''20G''\<rparr>)))
         [workspace, ''web'', ''disk.metadata.json'']
       = Data (DiskJSON \<lparr>disk_size = ''20G''\<rparr>)
   \<and> Stat world0 [workspace, ''web'', ''disk.qcow2''] = None
   \<and> cmds (snd (createInstanceDisk envOK world0 ''web'' ''/cache/cloud.img'' (Some \<lparr>Size = ''20G''\<rparr>)))
       = [createCommand envOK ''web'' ''/cache/cloud.img'', resizeCommand envOK ''web'' ''20G'']"
proof -
  have wf: "wellFormed worldD" "wellFormed worldNoMeta" "wellFormed world0"
    by (simp_all add: wellFormed_def worldD_def worldNoMeta_def world0_def Stat_def)
  have s: "Stat worldD [workspace, ''web'', ''disk.qcow2''] \<noteq> None"
    "Stat worldD [workspace, ''web'', ''disk.metadata.json'']
       = Some (File (DiskJSON \<lparr>disk_size = ''5G''\<rparr>))"
    "Stat worldNoMeta [workspace, ''web'', ''disk.qcow2''] \<noteq> None"
    "Stat worldNoMeta [workspace, ''web'', ''disk.metadata.json''] = None"
    "Stat world0 [workspace, ''web'', ''disk.qcow2''] = None"
    "instanceDirUsable world0 ''web''"
    by (simp_all add: Stat_def worldD_def worldNoMeta_def world0_def workspace_def
        instanceDirUsable_def)
  have d: "declaredSize (Some \<lparr>Size = ''20G''\<rparr>) = ''20G''"
    by (simp add: declaredSize_def)
  have x: "exec envOK (createCommand envOK ''web'' ''/cache/cloud.img'') \<noteq> None"
    by (simp add: envOK_def envA_def)
  have c0: "cmds worldD = []" "stdout worldD = []" "cmds world0 = []"
    by (simp_all add: worldD_def world0_def)
  from createInstanceDisk_drift [OF wf(1), of "''web''" envOK "''/cache/cloud.img''" "Some \<lparr>Size = ''20G''\<rparr>"]
       createInstanceDisk_drift [OF wf(2), of "''web''" envOK "''/cache/cloud.img''" "Some \<lparr>Size = ''20G''\<rparr>"]
       createInstanceDisk_drift [OF wf(3), of "''web''" envOK "''/cache/cloud.img''" "Some \<lparr>Size = ''20G''\<rparr>"]
       wf s d x c0
  show ?thesis by simp
qed


section \<open>Destroy and the named volumes\<close>

lemma loadComposeFile_composeV:
  "loadComposeFile composeV =
     Inr \<lparr>Version = ''1.0'', ProjectNetworks = [],
          ProjectVolumes = [(''data'', \<lparr>VolumeSize = ''5G''\<rparr>)],
          VMs = [(''volumes'',
                  \<lparr>Image = ''fedora-cloud.qcow2'', CPU = 2, Memory = 2048, Networks = [],
                   Volumes = [\<lparr>Source = ''data'', Target = ''/mnt/data'', ReadOnly = False,
                               Automount = None, MountOptions = []\<rparr>],
                   Disk = None, SSH = None\<rparr>)]\<rparr>"
  by code_simp

text \<open>
  Claim C7. Destroy is to remove the instance directory of each selected VM and,
  when every VM is selected, to tear the networks down and erase their metadata,
  and never to delete an entry of \<open>volumes.json\<close> or a file below
  \<open>.qemu-compose/volumes/\<close>. The instance directory of a VM is
  \<open>.qemu-compose/<name>\<close>, so that of a VM called \<open>volumes\<close> is the directory of the
  named volumes. In the project \<open>composeV\<close>, whose VM of that name mounts the volume
  \<open>data\<close>, the disk of \<open>data\<close> exists before \<open>destroy\<close>; \<open>destroy\<close> exits with status 0,
  with no VM named and with the VM named alike, and afterwards the disk of \<open>data\<close> is
  gone, while \<open>volumes.json\<close> still records the volume.
\<close>

theorem destroy_removes_volume_disks:
  "Stat worldV [workspace, ''volumes'', ''data'', ''volume.qcow2'']
     = Some (File (Qcow2 None (Some ''5G'')))
   \<and> fst (destroyCmd envA worldV composeV []) = 0
   \<and> Stat (snd (destroyCmd envA worldV composeV []))
          [workspace, ''volumes'', ''data'', ''volume.qcow2''] = None
   \<and> Stat (snd (destroyCmd envA worldV composeV [])) [workspace, ''volumes.json'']
     = Stat worldV [workspace, ''volumes.json'']
   \<and> fst (destroyCmd envA worldV composeV [''volumes'']) = 0
   \<and> Stat (snd (destroyCmd envA worldV composeV [''volumes'']))
          [workspace, ''volumes'', ''data'', ''volume.qcow2''] = None"
  by code_simp

section \<open>Loading the compose file and parsing the volumes of a VM\<close>

lemma parseFlags_isl: "isl (parseFlags flags ro) = (\<exists>f \<in> set flags. f \<noteq> ''ro'')"
  by (induction flags arbitrary: ro) auto

lemma parseShortForm_isl:
  "isl (parseShortForm s) =
     (length (Split CHR '':'' s) < 2 \<or> (\<exists>f \<in> set (drop 2 (Split CHR '':'' s)). f \<noteq> ''ro''))"
proof (cases "Split CHR '':'' s")
  case Nil
  then show ?thesis by (simp add: parseShortForm_def)
next
  case (Cons a rest)
  note c1 = this
  show ?thesis
  proof (cases rest)
    case Nil
    with c1 show ?thesis by (simp add: parseShortForm_def)
  next
    case (Cons b flags)
    have "isl (parseShortForm s) = isl (parseFlags flags False)"
      by (simp add: parseShortForm_def c1 Cons split: sum.splits)
    with c1 Cons show ?thesis by (simp add: parseFlags_isl)
  qed
qed

lemma UnmarshalYAML_isl: "isl (UnmarshalYAML v) = rejectedEntry (Node v)"
  by (cases v) (simp_all add: rejectedEntry_def parseShortForm_isl)

lemma decodeVolumes_isl: "isl (decodeVolumes vs) = (\<exists>entry \<in> set vs. rejectedEntry entry)"
proof (induction vs)
  case Nil
  then show ?case by simp
next
  case (Cons entry vs)
  show ?case
  proof (cases entry)
    case (Null kept)
    then show ?thesis
      using Cons.IH by (cases "decodeVolumes vs") (auto simp: rejectedEntry_def)
  next
    case (Node v)
    show ?thesis
    proof (cases "UnmarshalYAML v")
      case (Inl e)
      then have "rejectedEntry (Node v)" using UnmarshalYAML_isl [of v] by simp
      with Inl Node show ?thesis by simp
    next
      case (Inr m)
      then have "\<not> rejectedEntry (Node v)" using UnmarshalYAML_isl [of v] by simp
      with Inr Node Cons.IH show ?thesis by (cases "decodeVolumes vs") auto
    qed
  qed
qed

lemma decodeVM_isl: "isl (decodeVM raw) = (\<exists>entry \<in> set (raw_volumes raw). rejectedEntry entry)"
  using decodeVolumes_isl [of "raw_volumes raw"]
  by (cases "decodeVolumes (raw_volumes raw)") (auto simp: decodeVM_def)

lemma decodeVMs_isl:
  "isl (decodeVMs vms) =
     (\<exists>(name, raw) \<in> set vms. \<exists>entry \<in> set (raw_volumes raw). rejectedEntry entry)"
proof (induction vms)
  case Nil
  then show ?case by simp
next
  case (Cons item vms)
  obtain name raw where e: "item = (name, raw)" by (cases item)
  show ?case
  proof (cases "decodeVM raw")
    case (Inl err)
    then have "\<exists>entry \<in> set (raw_volumes raw). rejectedEntry entry"
      using decodeVM_isl [of raw] by simp
    with Inl e show ?thesis by simp
  next
    case (Inr vm)
    then have "\<not> (\<exists>entry \<in> set (raw_volumes raw). rejectedEntry entry)"
      using decodeVM_isl [of raw] by simp
    with Inr e Cons.IH show ?thesis by (cases "decodeVMs vms") auto
  qed
qed

lemma loadComposeFile_Document_isl:
  "isl (loadComposeFile (Document version nets vols vms)) =
     (\<exists>(name, raw) \<in> set vms. \<exists>entry \<in> set (raw_volumes raw). rejectedEntry entry)"
proof -
  have "isl (loadComposeFile (Document version nets vols vms)) = isl (decodeVMs vms)"
    by (simp add: loadComposeFile_def split: sum.splits)
  then show ?thesis by (simp add: decodeVMs_isl)
qed

lemma parseMounts_relative:
  "\<exists>m \<in> set ms. \<not> HasPrefix (Target m) ''/'' \<Longrightarrow>
     isl (fst (parseMounts E w vmName config composeFilePath ms acc))"
proof (induction ms arbitrary: w acc)
  case Nil
  then show ?case by simp
next
  case (Cons m ms)
  show ?case
  proof (cases "HasPrefix (Target m) ''/''")
    case False
    then show ?thesis by simp
  next
    case True
    with Cons.prems have "\<exists>m \<in> set ms. \<not> HasPrefix (Target m) ''/''" by auto
    note ih = Cons.IH [OF this]
    show ?thesis
      using True ih
      by (simp add: Let_def split: sum.splits prod.splits option.splits)
  qed
qed


lemma Stat_fs: "fs w' = fs w \<Longrightarrow> Stat w' p = Stat w p"
  by (simp add: Stat_def)

lemma run_fs: "fs (snd (run E w args)) = fs w"
  by (simp add: run_def)

lemma formatVolumeDisk_fs: "fs (snd (formatVolumeDisk E w diskPath)) = fs w"
  by (simp add: formatVolumeDisk_def run_def split: prod.splits option.splits)

lemma MkdirAll_volumes_json:
  "Stat (snd (MkdirAll w [workspace])) [workspace, ''volumes.json'']
     = Stat w [workspace, ''volumes.json'']"
  "Stat (snd (MkdirAll w [workspace, ''volumes''])) [workspace, ''volumes.json'']
     = Stat w [workspace, ''volumes.json'']"
  "Stat (snd (MkdirAll w [workspace, ''volumes'', v])) [workspace, ''volumes.json'']
     = Stat w [workspace, ''volumes.json'']"
  by (auto simp: MkdirAll_def Stat_def split: option.splits node.splits sum.splits)

lemma loadVolumeMetadata_frame:
  assumes "loadVolumeMetadata w = (r, w1)"
  shows "Stat w1 [workspace, ''volumes.json''] = Stat w [workspace, ''volumes.json'']"
    and "r = Inr metadata \<Longrightarrow> recordedVolume w n = (map_of metadata n \<noteq> None)"
proof -
  obtain r0 w0 where g: "MkdirAll w [workspace] = (r0, w0)" by (cases "MkdirAll w [workspace]")
  have k: "Stat w0 [workspace, ''volumes.json''] = Stat w [workspace, ''volumes.json'']"
    using MkdirAll_volumes_json(1) [of w] g by simp
  from assms have w1: "w1 = w0"
    by (auto simp: loadVolumeMetadata_def getVolumeMetadataPath_def g
        split: option.splits read_result.splits content.splits)
  with k show "Stat w1 [workspace, ''volumes.json''] = Stat w [workspace, ''volumes.json'']"
    by simp
  assume "r = Inr metadata"
  with assms show "recordedVolume w n = (map_of metadata n \<noteq> None)"
    unfolding recordedVolume_def k [symmetric]
    by (auto simp: loadVolumeMetadata_def getVolumeMetadataPath_def g ReadFile_def
        split: option.splits read_result.splits content.splits node.splits)
qed

lemma saveVolumeMetadata_frame:
  assumes "saveVolumeMetadata w metadata = (r, w1)"
  shows "Stat w1 [workspace, ''volumes.json''] = Stat w [workspace, ''volumes.json'']
         \<or> Stat w1 [workspace, ''volumes.json''] = Some (File (VolumesJSON metadata))"
proof -
  obtain r0 w0 where g: "MkdirAll w [workspace] = (r0, w0)" by (cases "MkdirAll w [workspace]")
  have k: "Stat w0 [workspace, ''volumes.json''] = Stat w [workspace, ''volumes.json'']"
    using MkdirAll_volumes_json(1) [of w] g by simp
  from assms have "w1 = w0 \<or> w1 = w0\<lparr>fs := AList.update [workspace, ''volumes.json'']
                                   (File (VolumesJSON metadata)) (fs w0)\<rparr>"
    by (auto simp: saveVolumeMetadata_def getVolumeMetadataPath_def g WriteFile_def
        split: option.splits if_splits)
  then show ?thesis
  proof
    assume "w1 = w0"
    with k show ?thesis by simp
  next
    assume "w1 = w0\<lparr>fs := AList.update [workspace, ''volumes.json'']
                                   (File (VolumesJSON metadata)) (fs w0)\<rparr>"
    then show ?thesis by (simp add: Stat_def update_conv')
  qed
qed


lemma createNamedVolume_other:
  assumes nr: "\<not> recordedVolume w n" and ne: "v \<noteq> n"
  shows "\<not> recordedVolume (snd (createNamedVolume E w v sz)) n"
proof -
  obtain r1 w1 where l: "loadVolumeMetadata w = (r1, w1)" by (cases "loadVolumeMetadata w")
  note k1 = loadVolumeMetadata_frame(1) [OF l]
  have nr1: "\<not> recordedVolume w1 n" using nr k1 by (simp add: recordedVolume_def)
  show ?thesis
  proof (cases r1)
    case (Inl e)
    then show ?thesis using nr1 by (simp add: createNamedVolume_def l)
  next
    case (Inr md)
    have mdn: "map_of md n = None"
      using loadVolumeMetadata_frame(2) [OF l Inr, of n] nr by simp
    show ?thesis
    proof (cases "map_of md v \<noteq> None")
      case True
      then show ?thesis using nr1 by (auto simp: createNamedVolume_def l Inr)
    next
      case False
      obtain r2 w2 where g2: "MkdirAll w1 [workspace, ''volumes''] = (r2, w2)"
        by (cases "MkdirAll w1 [workspace, ''volumes'']")
      have k2: "Stat w2 [workspace, ''volumes.json''] = Stat w1 [workspace, ''volumes.json'']"
        using MkdirAll_volumes_json(2) [of w1] g2 by simp
      have nr2: "\<not> recordedVolume w2 n" using nr1 k2 by (simp add: recordedVolume_def)
      show ?thesis
      proof (cases r2)
        case (Some e)
        then show ?thesis
          using nr2 False by (simp add: createNamedVolume_def l Inr getVolumesDir_def g2)
      next
        case None
        obtain r3 w3 where g3: "MkdirAll w2 [workspace, ''volumes'', v] = (r3, w3)"
          by (cases "MkdirAll w2 [workspace, ''volumes'', v]")
        have k3: "Stat w3 [workspace, ''volumes.json''] = Stat w2 [workspace, ''volumes.json'']"
          using MkdirAll_volumes_json(3) [of w2 v] g3 by simp
        have nr3: "\<not> recordedVolume w3 n" using nr2 k3 by (simp add: recordedVolume_def)
        show ?thesis
        proof (cases r3)
          case (Some e)
          then show ?thesis
            using nr3 False None
            by (simp add: createNamedVolume_def l Inr getVolumesDir_def g2 g3)
        next
          case n3: None
          define diskPath where
            "diskPath = pathStr E [workspace, ''volumes'', v, ''volume.qcow2'']"
          obtain r4 w4 where
            g4: "run E w3 [''qemu-img'', ''create'', ''-f'', ''qcow2'', diskPath, sz] = (r4, w4)"
            by (cases "run E w3 [''qemu-img'', ''create'', ''-f'', ''qcow2'', diskPath, sz]")
          have f4: "fs w4 = fs w3" using g4 by (auto simp: run_def)
          have nr4: "\<not> recordedVolume w4 n"
            using nr3 Stat_fs [OF f4] by (simp add: recordedVolume_def)
          show ?thesis
          proof (cases r4)
            case None
            then show ?thesis
              using nr4 False \<open>r2 = None\<close> n3
              by (simp add: createNamedVolume_def l Inr getVolumesDir_def g2 g3 Let_def
                  diskPath_def [symmetric] g4)
          next
            case (Some out4)
            define w5 where
              "w5 = w4\<lparr>fs := AList.update [workspace, ''volumes'', v, ''volume.qcow2'']
                                (File (Qcow2 None (Some sz))) (fs w4)\<rparr>"
            have k5: "Stat w5 [workspace, ''volumes.json''] = Stat w4 [workspace, ''volumes.json'']"
              by (simp add: w5_def Stat_def update_conv')
            obtain r6 w6 where g6: "formatVolumeDisk E w5 diskPath = (r6, w6)"
              by (cases "formatVolumeDisk E w5 diskPath")
            have f6: "fs w6 = fs w5" using formatVolumeDisk_fs [of E w5 diskPath] g6 by simp
            have nr6: "\<not> recordedVolume w6 n"
              using nr4 k5 Stat_fs [OF f6] by (simp add: recordedVolume_def)
            show ?thesis
            proof (cases r6)
              case fe: (Some e)
              then show ?thesis
                using nr6 False \<open>r2 = None\<close> n3 Some
                by (simp add: createNamedVolume_def l Inr getVolumesDir_def g2 g3 Let_def
                    diskPath_def [symmetric] g4 w5_def [symmetric] g6)
            next
              case n6: None
              define md' where
                "md' = AList.update v \<lparr>vol_name = v, vol_size = sz, disk_path = diskPath,
                                        created = showInt (getpid E)\<rparr> md"
              obtain r7 w7 where g7: "saveVolumeMetadata w6 md' = (r7, w7)"
                by (cases "saveVolumeMetadata w6 md'")
              have res: "createNamedVolume E w v sz = (r7, w7)"
                using False \<open>r2 = None\<close> n3 Some n6
                by (simp add: createNamedVolume_def l Inr getVolumesDir_def g2 g3 Let_def
                    diskPath_def [symmetric] g4 w5_def [symmetric] g6 md'_def [symmetric] g7)
              have "map_of md' n = None" using mdn ne by (simp add: md'_def update_conv')
              then have "\<not> recordedVolume w7 n"
                using saveVolumeMetadata_frame [OF g7] nr6 by (auto simp: recordedVolume_def)
              with res show ?thesis by simp
            qed
          qed
        qed
      qed
    qed
  qed
qed


lemma ensureVolumeExists_other:
  assumes nr: "\<not> recordedVolume w n" and ne: "v \<noteq> n"
  shows "\<not> recordedVolume (snd (ensureVolumeExists E w v config)) n"
proof -
  obtain r1 w1 where l: "loadVolumeMetadata w = (r1, w1)" by (cases "loadVolumeMetadata w")
  have nr1: "\<not> recordedVolume w1 n"
    using nr loadVolumeMetadata_frame(1) [OF l] by (simp add: recordedVolume_def)
  show ?thesis
    using nr1 createNamedVolume_other [OF nr1 ne]
    by (auto simp: ensureVolumeExists_def l split: sum.splits option.splits)
qed

lemma ensureVolumeExists_undeclared:
  assumes nr: "\<not> recordedVolume w n" and un: "map_of (ProjectVolumes config) n = None"
  shows "fst (ensureVolumeExists E w n config) \<noteq> None"
proof -
  obtain r1 w1 where l: "loadVolumeMetadata w = (r1, w1)" by (cases "loadVolumeMetadata w")
  show ?thesis
  proof (cases r1)
    case (Inl e)
    then show ?thesis by (simp add: ensureVolumeExists_def l)
  next
    case (Inr md)
    have "map_of md n = None" using loadVolumeMetadata_frame(2) [OF l Inr, of n] nr by simp
    then show ?thesis using un by (simp add: ensureVolumeExists_def l Inr)
  qed
qed

lemma getVolumeDiskPath_frame:
  "recordedVolume (snd (getVolumeDiskPath w v)) n = recordedVolume w n"
proof -
  obtain r1 w1 where l: "loadVolumeMetadata w = (r1, w1)" by (cases "loadVolumeMetadata w")
  have "snd (getVolumeDiskPath w v) = w1"
    by (simp add: getVolumeDiskPath_def l split: sum.splits option.splits)
  then show ?thesis
    using loadVolumeMetadata_frame(1) [OF l] by (simp add: recordedVolume_def)
qed

lemma parseMounts_undeclared:
  "\<exists>m \<in> set ms. \<not> isBindMount (Source m) \<and> map_of (ProjectVolumes config) (Source m) = None
       \<and> \<not> recordedVolume w (Source m) \<Longrightarrow>
     isl (fst (parseMounts E w vmName config composeFilePath ms acc))"
proof (induction ms arbitrary: w acc)
  case Nil
  then show ?case by simp
next
  case (Cons m ms)
  from Cons.prems obtain m0 where m0: "m0 \<in> set (m # ms)" "\<not> isBindMount (Source m0)"
    "map_of (ProjectVolumes config) (Source m0) = None" "\<not> recordedVolume w (Source m0)"
    by blast
  show ?case
  proof (cases "HasPrefix (Target m) ''/''")
    case False
    then show ?thesis by simp
  next
    case abs: True
    show ?thesis
    proof (cases "isBindMount (Source m)")
      case True
      with m0 have "m0 \<in> set ms" by auto
      with m0 have "\<exists>m \<in> set ms. \<not> isBindMount (Source m)
          \<and> map_of (ProjectVolumes config) (Source m) = None \<and> \<not> recordedVolume w (Source m)"
        by blast
      note ih = Cons.IH [OF this]
      show ?thesis using abs True ih by (simp add: Let_def split: sum.splits)
    next
      case named: False
      obtain r1 w1 where e: "ensureVolumeExists E w (Source m) config = (r1, w1)"
        by (cases "ensureVolumeExists E w (Source m) config")
      show ?thesis
      proof (cases r1)
        case (Some err)
        then show ?thesis using abs named by (simp add: Let_def e)
      next
        case None
        have ne: "Source m \<noteq> Source m0"
        proof
          assume "Source m = Source m0"
          with ensureVolumeExists_undeclared [OF m0(4) m0(3), of E] e None show False by simp
        qed
        then have "m0 \<in> set ms" using m0(1) by auto
        have "\<not> recordedVolume w1 (Source m0)"
          using ensureVolumeExists_other [OF m0(4) ne, of E config] e by simp
        then have nr2: "\<not> recordedVolume (snd (getVolumeDiskPath w1 (Source m))) (Source m0)"
          by (simp add: getVolumeDiskPath_frame)
        obtain r2 w2 where g: "getVolumeDiskPath w1 (Source m) = (r2, w2)"
          by (cases "getVolumeDiskPath w1 (Source m)")
        from nr2 g have "\<not> recordedVolume w2 (Source m0)" by simp
        with \<open>m0 \<in> set ms\<close> m0 have "\<exists>m \<in> set ms. \<not> isBindMount (Source m)
          \<and> map_of (ProjectVolumes config) (Source m) = None \<and> \<not> recordedVolume w2 (Source m)"
          by blast
        note ih = Cons.IH [OF this]
        show ?thesis using abs named None ih by (simp add: Let_def e g split: sum.splits)
      qed
    qed
  qed
qed

text \<open>
  Claim C3 has loading reject a document whose VM lacks \<open>image\<close>, \<open>cpu\<close> or
  \<open>memory\<close>, or has a volume target that is not absolute, or mounts a named volume
  declared nowhere. \<open>loadComposeFile\<close> reads and decodes, and checks nothing else:
  the document \<open>composeBad\<close> has all three defects and loads, the missing fields
  as the empty string and zero. Nor is a missing declaration always an error
  afterwards: \<open>parseVMVolumes\<close> accepts the volume \<open>data\<close>, declared nowhere, in the
  workspace whose \<open>volumes.json\<close> records it.
\<close>

theorem loadComposeFile_no_validation_counterexample:
  "loadComposeFile composeBad =
     Inr \<lparr>Version = ''1.0'', ProjectNetworks = [], ProjectVolumes = [],
          VMs = [(''db'',
                  \<lparr>Image = [], CPU = 0, Memory = 0, Networks = [],
                   Volumes = [\<lparr>Source = ''cache'', Target = ''mnt/cache'', ReadOnly = False,
                               Automount = None, MountOptions = []\<rparr>],
                   Disk = None, SSH = None\<rparr>)]\<rparr>
   \<and> map_of (ProjectVolumes configEmpty) ''data'' = None
   \<and> fst (parseVMVolumes envA worldV ''db'' vmData configEmpty ''compose.yaml'') =
       Inr [\<lparr>VolumeName = ''data'', MountPath = ''/mnt/data'', MountReadOnly = False,
             MountAutomount = True, MountMountOptions = [], IsBindMount = False, HostPath = [],
             DiskPath = ''/home/user/demo/.qemu-compose/volumes/data/volume.qcow2''\<rparr>]"
  by code_simp

text \<open>
  Claim C3, amended. \<open>loadComposeFile\<close>, which is a function of the document alone
  and touches nothing, fails when the file cannot be read, when \<open>yaml.Unmarshal\<close>
  rejects the text (it is not YAML, or a value does not fit the type of its field),
  and when a VM has a \<open>volumes\<close> entry that does not decode: a short form with fewer
  than two parts or with a flag other than \<open>ro\<close>, or a node that is neither a scalar
  nor a mapping of the struct. It checks nothing else: a document without such an
  entry loads, whatever \<open>image\<close>, \<open>cpu\<close> and \<open>memory\<close>, the targets and the
  declarations are or are not. A target that is not absolute, and a named volume
  that is neither declared under the top-level \<open>volumes\<close> nor recorded in
  \<open>volumes.json\<close>, make \<open>parseVMVolumes\<close> fail.
\<close>

theorem loadComposeFile_rejects:
  "isl (loadComposeFile Unreadable) \<and> isl (loadComposeFile Malformed)
   \<and> isl (loadComposeFile Mistyped)
   \<and> ((\<exists>(name, raw) \<in> set vms. \<exists>entry \<in> set (raw_volumes raw). rejectedEntry entry) \<longrightarrow>
        isl (loadComposeFile (Document version nets vols vms)))
   \<and> ((\<forall>(name, raw) \<in> set vms. \<forall>entry \<in> set (raw_volumes raw). \<not> rejectedEntry entry) \<longrightarrow>
        \<not> isl (loadComposeFile (Document version nets vols vms)))
   \<and> ((\<exists>m \<in> set (Volumes vm). \<not> HasPrefix (Target m) ''/'') \<longrightarrow>
        isl (fst (parseVMVolumes E w vmName vm config composeFilePath)))
   \<and> ((\<exists>m \<in> set (Volumes vm). \<not> isBindMount (Source m)
            \<and> map_of (ProjectVolumes config) (Source m) = None
            \<and> \<not> recordedVolume w (Source m)) \<longrightarrow>
        isl (fst (parseVMVolumes E w vmName vm config composeFilePath)))"
proof -
  have a: "isl (loadComposeFile Unreadable) \<and> isl (loadComposeFile Malformed)
      \<and> isl (loadComposeFile Mistyped)"
    by (simp add: loadComposeFile_def)
  have b: "(\<exists>(name, raw) \<in> set vms. \<exists>entry \<in> set (raw_volumes raw). rejectedEntry entry) \<longrightarrow>
        isl (loadComposeFile (Document version nets vols vms))"
    by (simp only: loadComposeFile_Document_isl) simp
  have c: "(\<forall>(name, raw) \<in> set vms. \<forall>entry \<in> set (raw_volumes raw). \<not> rejectedEntry entry) \<longrightarrow>
        \<not> isl (loadComposeFile (Document version nets vols vms))"
    by (simp only: loadComposeFile_Document_isl) fastforce
  have d: "((\<exists>m \<in> set (Volumes vm). \<not> HasPrefix (Target m) ''/'') \<longrightarrow>
        isl (fst (parseVMVolumes E w vmName vm config composeFilePath)))
   \<and> ((\<exists>m \<in> set (Volumes vm). \<not> isBindMount (Source m)
            \<and> map_of (ProjectVolumes config) (Source m) = None
            \<and> \<not> recordedVolume w (Source m)) \<longrightarrow>
        isl (fst (parseVMVolumes E w vmName vm config composeFilePath)))"
    unfolding parseVMVolumes_def
    using parseMounts_relative [of "Volumes vm" E w vmName config composeFilePath "[]"]
      parseMounts_undeclared [of "Volumes vm" config w E vmName composeFilePath "[]"]
    by blast
  from a b c d show ?thesis by blast
qed

text \<open>The theorem at a document with the flag \<open>rw\<close>, at the document \<open>composeBad\<close>, at a
  VM mounting \<open>data\<close> on \<open>mnt/data\<close>, and at a VM mounting the undeclared volume
  \<open>cache\<close> in an empty workspace.\<close>

theorem loadComposeFile_rejects_witness:
  "rejectedEntry (Node (ShortForm ''data:/mnt/data:rw''))
   \<and> isl (loadComposeFile composeRW)
   \<and> \<not> rejectedEntry (Node (ShortForm ''cache:mnt/cache''))
   \<and> \<not> isl (loadComposeFile composeBad)
   \<and> \<not> HasPrefix ''mnt/data'' ''/''
   \<and> isl (fst (parseVMVolumes envA world0 ''db'' vmRelative configData ''compose.yaml''))
   \<and> \<not> isBindMount ''cache''
   \<and> map_of (ProjectVolumes configData) ''cache'' = None
   \<and> \<not> recordedVolume world0 ''cache''
   \<and> isl (fst (parseVMVolumes envA world0 ''db'' vmUndeclared configData ''compose.yaml''))"
proof -
  have a: "rejectedEntry (Node (ShortForm ''data:/mnt/data:rw''))"
    "\<not> rejectedEntry (Node (ShortForm ''cache:mnt/cache''))"
    by (simp_all add: rejectedEntry_def)
  have b: "\<not> HasPrefix ''mnt/data'' ''/''"
    "\<exists>m \<in> set (Volumes vmRelative). \<not> HasPrefix (Target m) ''/''"
    by (simp_all add: vmRelative_def HasPrefix_def)
  have c: "\<not> isBindMount ''cache''" "map_of (ProjectVolumes configData) ''cache'' = None"
      "\<not> recordedVolume world0 ''cache''"
    by (simp_all add: isBindMount_def HasPrefix_def configData_def recordedVolume_def
        world0_def Stat_def)
  then have c': "\<exists>m \<in> set (Volumes vmUndeclared). \<not> isBindMount (Source m)
            \<and> map_of (ProjectVolumes configData) (Source m) = None
            \<and> \<not> recordedVolume world0 (Source m)"
    by (simp add: vmUndeclared_def)
  have l: "isl (loadComposeFile composeRW)"
    unfolding composeRW_def
    using a(1) loadComposeFile_rejects [of "[(''db'',
         \<lparr>raw_image = Some ''fedora-cloud.qcow2'', raw_cpu = Some 2, raw_memory = Some 2048,
          raw_networks = [], raw_volumes = [Node (ShortForm ''data:/mnt/data:rw'')],
          raw_disk = None, raw_ssh = None\<rparr>)]" "''1.0''" "[]" "[(''data'', \<lparr>VolumeSize = ''5G''\<rparr>)]"]
    by simp
  have n: "\<not> isl (loadComposeFile composeBad)"
    unfolding composeBad_def
    using a(2) loadComposeFile_rejects [of "[(''db'',
         \<lparr>raw_image = None, raw_cpu = None, raw_memory = None, raw_networks = [],
          raw_volumes = [Node (ShortForm ''cache:mnt/cache'')], raw_disk = None, raw_ssh = None\<rparr>)]"
        "''1.0''" "[]" "[]"]
    by simp
  from b have r: "isl (fst (parseVMVolumes envA world0 ''db'' vmRelative configData ''compose.yaml''))"
    using loadComposeFile_rejects [of "[]" "[]" "[]" "[]" vmRelative envA world0 "''db''" configData "''compose.yaml''"]
    by blast
  from c' have u: "isl (fst (parseVMVolumes envA world0 ''db'' vmUndeclared configData ''compose.yaml''))"
    using loadComposeFile_rejects [of "[]" "[]" "[]" "[]" vmUndeclared envA world0 "''db''" configData "''compose.yaml''"]
    by blast
  from a b(1) c l n r u show ?thesis by blast
qed
end
